theory Spec2Isabelle
  imports Main "HOL-Library.Sublist" "HOL-Library.Word"
begin

section \<open>servicelogger: a shallow embedding\<close>

text \<open>
  The repository holds two versions of \<^verbatim>\<open>servicelogger.go\<close>: the file of that name and
  \<^verbatim>\<open>unnamed/part_000\<close>. Functions whose text is the same in both are embedded once;
  where the two differ, the function of \<^verbatim>\<open>servicelogger.go\<close> keeps the source's name and
  its counterpart of \<^verbatim>\<open>part_000\<close> carries the suffix \<open>_part000\<close>.
\<close>

subsection \<open>Log levels\<close>

text \<open>
  \<^verbatim>\<open>type LogLevel int\<close> with six named constants. The type is an integer type, so values
  outside 1..6 are values of it (\<^verbatim>\<open>LogLevelToString\<close> has a default branch for them).
\<close>

type_synonym LogLevel = int

definition LL_TRACE :: LogLevel where "LL_TRACE = 1"
definition LL_DEBUG :: LogLevel where "LL_DEBUG = 2"
definition LL_INFO :: LogLevel where "LL_INFO = 3"
definition LL_WARN :: LogLevel where "LL_WARN = 4"
definition LL_ERROR :: LogLevel where "LL_ERROR = 5"
definition LL_FATAL :: LogLevel where "LL_FATAL = 6"

definition StringToLogLevel :: "string \<Rightarrow> LogLevel" where
  "StringToLogLevel text =
     (if text = ''TRACE'' \<or> text = ''Trace'' \<or> text = ''trace'' then LL_TRACE
      else if text = ''DEBUG'' \<or> text = ''Debug'' \<or> text = ''debug'' then LL_DEBUG
      else if text = ''INFO'' \<or> text = ''Info'' \<or> text = ''info'' then LL_INFO
      else if text = ''WARN'' \<or> text = ''Warn'' \<or> text = ''warn'' then LL_WARN
      else if text = ''ERROR'' \<or> text = ''Error'' \<or> text = ''error'' then LL_ERROR
      else if text = ''FATAL'' \<or> text = ''Fatal'' \<or> text = ''fatal'' then LL_FATAL
      else LL_INFO)"

definition LogLevelToString :: "LogLevel \<Rightarrow> string" where
  "LogLevelToString lvl =
     (if lvl = LL_TRACE then ''TRACE''
      else if lvl = LL_DEBUG then ''DEBUG''
      else if lvl = LL_INFO then ''INFO''
      else if lvl = LL_WARN then ''WARN''
      else if lvl = LL_ERROR then ''ERROR''
      else if lvl = LL_FATAL then ''FATAL''
      else ''UNKNOWN'')"

text \<open>The six declared levels, in order.\<close>

definition declared_levels :: "LogLevel list" where
  "declared_levels = [LL_TRACE, LL_DEBUG, LL_INFO, LL_WARN, LL_ERROR, LL_FATAL]"

subsection \<open>Letter casings (the vocabulary of the case-insensitivity claim)\<close>

definition upper_letters :: string where
  "upper_letters = ''ABCDEFGHIJKLMNOPQRSTUVWXYZ''"

definition lower_letters :: string where
  "lower_letters = ''abcdefghijklmnopqrstuvwxyz''"

definition to_lower_char :: "char \<Rightarrow> char" where
  "to_lower_char c = (case map_of (zip upper_letters lower_letters) c of Some d \<Rightarrow> d | None \<Rightarrow> c)"

definition to_upper_char :: "char \<Rightarrow> char" where
  "to_upper_char c = (case map_of (zip lower_letters upper_letters) c of Some d \<Rightarrow> d | None \<Rightarrow> c)"

definition to_lower :: "string \<Rightarrow> string" where
  "to_lower s = map to_lower_char s"

definition to_upper :: "string \<Rightarrow> string" where
  "to_upper s = map to_upper_char s"

text \<open>First letter upper case, the rest lower case: \<open>Trace\<close>.\<close>

definition capitalised :: "string \<Rightarrow> string" where
  "capitalised s = (case s of [] \<Rightarrow> [] | c # cs \<Rightarrow> to_upper_char c # to_lower cs)"

text \<open>\<open>s\<close> is some letter casing of \<open>t\<close>: the two agree up to the case of letters.\<close>

definition same_letters :: "string \<Rightarrow> string \<Rightarrow> bool" where
  "same_letters s t = (to_upper s = to_upper t)"

text \<open>The three spellings of a level name that the switch of \<^verbatim>\<open>StringToLogLevel\<close> lists.\<close>

definition listed_spellings :: "LogLevel \<Rightarrow> string list" where
  "listed_spellings lvl =
     [LogLevelToString lvl, capitalised (LogLevelToString lvl), to_lower (LogLevelToString lvl)]"

subsection \<open>Errors\<close>

text \<open>
  The error values of the package and of the library calls it makes: the two
  \<^verbatim>\<open>errors.New\<close> values, \<^verbatim>\<open>strconv\<close>'s syntax and range errors (with the text that was
  parsed), the file system's errors (operation and path) and a JSON decoding error.
\<close>

datatype error =
    UnknownModifier
  | KeepTooLow
  | AtoiSyntax string
  | AtoiRange string
  | NotExist string string
  | Refused string string
  | JsonError string

subsection \<open>Decimal numbers: \<^verbatim>\<open>%d\<close> and \<^verbatim>\<open>strconv.Atoi\<close>\<close>

definition digit_chars :: string where
  "digit_chars = ''0123456789''"

function showNat :: "nat \<Rightarrow> string" where
  "showNat n = (if n < 10 then [digit_chars ! n] else showNat (n div 10) @ [digit_chars ! (n mod 10)])"
  by pat_completeness auto
termination
  by (relation "measure id") auto

declare showNat.simps [simp del]

text \<open>\<^verbatim>\<open>fmt.Sprintf("%d", i)\<close>: a minus sign for a negative number, then the decimal digits.\<close>

definition showInt :: "int \<Rightarrow> string" where
  "showInt i = (if i < 0 then CHR ''-'' # showNat (nat (- i)) else showNat (nat i))"

definition is_digit :: "char \<Rightarrow> bool" where
  "is_digit c = (48 \<le> (of_char c :: nat) \<and> (of_char c :: nat) \<le> 57)"

definition digit_val :: "char \<Rightarrow> nat" where
  "digit_val c = of_char c - 48"

datatype num_error = ErrSyntax | ErrRange

definition maxVal :: nat where "maxVal = 2 ^ 64 - 1"
definition cutoff :: nat where "cutoff = maxVal div 10 + 1"

text \<open>
  \<^verbatim>\<open>strconv.ParseUint(s, 10, 64)\<close> on a non-empty string, digit by digit: a byte that is
  not a decimal digit is a syntax error, a value that leaves 64 bits a range error,
  whichever comes first.
\<close>

fun ParseUint :: "string \<Rightarrow> nat \<Rightarrow> num_error + nat" where
  "ParseUint [] n = Inr n"
| "ParseUint (c # cs) n =
     (if \<not> is_digit c then Inl ErrSyntax
      else if n \<ge> cutoff then Inl ErrRange
      else let n1 = n * 10 + digit_val c in
        if n1 > maxVal then Inl ErrRange else ParseUint cs n1)"

text \<open>
  \<^verbatim>\<open>strconv.Atoi\<close> with a 64-bit \<^verbatim>\<open>int\<close> (the package's constant \<^verbatim>\<open>1024*1024*1024*1024\<close>
  does not compile with a 32-bit one): an optional sign, at least one digit, digits only,
  and a value between \<open>-2^63\<close> and \<open>2^63 - 1\<close>. Its fast path for short strings computes
  the same result as \<^verbatim>\<open>ParseInt(s, 10, 0)\<close>, which is what is written out here.
\<close>

definition Atoi :: "string \<Rightarrow> error + int" where
  "Atoi s0 =
     (if s0 = [] then Inl (AtoiSyntax s0)
      else
        let neg = (hd s0 = CHR ''-'');
            s = (if hd s0 = CHR ''+'' \<or> hd s0 = CHR ''-'' then tl s0 else s0)
        in if s = [] then Inl (AtoiSyntax s0)
           else (case ParseUint s 0 of
                   Inl ErrSyntax \<Rightarrow> Inl (AtoiSyntax s0)
                 | Inl ErrRange \<Rightarrow> Inl (AtoiRange s0)
                 | Inr un \<Rightarrow>
                     if \<not> neg \<and> un \<ge> 2 ^ 63 then Inl (AtoiRange s0)
                     else if neg \<and> un > 2 ^ 63 then Inl (AtoiRange s0)
                     else Inr (if neg then - int un else int un)))"

text \<open>A 64-bit signed integer holding \<open>x\<close> modulo \<open>2^64\<close>: Go's arithmetic on \<^verbatim>\<open>int\<close> wraps.\<close>

definition int64 :: "int \<Rightarrow> int" where
  "int64 x = sint (word_of_int x :: 64 word)"

subsection \<open>\<^verbatim>\<open>logSizeStringToLogSizeInt64\<close>\<close>

text \<open>
  \<^verbatim>\<open>
  modifier := 0
  if strings.HasSuffix(lss, "K") { modifier = 1024
  } else if strings.HasSuffix(lss, "M") { modifier = 1024 * 1024
  } else if strings.HasSuffix(lss, "G") { modifier = 1024 * 1024 * 1024
  } else if strings.HasSuffix(lss, "T") { modifier = 1024 * 1024 * 1024 * 1024
  } else { return l, errors.New("unknown rotation size modifier, ...") }
  il, err := strconv.Atoi(lss[:len(lss)-1])
  if err != nil { return l, err }
  l = int64(il * modifier)
  return l, nil
  \<close>
  The result is the error or the size; on an error the source's \<^verbatim>\<open>l\<close> is 0.
\<close>

definition logSizeStringToLogSizeInt64 :: "string \<Rightarrow> error + int" where
  "logSizeStringToLogSizeInt64 lss =
     (let scaled = (\<lambda>modifier :: int.
            case Atoi (butlast lss) of
              Inl err \<Rightarrow> Inl err
            | Inr il \<Rightarrow> Inr (int64 (il * modifier)))
      in if suffix ''K'' lss then scaled 1024
         else if suffix ''M'' lss then scaled (1024 * 1024)
         else if suffix ''G'' lss then scaled (1024 * 1024 * 1024)
         else if suffix ''T'' lss then scaled (1024 * 1024 * 1024 * 1024)
         else Inl UnknownModifier)"

text \<open>The vocabulary of the claim about sizes: the four units and their multipliers.\<close>

definition size_units :: "(char \<times> int) list" where
  "size_units = [(CHR ''K'', 1024), (CHR ''M'', 1024 ^ 2), (CHR ''G'', 1024 ^ 3), (CHR ''T'', 1024 ^ 4)]"

text \<open>
  A magnitude is non-numeric when, an optional sign apart, it is empty or has a byte that
  is not a decimal digit.
\<close>

definition magnitude_digits :: "string \<Rightarrow> string" where
  "magnitude_digits s = (if s \<noteq> [] \<and> (hd s = CHR ''+'' \<or> hd s = CHR ''-'') then tl s else s)"

definition non_numeric :: "string \<Rightarrow> bool" where
  "non_numeric s = (magnitude_digits s = [] \<or> \<not> list_all is_digit (magnitude_digits s))"

subsection \<open>The data model\<close>

text \<open>
  \<^verbatim>\<open>FacilityFilter{filter string; level LogLevel}\<close> and
  \<^verbatim>\<open>FacilityFilters{count int; filters []FacilityFilter}\<close>. The field \<^verbatim>\<open>filter\<close> is
  \<open>filter_str\<close> here and the slice \<^verbatim>\<open>filters\<close> of \<^verbatim>\<open>FacilityFilters\<close> is \<open>filter_list\<close>
  (\<open>filter\<close> is a list function of HOL, \<open>filters\<close> is the field of \<^verbatim>\<open>Logger\<close>).
\<close>

record FacilityFilter =
  filter_str :: string
  level :: LogLevel

record FacilityFilters =
  count :: int
  filter_list :: "FacilityFilter list"

text \<open>
  An open file is known by its handle, the number of the file it was opened on. The
  \<^verbatim>\<open>*log.Logger\<close> in \<^verbatim>\<open>base\<close> writes to the file it was created on, so it is the handle of
  that file; \<^verbatim>\<open>nil\<close> is \<open>None\<close>. The fields \<^verbatim>\<open>prefix\<close> and \<^verbatim>\<open>rotate\<close> are \<open>prefix_l\<close> and
  \<open>rotate_l\<close> (\<open>prefix\<close> and \<open>rotate\<close> are list functions of HOL). \<^verbatim>\<open>rotatesize\<close> is an
  \<^verbatim>\<open>int64\<close> and \<^verbatim>\<open>keep\<close> an \<^verbatim>\<open>int\<close>; nothing in the package computes with them beyond
  comparisons and \<^verbatim>\<open>keep - 1\<close>, \<^verbatim>\<open>i + 1\<close> on small numbers, so they are \<open>int\<close> here.
\<close>

type_synonym handle = nat

record Logger =
  base :: "handle option"
  prefix_l :: string
  MinLoglevel :: LogLevel
  filename :: string
  rotate_l :: bool
  rotatesize :: int
  keep :: int
  filehandle :: "handle option"
  rotation_running :: bool
  filters :: FacilityFilters

text \<open>The zero value of \<^verbatim>\<open>Logger\<close>: what the named result \<^verbatim>\<open>l\<close> of \<^verbatim>\<open>New\<close> starts as.\<close>

definition zero_Logger :: Logger where
  "zero_Logger =
     \<lparr>base = None, prefix_l = [], MinLoglevel = 0, filename = [], rotate_l = False,
      rotatesize = 0, keep = 0, filehandle = None, rotation_running = False,
      filters = \<lparr>count = 0, filter_list = []\<rparr>\<rparr>"

subsection \<open>\<^verbatim>\<open>getFilteredLogLevel\<close>\<close>

definition newline :: string where
  "newline = [CHR 0x0A]"

text \<open>
  \<^verbatim>\<open>servicelogger.go\<close>:
  \<^verbatim>\<open>
  fmt.Println(fmt.Sprintf("Determining filtered level for facility %s", facility))
  var foundfilter int = -1
  for n, filter := range slog.filters.filters {
      if strings.HasPrefix(facility, filter.filter) {
          fmt.Println(fmt.Sprintf("Filter %s matches", filter.filter))
          if foundfilter > -1 {
              if len(filter.filter) > len(slog.filters.filters[foundfilter].filter) {
                  foundfilter = n
                  fmt.Println("This is now the best match")
              }
          }
      }
  }
  if foundfilter > -1 {
      fmt.Println(fmt.Sprintf("After checking filters, the best match is %s, with log level %s", ...))
      return slog.filters.filters[foundfilter].level
  }
  fmt.Println("No match was found, returning the default log level")
  return slog.MinLoglevel
  \<close>
  The loop runs over the filters that remain, with the index \<open>n\<close> of the next one, the value
  of \<^verbatim>\<open>foundfilter\<close> and the text printed so far. The index \<^verbatim>\<open>foundfilter\<close> is read only
  under \<^verbatim>\<open>foundfilter > -1\<close>, where it is the index of a filter seen before. The function
  returns the level and the text it printed to standard output.
\<close>

fun getFilteredLogLevel_loop ::
  "FacilityFilter list \<Rightarrow> string \<Rightarrow> FacilityFilter list \<Rightarrow> int \<Rightarrow> int \<times> string \<Rightarrow> int \<times> string" where
  "getFilteredLogLevel_loop all facility [] n (foundfilter, out) = (foundfilter, out)"
| "getFilteredLogLevel_loop all facility (f # rest) n (foundfilter, out) =
     getFilteredLogLevel_loop all facility rest (n + 1)
       (if prefix (filter_str f) facility then
          let out1 = out @ ''Filter '' @ filter_str f @ '' matches'' @ newline in
          if foundfilter > -1 then
            if length (filter_str f) > length (filter_str (all ! nat foundfilter))
            then (n, out1 @ ''This is now the best match'' @ newline)
            else (foundfilter, out1)
          else (foundfilter, out1)
        else (foundfilter, out))"

definition getFilteredLogLevel :: "Logger \<Rightarrow> string \<Rightarrow> LogLevel \<times> string" where
  "getFilteredLogLevel slog facility =
     (let all = filter_list (filters slog);
          out0 = ''Determining filtered level for facility '' @ facility @ newline;
          (foundfilter, out) = getFilteredLogLevel_loop all facility all 0 (- 1, out0)
      in if foundfilter > -1 then
           (level (all ! nat foundfilter),
            out @ ''After checking filters, the best match is '' @ filter_str (all ! nat foundfilter)
              @ '', with log level '' @ LogLevelToString (level (all ! nat foundfilter)) @ newline)
         else (MinLoglevel slog, out @ ''No match was found, returning the default log level'' @ newline))"

text \<open>
  \<^verbatim>\<open>part_000\<close>: the prints are comments there, the comparison is \<^verbatim>\<open>>=\<close>, and the first
  test has an \<^verbatim>\<open>else\<close>:
  \<^verbatim>\<open>
  if strings.HasPrefix(facility, filter.filter) {
      if foundfilter > -1 {
          if len(filter.filter) >= len(slog.filters.filters[foundfilter].filter) {
              foundfilter = n
          }
      } else {
          foundfilter = n
      }
  }
  \<close>
\<close>

fun getFilteredLogLevel_loop_part000 ::
  "FacilityFilter list \<Rightarrow> string \<Rightarrow> FacilityFilter list \<Rightarrow> int \<Rightarrow> int \<Rightarrow> int" where
  "getFilteredLogLevel_loop_part000 all facility [] n foundfilter = foundfilter"
| "getFilteredLogLevel_loop_part000 all facility (f # rest) n foundfilter =
     getFilteredLogLevel_loop_part000 all facility rest (n + 1)
       (if prefix (filter_str f) facility then
          if foundfilter > -1 then
            if length (filter_str f) \<ge> length (filter_str (all ! nat foundfilter))
            then n
            else foundfilter
          else n
        else foundfilter)"

definition getFilteredLogLevel_part000 :: "Logger \<Rightarrow> string \<Rightarrow> LogLevel" where
  "getFilteredLogLevel_part000 slog facility =
     (let all = filter_list (filters slog);
          foundfilter = getFilteredLogLevel_loop_part000 all facility all 0 (- 1)
      in if foundfilter > -1 then level (all ! nat foundfilter) else MinLoglevel slog)"

text \<open>
  The vocabulary of the longest-prefix claim: a filter matches a facility name when its
  string is a prefix of the name.
\<close>

definition matches :: "FacilityFilter \<Rightarrow> string \<Rightarrow> bool" where
  "matches f facility = prefix (filter_str f) facility"

subsection \<open>\<^verbatim>\<open>AddFacilityFilter\<close>\<close>

definition AddFacilityFilter :: "Logger \<Rightarrow> string \<Rightarrow> LogLevel \<Rightarrow> Logger" where
  "AddFacilityFilter slog filtername filterlevel =
     (let ffilter = \<lparr>filter_str = filtername, level = filterlevel\<rparr>
      in slog\<lparr>filters := \<lparr>count = count (filters slog) + 1,
                            filter_list = filter_list (filters slog) @ [ffilter]\<rparr>\<rparr>)"

text \<open>
  The example of the specification: filters \<open>svc\<close> at DEBUG and \<open>svc.db\<close> at ERROR, on a
  logger whose minimum level is INFO.
\<close>

definition svc_filters :: "FacilityFilter list" where
  "svc_filters =
     [\<lparr>filter_str = ''svc'', level = LL_DEBUG\<rparr>, \<lparr>filter_str = ''svc.db'', level = LL_ERROR\<rparr>]"

definition svc_logger :: Logger where
  "svc_logger = zero_Logger\<lparr>MinLoglevel := LL_INFO, filters := \<lparr>count = 2, filter_list = svc_filters\<rparr>\<rparr>"

text \<open>
  The invariant of the loop of \<^verbatim>\<open>part_000\<close> after \<open>k\<close> filters: \<^verbatim>\<open>foundfilter\<close> is \<open>-1\<close> and
  none of them matches, or it is the index of a matching one whose string is at least as
  long as that of every matching one among them.
\<close>

definition best_so_far :: "FacilityFilter list \<Rightarrow> string \<Rightarrow> nat \<Rightarrow> int \<Rightarrow> bool" where
  "best_so_far all facility k found =
     (if found = - 1 then (\<forall>j < k. \<not> matches (all ! j) facility)
      else 0 \<le> found \<and> nat found < k \<and> matches (all ! nat found) facility \<and>
           (\<forall>j < k. matches (all ! j) facility \<longrightarrow>
              length (filter_str (all ! j)) \<le> length (filter_str (all ! nat found))))"

subsection \<open>The world outside the package: files and standard streams\<close>

text \<open>
  A file has its bytes and its permission bits. The directory \<open>names\<close> maps a path to the
  file it names; an open handle keeps naming the same file when the path is renamed or
  removed, which is what rotation relies on. \<open>next_inode\<close> numbers the next file created.
  \<open>refused opn path\<close> says that the operating system refuses the operation \<open>opn\<close>
  (\<open>open\<close>, \<open>rename\<close> or \<open>remove\<close>) on the path, for want of a permission, of space or of
  a file descriptor; \<^verbatim>\<open>os.Stat\<close> and \<^verbatim>\<open>os.ReadFile\<close> fail only on a path that names nothing.
  Directories, links and concurrent processes are not modelled.
\<close>

record inode =
  bytes :: string
  perm :: nat

record world =
  names :: "string \<Rightarrow> handle option"
  inodes :: "handle \<Rightarrow> inode"
  next_inode :: handle
  refused :: "string \<Rightarrow> string \<Rightarrow> bool"
  stdout :: string
  stderr :: string

text \<open>How a call ends: it returns, the process exits with a status, or it panics.\<close>

datatype 'a outcome = Returned 'a world | Exited int world | Panicked world

text \<open>\<^verbatim>\<open>0640\<close>: owner read and write, group read.\<close>

definition mode_0640 :: nat where
  "mode_0640 = 6 * 64 + 4 * 8 + 0"

text \<open>\<^verbatim>\<open>os.Stat(name)\<close>, as far as the package reads it: an error or the size.\<close>

definition Stat :: "string \<Rightarrow> world \<Rightarrow> error + int" where
  "Stat name w =
     (case names w name of
        None \<Rightarrow> Inl (NotExist ''stat'' name)
      | Some h \<Rightarrow> Inr (int (length (bytes (inodes w h)))))"

definition Remove :: "string \<Rightarrow> world \<Rightarrow> error option \<times> world" where
  "Remove name w =
     (case names w name of
        None \<Rightarrow> (Some (NotExist ''remove'' name), w)
      | Some h \<Rightarrow>
          if refused w ''remove'' name then (Some (Refused ''remove'' name), w)
          else (None, w\<lparr>names := (names w)(name := None)\<rparr>))"

text \<open>\<^verbatim>\<open>os.Rename\<close> replaces the file that the new path names, if any.\<close>

definition Rename :: "string \<Rightarrow> string \<Rightarrow> world \<Rightarrow> error option \<times> world" where
  "Rename oldpath newpath w =
     (case names w oldpath of
        None \<Rightarrow> (Some (NotExist ''rename'' oldpath), w)
      | Some h \<Rightarrow>
          if refused w ''rename'' oldpath \<or> refused w ''rename'' newpath
          then (Some (Refused ''rename'' oldpath), w)
          else (None, w\<lparr>names := ((names w)(oldpath := None))(newpath := Some h)\<rparr>))"

text \<open>
  \<^verbatim>\<open>os.OpenFile(name, os.O_APPEND|os.O_CREATE|os.O_WRONLY, mode)\<close>: the file that the path
  names, or a new empty file with the given permission bits (the process's umask is taken
  to be 0).
\<close>

definition OpenFile :: "string \<Rightarrow> nat \<Rightarrow> world \<Rightarrow> (error + handle) \<times> world" where
  "OpenFile name mode w =
     (if refused w ''open'' name then (Inl (Refused ''open'' name), w)
      else case names w name of
        Some h \<Rightarrow> (Inr h, w)
      | None \<Rightarrow>
          let h = next_inode w
          in (Inr h, w\<lparr>names := (names w)(name := Some h),
                       inodes := (inodes w)(h := \<lparr>bytes = [], perm = mode\<rparr>),
                       next_inode := h + 1\<rparr>))"

definition ReadFile :: "string \<Rightarrow> world \<Rightarrow> error + string" where
  "ReadFile name w =
     (case names w name of
        None \<Rightarrow> Inl (NotExist ''open'' name)
      | Some h \<Rightarrow> Inr (bytes (inodes w h)))"

definition append_bytes :: "handle \<Rightarrow> string \<Rightarrow> world \<Rightarrow> world" where
  "append_bytes h s w =
     w\<lparr>inodes := (inodes w)(h := (inodes w h)\<lparr>bytes := bytes (inodes w h) @ s\<rparr>)\<rparr>"

text \<open>
  The time of day is not modelled: a line written through a \<^verbatim>\<open>log.Logger\<close> starts with a
  placeholder of the width of its time stamp, 27 bytes with
  \<^verbatim>\<open>log.Ldate|log.Ltime|log.Lmicroseconds\<close> and 20 bytes with the standard logger's flags.
\<close>

definition stamp_micro :: string where
  "stamp_micro = ''2006/01/02 15:04:05.000000 ''"

definition stamp_std :: string where
  "stamp_std = ''2006/01/02 15:04:05 ''"

text \<open>
  \<^verbatim>\<open>l.base.Println(s)\<close> and, in \<^verbatim>\<open>part_000\<close>, \<^verbatim>\<open>l.base.Printf\<close> with a format that ends in a
  newline: the stamp, the text and one newline, appended to the file of the handle.
\<close>

definition log_Println :: "handle \<Rightarrow> string \<Rightarrow> world \<Rightarrow> world" where
  "log_Println h s w = append_bytes h (stamp_micro @ s @ newline) w"

definition fmt_Print :: "string \<Rightarrow> world \<Rightarrow> world" where
  "fmt_Print s w = w\<lparr>stdout := stdout w @ s\<rparr>"

definition fmt_Println :: "string \<Rightarrow> world \<Rightarrow> world" where
  "fmt_Println s w = fmt_Print (s @ newline) w"

definition ensure_newline :: "string \<Rightarrow> string" where
  "ensure_newline s = (if s = [] \<or> last s \<noteq> CHR 0x0A then s @ newline else s)"

text \<open>\<^verbatim>\<open>log.Fatal(msg)\<close>: the message on standard error, then \<^verbatim>\<open>os.Exit(1)\<close>.\<close>

definition log_Fatal :: "string \<Rightarrow> world \<Rightarrow> 'a outcome" where
  "log_Fatal msg w = Exited 1 (w\<lparr>stderr := stderr w @ stamp_std @ ensure_newline msg\<rparr>)"

definition single_quoted :: "string \<Rightarrow> string" where
  "single_quoted s = [CHR 0x27] @ s @ [CHR 0x27]"

definition double_quoted :: "string \<Rightarrow> string" where
  "double_quoted s = [CHR 0x22] @ s @ [CHR 0x22]"

text \<open>\<^verbatim>\<open>err.Error()\<close> (\<^verbatim>\<open>strconv\<close> quotes the text it parsed; the quoting of special bytes is left out).\<close>

fun errorString :: "error \<Rightarrow> string" where
  "errorString UnknownModifier =
     ''unknown rotation size modifier, allowed modifiers: '' @ single_quoted ''K'' @ '', ''
       @ single_quoted ''M'' @ '', '' @ single_quoted ''G'' @ '', '' @ single_quoted ''T''"
| "errorString KeepTooLow = ''keep_rotated too low (>=2)''"
| "errorString (AtoiSyntax s) = ''strconv.Atoi: parsing '' @ double_quoted s @ '': invalid syntax''"
| "errorString (AtoiRange s) = ''strconv.Atoi: parsing '' @ double_quoted s @ '': value out of range''"
| "errorString (NotExist opn path) = opn @ '' '' @ path @ '': no such file or directory''"
| "errorString (Refused opn path) = opn @ '' '' @ path @ '': permission denied''"
| "errorString (JsonError msg) = msg"

subsection \<open>\<^verbatim>\<open>New\<close>\<close>

text \<open>
  \<^verbatim>\<open>
  l.filename = filename
  l.rotate = rotate
  if keep < 2 && rotate { return l, errors.New("keep_rotated too low (>=2)") }
  l.keep = keep
  l.prefix = prefix
  l.rotatesize, err = logSizeStringToLogSizeInt64(rotatesize)
  if err != nil { log.Fatal(fmt.Sprintf("FATAL: Incorrect log rotation size: %s", err.Error())) }
  l.filehandle, err = os.OpenFile(filename, os.O_APPEND|os.O_CREATE|os.O_WRONLY, 0640)
  if err != nil { log.Fatal("FATAL: Unable to open log file: " + err.Error()) }
  l.MinLoglevel = minloglevel
  l.base = log.New(l.filehandle, "", log.Ldate|log.Ltime|log.Lmicroseconds)
  l.rotation_running = false
  return l, err
  \<close>
\<close>

definition New ::
  "string \<Rightarrow> string \<Rightarrow> LogLevel \<Rightarrow> bool \<Rightarrow> string \<Rightarrow> int \<Rightarrow> world \<Rightarrow> (Logger \<times> error option) outcome" where
  "New prefix_arg filename_arg minloglevel rotate_arg rotatesize_arg keep_arg w =
     (let l = zero_Logger\<lparr>filename := filename_arg, rotate_l := rotate_arg\<rparr>
      in if keep_arg < 2 \<and> rotate_arg then Returned (l, Some KeepTooLow) w
         else
           let l1 = l\<lparr>keep := keep_arg, prefix_l := prefix_arg\<rparr>
           in case logSizeStringToLogSizeInt64 rotatesize_arg of
                Inl err \<Rightarrow> log_Fatal (''FATAL: Incorrect log rotation size: '' @ errorString err) w
              | Inr sz \<Rightarrow>
                  (case OpenFile filename_arg mode_0640 w of
                     (Inl err, w1) \<Rightarrow>
                       log_Fatal (''FATAL: Unable to open log file: '' @ errorString err) w1
                   | (Inr h, w1) \<Rightarrow>
                       Returned (l1\<lparr>rotatesize := sz, filehandle := Some h, MinLoglevel := minloglevel,
                                    base := Some h, rotation_running := False\<rparr>, None) w1))"

subsection \<open>\<^verbatim>\<open>LoadFacilityFilters\<close>\<close>

text \<open>
  \<^verbatim>\<open>
  fcontents, err := os.ReadFile(filename)
  if err != nil { return err }
  var lfilters map[string]string
  err = json.Unmarshal(fcontents, &lfilters)
  if err != nil { return err }
  for fname, flevel := range lfilters {
      lflevel := StringToLogLevel(flevel)
      slog.AddFacilityFilter(fname, lflevel)
  }
  return nil
  \<close>
  \<^verbatim>\<open>json.Unmarshal\<close> is the library's: it is the parameter \<open>unmarshal\<close>, which gives the
  decoding error or the entries of the decoded map in the order in which \<^verbatim>\<open>range\<close> visits
  them (an order that Go leaves open).
\<close>

definition LoadFacilityFilters ::
  "(string \<Rightarrow> error + (string \<times> string) list) \<Rightarrow> Logger \<Rightarrow> string \<Rightarrow> world \<Rightarrow> Logger \<times> error option" where
  "LoadFacilityFilters unmarshal slog filename_arg w =
     (case ReadFile filename_arg w of
        Inl err \<Rightarrow> (slog, Some err)
      | Inr fcontents \<Rightarrow>
          (case unmarshal fcontents of
             Inl err \<Rightarrow> (slog, Some err)
           | Inr lfilters \<Rightarrow>
               (foldl (\<lambda>s (fname, flevel). AddFacilityFilter s fname (StringToLogLevel flevel))
                  slog lfilters, None)))"

subsection \<open>Example worlds\<close>

definition empty_world :: world where
  "empty_world =
     \<lparr>names = (\<lambda>_. None), inodes = (\<lambda>_. \<lparr>bytes = [], perm = 0\<rparr>), next_inode = 0,
      refused = (\<lambda>_ _. False), stdout = [], stderr = []\<rparr>"

text \<open>A filter file with one entry, a file that is not JSON, and a decoder that knows the two.\<close>

definition filter_json :: string where
  "filter_json = ''{'' @ double_quoted ''svc.db'' @ '': '' @ double_quoted ''debug'' @ ''}''"

definition filter_world :: world where
  "filter_world =
     empty_world\<lparr>names := (\<lambda>_. None)(''filters.json'' := Some 0, ''broken.json'' := Some 1),
                 inodes := (\<lambda>_. \<lparr>bytes = [], perm = 0\<rparr>)
                   (0 := \<lparr>bytes = filter_json, perm = mode_0640\<rparr>,
                    1 := \<lparr>bytes = ''{'', perm = mode_0640\<rparr>),
                 next_inode := 2\<rparr>"

definition example_unmarshal :: "string \<Rightarrow> error + (string \<times> string) list" where
  "example_unmarshal text =
     (if text = filter_json then Inr [(''svc.db'', ''debug'')]
      else Inl (JsonError ''unexpected end of JSON input''))"

subsection \<open>Logging calls: shared pieces\<close>

text \<open>
  \<^verbatim>\<open>logRotate\<close> calls \<^verbatim>\<open>LogTrace\<close>, which calls \<^verbatim>\<open>logRotate\<close>. The recursion stops because of
  the flag \<^verbatim>\<open>rotation_running\<close>, which is a fact about the program and not a measure on the
  arguments: the functions take a fuel, every call of one of the recursive functions uses
  one unit up, and \<open>None\<close> is a call that ran out of fuel. That three units are enough for
  \<^verbatim>\<open>logRotate\<close> is proved below.
\<close>

definition and_then ::
  "'a outcome option \<Rightarrow> ('a \<Rightarrow> world \<Rightarrow> 'b outcome option) \<Rightarrow> 'b outcome option" where
  "and_then m f =
     (case m of
        None \<Rightarrow> None
      | Some (Returned a w) \<Rightarrow> f a w
      | Some (Exited c w) \<Rightarrow> Some (Exited c w)
      | Some (Panicked w) \<Rightarrow> Some (Panicked w))"

text \<open>\<^verbatim>\<open>fmt.Sprintf("%s.%s.%s", l.prefix, source, function)\<close>\<close>

definition facility_name :: "Logger \<Rightarrow> string \<Rightarrow> string \<Rightarrow> string" where
  "facility_name l source function = prefix_l l @ ''.'' @ source @ ''.'' @ function"

text \<open>\<^verbatim>\<open>fmt.Sprintf("TRACE   [%s] %s.%s %s", function, l.prefix, source, text)\<close>, for any label.\<close>

definition format_line :: "string \<Rightarrow> string \<Rightarrow> string \<Rightarrow> string \<Rightarrow> string \<Rightarrow> string" where
  "format_line label function pfx source text =
     label @ ''['' @ function @ ''] '' @ pfx @ ''.'' @ source @ '' '' @ text"

text \<open>\<^verbatim>\<open>fmt.Sprintf("%s.%d", l.filename, i)\<close>\<close>

definition generation :: "string \<Rightarrow> int \<Rightarrow> string" where
  "generation fname i = fname @ ''.'' @ showInt i"

text \<open>A write through \<^verbatim>\<open>l.base\<close>; through a \<^verbatim>\<open>nil\<close> \<^verbatim>\<open>*log.Logger\<close> it panics.\<close>

definition base_Println :: "Logger \<Rightarrow> string \<Rightarrow> world \<Rightarrow> 'a \<Rightarrow> 'a outcome" where
  "base_Println l s w result =
     (case base l of None \<Rightarrow> Panicked w | Some h \<Rightarrow> Returned result (log_Println h s w))"

text \<open>
  The loop of \<^verbatim>\<open>logRotate\<close>, the same in both versions:
  \<^verbatim>\<open>
  for i := l.keep - 1; i > 0; i-- {
      _, err = os.Stat(fmt.Sprintf("%s.%d", l.filename, i))
      if err == nil {
          err = os.Rename(fmt.Sprintf("%s.%d", l.filename, i), fmt.Sprintf("%s.%d", l.filename, i+1))
          if err != nil { return err }
      }
  }
  \<close>
  The result is the error of the early return, if any, and the world.
\<close>

function logRotate_loop :: "string \<Rightarrow> int \<Rightarrow> world \<Rightarrow> error option \<times> world" where
  "logRotate_loop fname i w =
     (if i > 0 then
        case Stat (generation fname i) w of
          Inl _ \<Rightarrow> logRotate_loop fname (i - 1) w
        | Inr _ \<Rightarrow>
            (case Rename (generation fname i) (generation fname (i + 1)) w of
               (Some err, w1) \<Rightarrow> (Some err, w1)
             | (None, w1) \<Rightarrow> logRotate_loop fname (i - 1) w1)
      else (None, w))"
  by pat_completeness auto
termination
  by (relation "measure (\<lambda>(fname, i, w). nat i)") auto

declare logRotate_loop.simps [simp del]

text \<open>
  The step before the loop, the same in both versions up to the variable that takes the
  result of \<^verbatim>\<open>os.Remove\<close>, which is not read afterwards in either:
  \<^verbatim>\<open>
  _, err = os.Stat(fmt.Sprintf("%s.%d", l.filename, l.keep))
  if err == nil { err = os.Remove(fmt.Sprintf("%s.%d", l.filename, l.keep)) }
  \<close>
\<close>

definition remove_oldest :: "string \<Rightarrow> int \<Rightarrow> world \<Rightarrow> world" where
  "remove_oldest fname k w =
     (case Stat (generation fname k) w of
        Inr _ \<Rightarrow> snd (Remove (generation fname k) w)
      | Inl _ \<Rightarrow> w)"

subsection \<open>\<^verbatim>\<open>servicelogger.go\<close>: \<^verbatim>\<open>logRotate\<close> and the logging calls\<close>

text \<open>
  \<^verbatim>\<open>
  func (l *Logger) logRotate() (err error) {
      if l.rotate && !l.rotation_running {
          l.rotation_running = true
          filestats, err := os.Stat(l.filename)
          if err != nil { return err }
          if filestats.Size() >= l.rotatesize {
              l.LogTrace("logRotate", "servicelogger", "Rotating log, closing logwriter")
              (remove the oldest generation; the loop)
              err = os.Rename(l.filename, fmt.Sprintf("%s.1", l.filename))
              if err != nil { return err }
              l.filehandle, err = os.OpenFile(l.filename, os.O_APPEND|os.O_CREATE|os.O_WRONLY, 0640)
              if err != nil { log.Fatal(fmt.Sprintf("FATAL: Unable to open log file %s: %s", ...)) }
              l.base = log.New(l.filehandle, "", log.Ldate|log.Ltime|log.Lmicroseconds)
              l.LogTrace("logRotate", "servicelogger", "Log rotated, reopened logwriter")
              return nil
          }
          l.rotation_running = false
      }
      return nil
  }
  func (l Logger) LogTrace(function string, source string, text string) {
      if l.getFilteredLogLevel(fmt.Sprintf("%s.%s.%s", l.prefix, source, function)) <= LL_TRACE {
          l.logRotate()
          l.base.Println(fmt.Sprintf("TRACE   [%s] %s.%s %s", function, l.prefix, source, text))
      }
  }
  \<close>
  \<^verbatim>\<open>logRotate\<close> has a pointer receiver: it returns the logger as it leaves it, with the error.
  The logging calls have value receivers: they work on a copy of the logger, rotation
  changes that copy, the line is written through the copy's \<^verbatim>\<open>base\<close>, and the caller's
  logger is as before. Their result is the world alone.
\<close>

fun logRotate :: "nat \<Rightarrow> Logger \<Rightarrow> world \<Rightarrow> (Logger \<times> error option) outcome option"
  and LogTrace :: "nat \<Rightarrow> Logger \<Rightarrow> string \<Rightarrow> string \<Rightarrow> string \<Rightarrow> world \<Rightarrow> unit outcome option"
where
  "logRotate 0 l w = None"
| "logRotate (Suc n) l w =
     (if rotate_l l \<and> \<not> rotation_running l then
        let l1 = l\<lparr>rotation_running := True\<rparr> in
        case Stat (filename l1) w of
          Inl err \<Rightarrow> Some (Returned (l1, Some err) w)
        | Inr fsize \<Rightarrow>
            if fsize \<ge> rotatesize l1 then
              and_then
                (LogTrace n l1 ''logRotate'' ''servicelogger'' ''Rotating log, closing logwriter'' w)
                (\<lambda>_ w1.
                   case logRotate_loop (filename l1) (keep l1 - 1)
                          (remove_oldest (filename l1) (keep l1) w1) of
                     (Some err, w3) \<Rightarrow> Some (Returned (l1, Some err) w3)
                   | (None, w3) \<Rightarrow>
                       (case Rename (filename l1) (filename l1 @ ''.1'') w3 of
                          (Some err, w4) \<Rightarrow> Some (Returned (l1, Some err) w4)
                        | (None, w4) \<Rightarrow>
                            (case OpenFile (filename l1) mode_0640 w4 of
                               (Inl err, w5) \<Rightarrow>
                                 Some (log_Fatal (''FATAL: Unable to open log file '' @ filename l1
                                         @ '': '' @ errorString err) w5)
                             | (Inr h, w5) \<Rightarrow>
                                 let l2 = l1\<lparr>filehandle := Some h, base := Some h\<rparr> in
                                 and_then
                                   (LogTrace n l2 ''logRotate'' ''servicelogger''
                                      ''Log rotated, reopened logwriter'' w5)
                                   (\<lambda>_ w6. Some (Returned (l2, None) w6)))))
            else Some (Returned (l1\<lparr>rotation_running := False\<rparr>, None) w)
      else Some (Returned (l, None) w))"
| "LogTrace 0 l function source text w = None"
| "LogTrace (Suc n) l function source text w =
     (let (lvl, out) = getFilteredLogLevel l (facility_name l source function);
          w0 = fmt_Print out w
      in if lvl \<le> LL_TRACE then
           and_then (logRotate n l w0)
             (\<lambda>(l', err) w1.
                Some (base_Println l' (format_line ''TRACE   '' function (prefix_l l') source text) w1 ()))
         else Some (Returned () w0))"

text \<open>
  The other logging calls differ from \<^verbatim>\<open>LogTrace\<close> in the level and the label; nothing calls
  them back, so they pass their fuel on.
\<close>

definition LogDebug :: "nat \<Rightarrow> Logger \<Rightarrow> string \<Rightarrow> string \<Rightarrow> string \<Rightarrow> world \<Rightarrow> unit outcome option" where
  "LogDebug n l function source text w =
     (let (lvl, out) = getFilteredLogLevel l (facility_name l source function);
          w0 = fmt_Print out w
      in if lvl \<le> LL_DEBUG then
           and_then (logRotate n l w0)
             (\<lambda>(l', err) w1.
                Some (base_Println l' (format_line ''DEBUG   '' function (prefix_l l') source text) w1 ()))
         else Some (Returned () w0))"

definition LogInfo :: "nat \<Rightarrow> Logger \<Rightarrow> string \<Rightarrow> string \<Rightarrow> string \<Rightarrow> world \<Rightarrow> unit outcome option" where
  "LogInfo n l function source text w =
     (let (lvl, out) = getFilteredLogLevel l (facility_name l source function);
          w0 = fmt_Print out w
      in if lvl \<le> LL_INFO then
           and_then (logRotate n l w0)
             (\<lambda>(l', err) w1.
                Some (base_Println l' (format_line ''INFO    '' function (prefix_l l') source text) w1 ()))
         else Some (Returned () w0))"

definition LogWarn :: "nat \<Rightarrow> Logger \<Rightarrow> string \<Rightarrow> string \<Rightarrow> string \<Rightarrow> world \<Rightarrow> unit outcome option" where
  "LogWarn n l function source text w =
     (let (lvl, out) = getFilteredLogLevel l (facility_name l source function);
          w0 = fmt_Print out w
      in if lvl \<le> LL_WARN then
           and_then (logRotate n l w0)
             (\<lambda>(l', err) w1.
                Some (base_Println l' (format_line ''WARNING '' function (prefix_l l') source text) w1 ()))
         else Some (Returned () w0))"

definition LogError :: "nat \<Rightarrow> Logger \<Rightarrow> string \<Rightarrow> string \<Rightarrow> string \<Rightarrow> world \<Rightarrow> unit outcome option" where
  "LogError n l function source text w =
     (let (lvl, out) = getFilteredLogLevel l (facility_name l source function);
          w0 = fmt_Print out w
      in if lvl \<le> LL_ERROR then
           and_then (logRotate n l w0)
             (\<lambda>(l', err) w1.
                Some (base_Println l' (format_line ''ERROR   '' function (prefix_l l') source text) w1 ()))
         else Some (Returned () w0))"

text \<open>
  \<^verbatim>\<open>
  func (l Logger) LogFatal(function string, source string, text string, exitcode int) {
      if l.getFilteredLogLevel(fmt.Sprintf("%s.%s.%s", l.prefix, source, function)) <= LL_FATAL {
          l.logRotate()
          l.base.Println(fmt.Sprintf("FATAL   [%s] %s.%s %s", function, l.prefix, source, text))
          fmt.Println(fmt.Sprintf("FATAL: [%s] %s.%s %s", function, l.prefix, source, text))
          os.Exit(exitcode)
      }
  }
  \<close>
\<close>

definition LogFatal ::
  "nat \<Rightarrow> Logger \<Rightarrow> string \<Rightarrow> string \<Rightarrow> string \<Rightarrow> int \<Rightarrow> world \<Rightarrow> unit outcome option" where
  "LogFatal n l function source text exitcode w =
     (let (lvl, out) = getFilteredLogLevel l (facility_name l source function);
          w0 = fmt_Print out w
      in if lvl \<le> LL_FATAL then
           and_then (logRotate n l w0)
             (\<lambda>(l', err) w1.
                case base l' of
                  None \<Rightarrow> Some (Panicked w1)
                | Some h \<Rightarrow>
                    Some (Exited exitcode
                      (fmt_Println (format_line ''FATAL: '' function (prefix_l l') source text)
                         (log_Println h (format_line ''FATAL   '' function (prefix_l l') source text) w1))))
         else Some (Returned () w0))"

subsection \<open>\<^verbatim>\<open>part_000\<close>: \<^verbatim>\<open>logRotate\<close> and the logging calls\<close>

text \<open>
  \<^verbatim>\<open>
  func (l *Logger) logRotate() (nbase *log.Logger, err error) {
      if l.rotate && !l.rotation_running {
          l.rotation_running = true
          filestats, err := os.Stat(l.filename)
          if err != nil { return l.base, err }
          if filestats.Size() >= l.rotatesize {
              l.LogTrace("logRotate", "servicelogger", "Rotating log, closing logwriter")
              (remove the oldest generation; the loop, with: return l.base, err)
              err = os.Rename(l.filename, fmt.Sprintf("%s.1", l.filename))
              if err != nil { return l.base, err }
              l.filehandle, err = os.OpenFile(l.filename, os.O_APPEND|os.O_CREATE|os.O_WRONLY, 0640)
              if err != nil { log.Fatalf("FATAL: Unable to open log file %s: %s", ...) }
              l.base = log.New(l.filehandle, "", log.Ldate|log.Ltime|log.Lmicroseconds)
              l.LogTrace("logRotate", "servicelogger", "Log rotated, reopened logwriter")
          }
          l.rotation_running = false
      }
      return l.base, nil
  }
  func (l *Logger) LogTrace(function string, source string, text string) {
      if l.getFilteredLogLevel(fmt.Sprintf("%s.%s.%s", l.prefix, source, function)) <= LL_TRACE {
          newbase, err := l.logRotate()
          if err != nil {
              l.LogError("LogTrace", "servicelogger", fmt.Sprintf("Log rotation error: %s", err.Error()))
          }
          l.base = newbase
          l.base.Printf("TRACE   [%s] %s.%s %s\n", function, l.prefix, source, text)
      }
  }
  \<close>
  Every method has a pointer receiver here: each returns the logger as it leaves it.
  \<^verbatim>\<open>logRotate\<close> returns \<^verbatim>\<open>nbase\<close> and \<^verbatim>\<open>err\<close> with it.
\<close>

fun logRotate_part000 ::
    "nat \<Rightarrow> Logger \<Rightarrow> world \<Rightarrow> (Logger \<times> handle option \<times> error option) outcome option"
  and LogTrace_part000 ::
    "nat \<Rightarrow> Logger \<Rightarrow> string \<Rightarrow> string \<Rightarrow> string \<Rightarrow> world \<Rightarrow> Logger outcome option"
  and LogError_part000 ::
    "nat \<Rightarrow> Logger \<Rightarrow> string \<Rightarrow> string \<Rightarrow> string \<Rightarrow> world \<Rightarrow> Logger outcome option"
where
  "logRotate_part000 0 l w = None"
| "logRotate_part000 (Suc n) l w =
     (if rotate_l l \<and> \<not> rotation_running l then
        let l1 = l\<lparr>rotation_running := True\<rparr> in
        case Stat (filename l1) w of
          Inl err \<Rightarrow> Some (Returned (l1, base l1, Some err) w)
        | Inr fsize \<Rightarrow>
            if fsize \<ge> rotatesize l1 then
              and_then
                (LogTrace_part000 n l1 ''logRotate'' ''servicelogger''
                   ''Rotating log, closing logwriter'' w)
                (\<lambda>l2 w1.
                   case logRotate_loop (filename l2) (keep l2 - 1)
                          (remove_oldest (filename l2) (keep l2) w1) of
                     (Some err, w3) \<Rightarrow> Some (Returned (l2, base l2, Some err) w3)
                   | (None, w3) \<Rightarrow>
                       (case Rename (filename l2) (filename l2 @ ''.1'') w3 of
                          (Some err, w4) \<Rightarrow> Some (Returned (l2, base l2, Some err) w4)
                        | (None, w4) \<Rightarrow>
                            (case OpenFile (filename l2) mode_0640 w4 of
                               (Inl err, w5) \<Rightarrow>
                                 Some (log_Fatal (''FATAL: Unable to open log file '' @ filename l2
                                         @ '': '' @ errorString err) w5)
                             | (Inr h, w5) \<Rightarrow>
                                 and_then
                                   (LogTrace_part000 n (l2\<lparr>filehandle := Some h, base := Some h\<rparr>)
                                      ''logRotate'' ''servicelogger''
                                      ''Log rotated, reopened logwriter'' w5)
                                   (\<lambda>l3 w6.
                                      let l4 = l3\<lparr>rotation_running := False\<rparr>
                                      in Some (Returned (l4, base l4, None) w6)))))
            else
              let l2 = l1\<lparr>rotation_running := False\<rparr>
              in Some (Returned (l2, base l2, None) w)
      else Some (Returned (l, base l, None) w))"
| "LogTrace_part000 0 l function source text w = None"
| "LogTrace_part000 (Suc n) l function source text w =
     (if getFilteredLogLevel_part000 l (facility_name l source function) \<le> LL_TRACE then
        and_then (logRotate_part000 n l w)
          (\<lambda>(l1, newbase, err) w1.
             and_then
               (case err of
                  None \<Rightarrow> Some (Returned l1 w1)
                | Some e \<Rightarrow>
                    LogError_part000 n l1 ''LogTrace'' ''servicelogger''
                      (''Log rotation error: '' @ errorString e) w1)
               (\<lambda>l2 w2.
                  let l3 = l2\<lparr>base := newbase\<rparr>
                  in Some (base_Println l3 (format_line ''TRACE   '' function (prefix_l l3) source text) w2 l3)))
      else Some (Returned l w))"
| "LogError_part000 0 l function source text w = None"
| "LogError_part000 (Suc n) l function source text w =
     (if getFilteredLogLevel_part000 l (facility_name l source function) \<le> LL_ERROR then
        and_then (logRotate_part000 n l w)
          (\<lambda>(l1, newbase, err) w1.
             and_then
               (case err of
                  None \<Rightarrow> Some (Returned l1 w1)
                | Some e \<Rightarrow>
                    LogError_part000 n l1 ''LogError'' ''servicelogger''
                      (''Log rotation error: '' @ errorString e) w1)
               (\<lambda>l2 w2.
                  let l3 = l2\<lparr>base := newbase\<rparr>
                  in Some (base_Println l3 (format_line ''ERROR   '' function (prefix_l l3) source text) w2 l3)))
      else Some (Returned l w))"

text \<open>
  The remaining logging calls of \<^verbatim>\<open>part_000\<close>. Nothing calls them back, so they pass their
  fuel on; each reports a rotation error through \<^verbatim>\<open>LogError\<close> under its own name.
\<close>

definition LogDebug_part000 ::
  "nat \<Rightarrow> Logger \<Rightarrow> string \<Rightarrow> string \<Rightarrow> string \<Rightarrow> world \<Rightarrow> Logger outcome option" where
  "LogDebug_part000 n l function source text w =
     (if getFilteredLogLevel_part000 l (facility_name l source function) \<le> LL_DEBUG then
        and_then (logRotate_part000 n l w)
          (\<lambda>(l1, newbase, err) w1.
             and_then
               (case err of
                  None \<Rightarrow> Some (Returned l1 w1)
                | Some e \<Rightarrow>
                    LogError_part000 n l1 ''LogDebug'' ''servicelogger''
                      (''Log rotation error: '' @ errorString e) w1)
               (\<lambda>l2 w2.
                  let l3 = l2\<lparr>base := newbase\<rparr>
                  in Some (base_Println l3 (format_line ''DEBUG   '' function (prefix_l l3) source text) w2 l3)))
      else Some (Returned l w))"

definition LogInfo_part000 ::
  "nat \<Rightarrow> Logger \<Rightarrow> string \<Rightarrow> string \<Rightarrow> string \<Rightarrow> world \<Rightarrow> Logger outcome option" where
  "LogInfo_part000 n l function source text w =
     (if getFilteredLogLevel_part000 l (facility_name l source function) \<le> LL_INFO then
        and_then (logRotate_part000 n l w)
          (\<lambda>(l1, newbase, err) w1.
             and_then
               (case err of
                  None \<Rightarrow> Some (Returned l1 w1)
                | Some e \<Rightarrow>
                    LogError_part000 n l1 ''LogInfo'' ''servicelogger''
                      (''Log rotation error: '' @ errorString e) w1)
               (\<lambda>l2 w2.
                  let l3 = l2\<lparr>base := newbase\<rparr>
                  in Some (base_Println l3 (format_line ''INFO    '' function (prefix_l l3) source text) w2 l3)))
      else Some (Returned l w))"

definition LogWarn_part000 ::
  "nat \<Rightarrow> Logger \<Rightarrow> string \<Rightarrow> string \<Rightarrow> string \<Rightarrow> world \<Rightarrow> Logger outcome option" where
  "LogWarn_part000 n l function source text w =
     (if getFilteredLogLevel_part000 l (facility_name l source function) \<le> LL_WARN then
        and_then (logRotate_part000 n l w)
          (\<lambda>(l1, newbase, err) w1.
             and_then
               (case err of
                  None \<Rightarrow> Some (Returned l1 w1)
                | Some e \<Rightarrow>
                    LogError_part000 n l1 ''LogWarn'' ''servicelogger''
                      (''Log rotation error: '' @ errorString e) w1)
               (\<lambda>l2 w2.
                  let l3 = l2\<lparr>base := newbase\<rparr>
                  in Some (base_Println l3 (format_line ''WARNING '' function (prefix_l l3) source text) w2 l3)))
      else Some (Returned l w))"

text \<open>
  \<^verbatim>\<open>
  func (l *Logger) LogFatal(function string, source string, text string, exitcode int) {
      if l.getFilteredLogLevel(fmt.Sprintf("%s.%s.%s", l.prefix, source, function)) <= LL_FATAL {
          newbase, err := l.logRotate()
          if err != nil {
              l.LogError("LogFatal", "servicelogger", fmt.Sprintf("Log rotation error: %s", err.Error()))
          }
          l.base = newbase
          l.base.Printf("FATAL   [%s] %s.%s %s\n", function, l.prefix, source, text)
          fmt.Printf("FATAL: [%s] %s.%s %s\n", function, l.prefix, source, text)
          os.Exit(exitcode)
      }
  }
  \<close>
\<close>

definition LogFatal_part000 ::
  "nat \<Rightarrow> Logger \<Rightarrow> string \<Rightarrow> string \<Rightarrow> string \<Rightarrow> int \<Rightarrow> world \<Rightarrow> Logger outcome option" where
  "LogFatal_part000 n l function source text exitcode w =
     (if getFilteredLogLevel_part000 l (facility_name l source function) \<le> LL_FATAL then
        and_then (logRotate_part000 n l w)
          (\<lambda>(l1, newbase, err) w1.
             and_then
               (case err of
                  None \<Rightarrow> Some (Returned l1 w1)
                | Some e \<Rightarrow>
                    LogError_part000 n l1 ''LogFatal'' ''servicelogger''
                      (''Log rotation error: '' @ errorString e) w1)
               (\<lambda>l2 w2.
                  let l3 = l2\<lparr>base := newbase\<rparr>
                  in case base l3 of
                       None \<Rightarrow> Some (Panicked w2)
                     | Some h \<Rightarrow>
                         Some (Exited exitcode
                           (fmt_Println (format_line ''FATAL: '' function (prefix_l l3) source text)
                              (log_Println h (format_line ''FATAL   '' function (prefix_l l3) source text) w2)))))
      else Some (Returned l w))"

subsection \<open>\<^verbatim>\<open>ApplyNewSettings\<close>\<close>

text \<open>
  The text is the same in both versions:
  \<^verbatim>\<open>
  nrs, err := logSizeStringToLogSizeInt64(newRotSize)
  if err != nil {
      slog.LogFatal("ApplyNewSettings", "servicelogger", fmt.Sprintf("Failed to apply new settings: %s", err.Error()), 222)
  }
  if newFile != slog.filename || newLevel != slog.MinLoglevel || newRotation != slog.rotate || nrs != slog.rotatesize || newKeep != slog.keep {
      slog.LogInfo("ApplyNewSettings", "servicelogger", "Logging configuration has changed, applying new configuration")
      if newFile != slog.filename {
          slog.LogTrace(..., fmt.Sprintf("Filename has changed. Closing %s and continuing logging in %s", slog.filename, newFile))
          slog.filehandle.Close()
          slog.filename = newFile
          slog.filehandle, err = os.OpenFile(slog.filename, os.O_APPEND|os.O_CREATE|os.O_WRONLY, 0640)
          if err != nil { log.Fatal("FATAL: Unable to open log file: " + err.Error()) }
          slog.base = log.New(slog.filehandle, "", log.Ldate|log.Ltime|log.Lmicroseconds)
      }
      if newLevel != slog.MinLoglevel {
          slog.LogTrace(..., fmt.Sprintf("Log level has changed: %s --> %s", LogLevelToString(slog.MinLoglevel), LogLevelToString(newLevel)))
          slog.MinLoglevel = newLevel
      }
      if newRotation != slog.rotate {
          if newRotation { slog.LogTrace(..., "Log rotation has been enabled")
          } else { slog.LogTrace(..., "Log rotation has been disabled") }
          slog.rotate = newRotation
      }
      if nrs != slog.rotatesize {
          slog.LogTrace(..., fmt.Sprintf("Log size limit has changed: %d bytes --> %d bytes", slog.rotatesize, nrs))
          slog.rotatesize = nrs
      }
      if newKeep != slog.keep {
          slog.LogTrace(..., fmt.Sprintf("Number of log files to keep has changed: %d --> %d", slog.keep, newKeep))
          slog.keep = newKeep
      }
      return true
  }
  return false
  \<close>
  When the size does not parse and \<^verbatim>\<open>LogFatal\<close> returns (the FATAL level is filtered out),
  the function goes on with \<^verbatim>\<open>nrs = 0\<close>. Closing a handle changes neither the directory nor
  the bytes of a file and is left out. In \<^verbatim>\<open>servicelogger.go\<close> the logging calls leave
  \<^verbatim>\<open>slog\<close> as it is (value receivers).
\<close>

definition ApplyNewSettings ::
  "nat \<Rightarrow> Logger \<Rightarrow> string \<Rightarrow> LogLevel \<Rightarrow> bool \<Rightarrow> string \<Rightarrow> int \<Rightarrow> world
     \<Rightarrow> (Logger \<times> bool) outcome option" where
  "ApplyNewSettings n slog newFile newLevel newRotation newRotSize newKeep w =
     and_then
       (case logSizeStringToLogSizeInt64 newRotSize of
          Inr nrs \<Rightarrow> Some (Returned nrs w)
        | Inl err \<Rightarrow>
            and_then
              (LogFatal n slog ''ApplyNewSettings'' ''servicelogger''
                 (''Failed to apply new settings: '' @ errorString err) 222 w)
              (\<lambda>_ w1. Some (Returned 0 w1)))
       (\<lambda>nrs w1.
          if newFile \<noteq> filename slog \<or> newLevel \<noteq> MinLoglevel slog \<or> newRotation \<noteq> rotate_l slog
             \<or> nrs \<noteq> rotatesize slog \<or> newKeep \<noteq> keep slog
          then
            and_then
              (LogInfo n slog ''ApplyNewSettings'' ''servicelogger''
                 ''Logging configuration has changed, applying new configuration'' w1)
            (\<lambda>_ w2.
            and_then
              (if newFile \<noteq> filename slog then
                 and_then
                   (LogTrace n slog ''ApplyNewSettings'' ''servicelogger''
                      (''Filename has changed. Closing '' @ filename slog
                         @ '' and continuing logging in '' @ newFile) w2)
                   (\<lambda>_ w3.
                      case OpenFile newFile mode_0640 w3 of
                        (Inl err, w4) \<Rightarrow>
                          Some (log_Fatal (''FATAL: Unable to open log file: '' @ errorString err) w4)
                      | (Inr h, w4) \<Rightarrow>
                          Some (Returned (slog\<lparr>filename := newFile, filehandle := Some h,
                                                base := Some h\<rparr>) w4))
               else Some (Returned slog w2))
            (\<lambda>s1 w5.
            and_then
              (if newLevel \<noteq> MinLoglevel s1 then
                 and_then
                   (LogTrace n s1 ''ApplyNewSettings'' ''servicelogger''
                      (''Log level has changed: '' @ LogLevelToString (MinLoglevel s1)
                         @ '' --> '' @ LogLevelToString newLevel) w5)
                   (\<lambda>_ w6. Some (Returned (s1\<lparr>MinLoglevel := newLevel\<rparr>) w6))
               else Some (Returned s1 w5))
            (\<lambda>s2 w7.
            and_then
              (if newRotation \<noteq> rotate_l s2 then
                 and_then
                   (LogTrace n s2 ''ApplyNewSettings'' ''servicelogger''
                      (if newRotation then ''Log rotation has been enabled''
                       else ''Log rotation has been disabled'') w7)
                   (\<lambda>_ w8. Some (Returned (s2\<lparr>rotate_l := newRotation\<rparr>) w8))
               else Some (Returned s2 w7))
            (\<lambda>s3 w9.
            and_then
              (if nrs \<noteq> rotatesize s3 then
                 and_then
                   (LogTrace n s3 ''ApplyNewSettings'' ''servicelogger''
                      (''Log size limit has changed: '' @ showInt (rotatesize s3)
                         @ '' bytes --> '' @ showInt nrs @ '' bytes'') w9)
                   (\<lambda>_ w10. Some (Returned (s3\<lparr>rotatesize := nrs\<rparr>) w10))
               else Some (Returned s3 w9))
            (\<lambda>s4 w11.
            and_then
              (if newKeep \<noteq> keep s4 then
                 and_then
                   (LogTrace n s4 ''ApplyNewSettings'' ''servicelogger''
                      (''Number of log files to keep has changed: '' @ showInt (keep s4)
                         @ '' --> '' @ showInt newKeep) w11)
                   (\<lambda>_ w12. Some (Returned (s4\<lparr>keep := newKeep\<rparr>) w12))
               else Some (Returned s4 w11))
            (\<lambda>s5 w13. Some (Returned (s5, True) w13)))))))
          else Some (Returned (slog, False) w1))"

text \<open>In \<^verbatim>\<open>part_000\<close> the logging calls change \<^verbatim>\<open>slog\<close> (pointer receivers).\<close>

definition ApplyNewSettings_part000 ::
  "nat \<Rightarrow> Logger \<Rightarrow> string \<Rightarrow> LogLevel \<Rightarrow> bool \<Rightarrow> string \<Rightarrow> int \<Rightarrow> world
     \<Rightarrow> (Logger \<times> bool) outcome option" where
  "ApplyNewSettings_part000 n slog newFile newLevel newRotation newRotSize newKeep w =
     and_then
       (case logSizeStringToLogSizeInt64 newRotSize of
          Inr nrs \<Rightarrow> Some (Returned (slog, nrs) w)
        | Inl err \<Rightarrow>
            and_then
              (LogFatal_part000 n slog ''ApplyNewSettings'' ''servicelogger''
                 (''Failed to apply new settings: '' @ errorString err) 222 w)
              (\<lambda>s w1. Some (Returned (s, 0) w1)))
       (\<lambda>(s0, nrs) w1.
          if newFile \<noteq> filename s0 \<or> newLevel \<noteq> MinLoglevel s0 \<or> newRotation \<noteq> rotate_l s0
             \<or> nrs \<noteq> rotatesize s0 \<or> newKeep \<noteq> keep s0
          then
            and_then
              (LogInfo_part000 n s0 ''ApplyNewSettings'' ''servicelogger''
                 ''Logging configuration has changed, applying new configuration'' w1)
            (\<lambda>sa w2.
            and_then
              (if newFile \<noteq> filename sa then
                 and_then
                   (LogTrace_part000 n sa ''ApplyNewSettings'' ''servicelogger''
                      (''Filename has changed. Closing '' @ filename sa
                         @ '' and continuing logging in '' @ newFile) w2)
                   (\<lambda>sb w3.
                      case OpenFile newFile mode_0640 w3 of
                        (Inl err, w4) \<Rightarrow>
                          Some (log_Fatal (''FATAL: Unable to open log file: '' @ errorString err) w4)
                      | (Inr h, w4) \<Rightarrow>
                          Some (Returned (sb\<lparr>filename := newFile, filehandle := Some h,
                                              base := Some h\<rparr>) w4))
               else Some (Returned sa w2))
            (\<lambda>s1 w5.
            and_then
              (if newLevel \<noteq> MinLoglevel s1 then
                 and_then
                   (LogTrace_part000 n s1 ''ApplyNewSettings'' ''servicelogger''
                      (''Log level has changed: '' @ LogLevelToString (MinLoglevel s1)
                         @ '' --> '' @ LogLevelToString newLevel) w5)
                   (\<lambda>sb w6. Some (Returned (sb\<lparr>MinLoglevel := newLevel\<rparr>) w6))
               else Some (Returned s1 w5))
            (\<lambda>s2 w7.
            and_then
              (if newRotation \<noteq> rotate_l s2 then
                 and_then
                   (LogTrace_part000 n s2 ''ApplyNewSettings'' ''servicelogger''
                      (if newRotation then ''Log rotation has been enabled''
                       else ''Log rotation has been disabled'') w7)
                   (\<lambda>sb w8. Some (Returned (sb\<lparr>rotate_l := newRotation\<rparr>) w8))
               else Some (Returned s2 w7))
            (\<lambda>s3 w9.
            and_then
              (if nrs \<noteq> rotatesize s3 then
                 and_then
                   (LogTrace_part000 n s3 ''ApplyNewSettings'' ''servicelogger''
                      (''Log size limit has changed: '' @ showInt (rotatesize s3)
                         @ '' bytes --> '' @ showInt nrs @ '' bytes'') w9)
                   (\<lambda>sb w10. Some (Returned (sb\<lparr>rotatesize := nrs\<rparr>) w10))
               else Some (Returned s3 w9))
            (\<lambda>s4 w11.
            and_then
              (if newKeep \<noteq> keep s4 then
                 and_then
                   (LogTrace_part000 n s4 ''ApplyNewSettings'' ''servicelogger''
                      (''Number of log files to keep has changed: '' @ showInt (keep s4)
                         @ '' --> '' @ showInt newKeep) w11)
                   (\<lambda>sb w12. Some (Returned (sb\<lparr>keep := newKeep\<rparr>) w12))
               else Some (Returned s4 w11))
            (\<lambda>s5 w13. Some (Returned (s5, True) w13)))))))
          else Some (Returned (s0, False) w1))"

subsection \<open>Vocabulary of the claims about rotation\<close>

text \<open>The value of a string of decimal digits, without a bound.\<close>

definition digits_value :: "string \<Rightarrow> nat" where
  "digits_value s = foldl (\<lambda>a c. a * 10 + digit_val c) 0 s"

text \<open>What a logging call that does not rotate leaves alone: the directory and what goes with it.\<close>

definition same_files :: "world \<Rightarrow> world \<Rightarrow> bool" where
  "same_files w w' \<longleftrightarrow>
     names w' = names w \<and> refused w' = refused w \<and> next_inode w' = next_inode w \<and> stderr w' = stderr w"

text \<open>
  The directory after a rotation of \<open>fname\<close> with \<open>kp\<close> kept generations, from \<open>w\<close> to \<open>w'\<close>:
  the live path names a new file, which has the permission bits \<^verbatim>\<open>0640\<close>; generation 1 is the
  file that was live; generation \<open>j\<close>, for \<open>j\<close> from 2 to \<open>kp\<close>, is what generation \<open>j - 1\<close> was
  (nothing, if there was none), so that what generation \<open>kp\<close> was is named no more; every
  other path is as before.
\<close>

definition rotated :: "string \<Rightarrow> int \<Rightarrow> world \<Rightarrow> world \<Rightarrow> bool" where
  "rotated fname kp w w' \<longleftrightarrow>
     names w' fname = Some (next_inode w) \<and>
     names w' (generation fname 1) = names w fname \<and>
     (\<forall>j. 2 \<le> j \<and> j \<le> kp \<longrightarrow> names w' (generation fname j) = names w (generation fname (j - 1))) \<and>
     (\<forall>p. p \<noteq> fname \<and> (\<forall>j. 1 \<le> j \<and> j \<le> kp \<longrightarrow> p \<noteq> generation fname j) \<longrightarrow> names w' p = names w p) \<and>
     perm (inodes w' (next_inode w)) = mode_0640 \<and>
     refused w' = refused w \<and> stderr w' = stderr w"

text \<open>The numbered generations of \<open>fname\<close> that exist: the \<open>j \<ge> 1\<close> for which \<open>fname.j\<close> names a file.\<close>

definition numbered_generations :: "string \<Rightarrow> world \<Rightarrow> int set" where
  "numbered_generations fname w = {j. 1 \<le> j \<and> names w (generation fname j) \<noteq> None}"

text \<open>
  The example of the specification: threshold 100 bytes, three kept generations, a live
  file of 100 bytes and generations 1, 2 and 3 on disk (files 1, 2 and 3; the live file is
  file 0). The minimum level is INFO, so the TRACE lines of \<^verbatim>\<open>logRotate\<close> are not written.
\<close>

definition rot_logger :: Logger where
  "rot_logger =
     \<lparr>base = Some 0, prefix_l = ''svc'', MinLoglevel = LL_INFO, filename = ''app.log'',
      rotate_l = True, rotatesize = 100, keep = 3, filehandle = Some 0, rotation_running = False,
      filters = \<lparr>count = 0, filter_list = []\<rparr>\<rparr>"

definition rot_world :: world where
  "rot_world =
     \<lparr>names = (\<lambda>_. None)(''app.log'' := Some 0, ''app.log.1'' := Some 1, ''app.log.2'' := Some 2,
         ''app.log.3'' := Some 3),
      inodes = (\<lambda>_. \<lparr>bytes = replicate 100 (CHR ''x''), perm = mode_0640\<rparr>),
      next_inode = 4, refused = (\<lambda>_ _. False), stdout = [], stderr = []\<rparr>"

text \<open>What \<^verbatim>\<open>getFilteredLogLevel\<close> of \<^verbatim>\<open>servicelogger.go\<close> prints for a TRACE call of \<^verbatim>\<open>logRotate\<close>.\<close>

definition trace_gate_output :: string where
  "trace_gate_output =
     ''Determining filtered level for facility svc.servicelogger.logRotate'' @ newline
       @ ''No match was found, returning the default log level'' @ newline"

text \<open>
  The example after a rotation with three kept generations: the old generation 3 (file 3)
  has no name any more, files 2, 1 and 0 have moved up, the live path names the new file 4.
\<close>

definition rot_world_after :: world where
  "rot_world_after =
     rot_world\<lparr>names := (\<lambda>_. None)(''app.log'' := Some 4, ''app.log.1'' := Some 0,
         ''app.log.2'' := Some 1, ''app.log.3'' := Some 2),
       inodes := (inodes rot_world)(4 := \<lparr>bytes = [], perm = mode_0640\<rparr>),
       next_inode := 5\<rparr>"

text \<open>
  The same start with two kept generations: generation 2 (file 2) is removed, file 1 and
  file 0 move up, and generation 3 (file 3), which rotation does not look at, stays.
\<close>

definition stale_world_after :: world where
  "stale_world_after =
     rot_world\<lparr>names := (\<lambda>_. None)(''app.log'' := Some 4, ''app.log.1'' := Some 0,
         ''app.log.2'' := Some 1, ''app.log.3'' := Some 3),
       inodes := (inodes rot_world)(4 := \<lparr>bytes = [], perm = mode_0640\<rparr>),
       next_inode := 5\<rparr>"

subsection \<open>Vocabulary for the logging calls\<close>

text \<open>
  Two loggers have the same configuration when they differ at most in the writer, the file
  handle and the \<^verbatim>\<open>rotation_running\<close> flag: the fields a logging call of \<^verbatim>\<open>part_000\<close> may change.
\<close>

definition same_config :: "Logger \<Rightarrow> Logger \<Rightarrow> bool" where
  "same_config l l' \<longleftrightarrow>
     prefix_l l' = prefix_l l \<and> MinLoglevel l' = MinLoglevel l \<and> filename l' = filename l \<and>
     rotate_l l' = rotate_l l \<and> rotatesize l' = rotatesize l \<and> keep l' = keep l \<and>
     filters l' = filters l"

text \<open>An outcome of \<^verbatim>\<open>ApplyNewSettings\<close> that is not the return value \<^verbatim>\<open>false\<close>.\<close>

definition never_returns_false :: "(Logger \<times> bool) outcome option \<Rightarrow> bool" where
  "never_returns_false r = (case r of Some (Returned (l, b) w) \<Rightarrow> b | _ \<Rightarrow> True)"

section \<open>Level names\<close>

lemmas LL_defs = LL_TRACE_def LL_DEBUG_def LL_INFO_def LL_WARN_def LL_ERROR_def LL_FATAL_def

lemmas casing_defs = listed_spellings_def LogLevelToString_def capitalised_def to_lower_def
  to_upper_def to_lower_char_def to_upper_char_def lower_letters_def upper_letters_def

lemma listed_spellings_simps:
  "listed_spellings LL_TRACE = [''TRACE'', ''Trace'', ''trace'']"
  "listed_spellings LL_DEBUG = [''DEBUG'', ''Debug'', ''debug'']"
  "listed_spellings LL_INFO = [''INFO'', ''Info'', ''info'']"
  "listed_spellings LL_WARN = [''WARN'', ''Warn'', ''warn'']"
  "listed_spellings LL_ERROR = [''ERROR'', ''Error'', ''error'']"
  "listed_spellings LL_FATAL = [''FATAL'', ''Fatal'', ''fatal'']"
  by (simp_all add: casing_defs LL_defs)

lemma StringToLogLevel_simps:
  "StringToLogLevel ''TRACE'' = LL_TRACE" "StringToLogLevel ''Trace'' = LL_TRACE"
  "StringToLogLevel ''trace'' = LL_TRACE"
  "StringToLogLevel ''DEBUG'' = LL_DEBUG" "StringToLogLevel ''Debug'' = LL_DEBUG"
  "StringToLogLevel ''debug'' = LL_DEBUG"
  "StringToLogLevel ''INFO'' = LL_INFO" "StringToLogLevel ''Info'' = LL_INFO"
  "StringToLogLevel ''info'' = LL_INFO"
  "StringToLogLevel ''WARN'' = LL_WARN" "StringToLogLevel ''Warn'' = LL_WARN"
  "StringToLogLevel ''warn'' = LL_WARN"
  "StringToLogLevel ''ERROR'' = LL_ERROR" "StringToLogLevel ''Error'' = LL_ERROR"
  "StringToLogLevel ''error'' = LL_ERROR"
  "StringToLogLevel ''FATAL'' = LL_FATAL" "StringToLogLevel ''Fatal'' = LL_FATAL"
  "StringToLogLevel ''fatal'' = LL_FATAL"
  by (simp_all add: StringToLogLevel_def)

lemma StringToLogLevel_listed:
  assumes "lvl \<in> set declared_levels" and "s \<in> set (listed_spellings lvl)"
  shows "StringToLogLevel s = lvl"
proof -
  from assms(1) have "lvl = LL_TRACE \<or> lvl = LL_DEBUG \<or> lvl = LL_INFO
    \<or> lvl = LL_WARN \<or> lvl = LL_ERROR \<or> lvl = LL_FATAL"
    by (simp add: declared_levels_def)
  with assms(2) show ?thesis
    by (elim disjE)
      (simp_all add: listed_spellings_simps, (elim disjE, simp_all add: StringToLogLevel_simps)+)
qed

lemma StringToLogLevel_unlisted:
  assumes "\<forall>l \<in> set declared_levels. s \<notin> set (listed_spellings l)"
  shows "StringToLogLevel s = LL_INFO"
  using assms by (simp add: declared_levels_def listed_spellings_simps StringToLogLevel_def)

text \<open>
  C9, as stated: every letter casing of a level name maps to that level. The switch compares
  the text with three fixed spellings per level, so the mixed casing \<open>TRaCE\<close>, which is a
  casing of \<open>TRACE\<close>, falls to the default branch and yields INFO.
\<close>

theorem StringToLogLevel_mixed_case_counterexample:
  "same_letters ''TRaCE'' (LogLevelToString LL_TRACE) \<and> StringToLogLevel ''TRaCE'' \<noteq> LL_TRACE"
  by (simp add: same_letters_def to_upper_def to_upper_char_def lower_letters_def
      upper_letters_def LogLevelToString_def StringToLogLevel_def LL_defs)

text \<open>
  C9, amended: for each of the six levels, the upper-case, the capitalised and the lower-case
  spelling of its name map to that level; every other string, other casings included, maps to
  INFO, and no string is an error (the function is total and has no error result).
\<close>

theorem StringToLogLevel_three_spellings:
  "(lvl \<in> set declared_levels \<and> s \<in> set (listed_spellings lvl) \<longrightarrow> StringToLogLevel s = lvl) \<and>
   ((\<forall>l \<in> set declared_levels. t \<notin> set (listed_spellings l)) \<longrightarrow> StringToLogLevel t = LL_INFO)"
  using StringToLogLevel_listed StringToLogLevel_unlisted by blast

theorem StringToLogLevel_three_spellings_witness:
  "LL_ERROR \<in> set declared_levels \<and> ''Error'' \<in> set (listed_spellings LL_ERROR) \<and>
   StringToLogLevel ''Error'' = LL_ERROR \<and>
   ''TRaCE'' \<notin> set (concat (map listed_spellings declared_levels)) \<and>
   StringToLogLevel ''TRaCE'' = LL_INFO"
proof -
  have a: "LL_ERROR \<in> set declared_levels"
    by (simp add: declared_levels_def)
  have b: "''Error'' \<in> set (listed_spellings LL_ERROR)"
    by (simp add: listed_spellings_simps)
  have c: "''TRaCE'' \<notin> set (concat (map listed_spellings declared_levels))"
    by (simp add: declared_levels_def listed_spellings_simps)
  then have d: "\<forall>l \<in> set declared_levels. ''TRaCE'' \<notin> set (listed_spellings l)"
    by simp
  from a b c d StringToLogLevel_three_spellings [of LL_ERROR "''Error''" "''TRaCE''"]
  show ?thesis by blast
qed

text \<open>
  C10: converting one of the six declared levels to its name and back gives the level again.
\<close>

theorem StringToLogLevel_LogLevelToString:
  "lvl \<in> set declared_levels \<Longrightarrow> StringToLogLevel (LogLevelToString lvl) = lvl"
  by (auto simp: declared_levels_def LL_defs StringToLogLevel_def LogLevelToString_def)

theorem StringToLogLevel_LogLevelToString_witness:
  "LL_WARN \<in> set declared_levels \<and> StringToLogLevel (LogLevelToString LL_WARN) = LL_WARN"
proof -
  have a: "LL_WARN \<in> set declared_levels"
    by (simp add: declared_levels_def)
  from a StringToLogLevel_LogLevelToString [OF a] show ?thesis by simp
qed

section \<open>Rotation size strings\<close>

lemmas Atoi_defs = Atoi_def is_digit_def digit_val_def maxVal_def cutoff_def

lemma suffix_single: "suffix [c] xs \<longleftrightarrow> xs \<noteq> [] \<and> last xs = c"
proof (cases xs rule: rev_cases)
  case Nil
  then show ?thesis by simp
next
  case (snoc ys y)
  have "suffix ([] @ [c]) (ys @ [y]) \<longleftrightarrow> c = y"
    by (simp only: snoc_suffix_snoc) simp
  with snoc show ?thesis by auto
qed

lemmas logSize_eval = logSizeStringToLogSizeInt64_def Atoi_defs suffix_single int64_def


lemma ParseUint_append:
  "ParseUint (xs @ ys) n = (case ParseUint xs n of Inl e \<Rightarrow> Inl e | Inr m \<Rightarrow> ParseUint ys m)"
  by (induction xs arbitrary: n) (auto simp: Let_def)

lemma digit_char_both:
  assumes "d < 10"
  shows "is_digit (digit_chars ! d) \<and> digit_val (digit_chars ! d) = d"
proof -
  from assms consider "d = 0" | "d = 1" | "d = 2" | "d = 3" | "d = 4" | "d = 5" | "d = 6"
    | "d = 7" | "d = 8" | "d = 9" by atomize_elim arith
  then show ?thesis
    by cases (simp_all add: is_digit_def digit_val_def digit_chars_def)
qed

lemma digit_char_props:
  assumes "d < 10"
  shows "is_digit (digit_chars ! d)" and "digit_val (digit_chars ! d) = d"
  using digit_char_both [OF assms] by simp_all

lemma ParseUint_showNat: "n \<le> maxVal \<Longrightarrow> ParseUint (showNat n) 0 = Inr n"
proof (induction n rule: showNat.induct)
  case (1 n)
  show ?case
  proof (cases "n < 10")
    case True
    then have "showNat n = [digit_chars ! n]" by (simp add: showNat.simps)
    moreover have "n \<le> maxVal" using True by (simp add: maxVal_def)
    ultimately show ?thesis
      using True by (simp add: digit_char_props cutoff_def maxVal_def)
  next
    case False
    then have sh: "showNat n = showNat (n div 10) @ [digit_chars ! (n mod 10)]"
      by (subst showNat.simps) simp
    have le: "n div 10 \<le> maxVal" using "1.prems" by simp
    have ih: "ParseUint (showNat (n div 10)) 0 = Inr (n div 10)"
      using "1.IH" [OF False le] .
    have lt: "n div 10 < cutoff" using "1.prems" by (simp add: cutoff_def maxVal_def)
    have md: "n mod 10 < 10" by simp
    show ?thesis
      using lt "1.prems" by (simp add: sh ParseUint_append ih digit_char_props [OF md])
  qed
qed

lemma showNat_nonempty: "showNat n \<noteq> []"
  by (subst showNat.simps) simp

lemma hd_showNat_digit: "is_digit (hd (showNat n))"
proof (induction n rule: showNat.induct)
  case (1 n)
  show ?case
  proof (cases "n < 10")
    case True
    then show ?thesis by (subst showNat.simps) (simp add: digit_char_props)
  next
    case False
    then have sh: "showNat n = showNat (n div 10) @ [digit_chars ! (n mod 10)]"
      by (subst showNat.simps) simp
    show ?thesis using "1.IH" [OF False] by (simp add: sh showNat_nonempty)
  qed
qed

lemma hd_showNat_not_sign: "hd (showNat n) \<noteq> CHR ''-''" "hd (showNat n) \<noteq> CHR ''+''"
  using hd_showNat_digit [of n] by (auto simp: is_digit_def)

lemma Atoi_showInt:
  assumes "- (2 ^ 63) \<le> i" and "i < 2 ^ 63"
  shows "Atoi (showInt i) = Inr i"
proof (cases "i < 0")
  case True
  have "nat (- i) \<le> maxVal" using assms by (simp add: maxVal_def)
  then have "ParseUint (showNat (nat (- i))) 0 = Inr (nat (- i))"
    by (rule ParseUint_showNat)
  moreover have "nat (- i) \<le> 2 ^ 63" using assms True by (simp add: nat_le_iff)
  ultimately show ?thesis
    using True by (simp add: showInt_def Atoi_def showNat_nonempty)
next
  case False
  have "nat i \<le> maxVal" using assms by (simp add: maxVal_def)
  then have "ParseUint (showNat (nat i)) 0 = Inr (nat i)"
    by (rule ParseUint_showNat)
  moreover have "nat i < 2 ^ 63" using assms False by (simp add: nat_less_iff)
  ultimately show ?thesis
    using False by (simp add: showInt_def Atoi_def showNat_nonempty hd_showNat_not_sign)
qed


lemma ParseUint_digits: "ParseUint s n = Inr m \<Longrightarrow> list_all is_digit s"
  by (induction s arbitrary: n) (auto simp: Let_def split: if_splits)

lemma Atoi_non_numeric: "non_numeric s \<Longrightarrow> isl (Atoi s)"
proof -
  assume nn: "non_numeric s"
  show ?thesis
  proof (cases "s = []")
    case True
    then show ?thesis by (simp add: Atoi_def)
  next
    case False
    let ?d = "if hd s = CHR ''+'' \<or> hd s = CHR ''-'' then tl s else s"
    have md: "magnitude_digits s = ?d" using False by (simp add: magnitude_digits_def)
    show ?thesis
    proof (cases "?d = []")
      case True
      then show ?thesis using False by (simp add: Atoi_def Let_def)
    next
      case ne: False
      with nn md have bad: "\<not> list_all is_digit ?d" by (simp add: non_numeric_def)
      have "isl (ParseUint ?d 0)"
      proof (rule ccontr)
        assume "\<not> isl (ParseUint ?d 0)"
        then obtain m where "ParseUint ?d 0 = Inr m" by (cases "ParseUint ?d 0") auto
        from ParseUint_digits [OF this] bad show False by simp
      qed
      then obtain e where pe: "ParseUint ?d 0 = Inl e" by (cases "ParseUint ?d 0") auto
      show ?thesis
        using False ne pe by (cases e) (simp_all add: Atoi_def Let_def)
    qed
  qed
qed

lemma logSize_unit:
  assumes "(c, m) \<in> set size_units"
  shows "logSizeStringToLogSizeInt64 (s @ [c]) =
    (case Atoi s of Inl err \<Rightarrow> Inl err | Inr il \<Rightarrow> Inr (int64 (il * m)))"
proof -
  from assms have "c = CHR ''K'' \<and> m = 1024 \<or> c = CHR ''M'' \<and> m = 1024 * 1024 \<or>
      c = CHR ''G'' \<and> m = 1024 * 1024 * 1024 \<or> c = CHR ''T'' \<and> m = 1024 * 1024 * 1024 * 1024"
    by (auto simp: size_units_def)
  then show ?thesis
    by (elim disjE conjE) (simp_all only: logSizeStringToLogSizeInt64_def suffix_single Let_def
        butlast_snoc last_snoc snoc_eq_iff_butlast, simp_all)
qed

lemma logSize_no_unit:
  assumes "lss = [] \<or> last lss \<notin> fst ` set size_units"
  shows "logSizeStringToLogSizeInt64 lss = Inl UnknownModifier"
  using assms by (auto simp: size_units_def logSizeStringToLogSizeInt64_def suffix_single)

lemma int64_id: "- (2 ^ 63) \<le> x \<Longrightarrow> x < 2 ^ 63 \<Longrightarrow> int64 x = x"
  by (simp add: int64_def sint_sbintrunc' signed_take_bit_int_eq_self)

text \<open>
  C3, as stated: a magnitude followed by \<open>T\<close> yields the magnitude times \<open>1024^4\<close>. The product
  is computed in a 64-bit integer: for the magnitude 8388608 it is \<open>2^63\<close>, which wraps to
  \<open>-2^63\<close>, and the call succeeds with that negative size.
\<close>

theorem logSize_overflow_counterexample:
  "Atoi ''8388608'' = Inr 8388608 \<and>
   logSizeStringToLogSizeInt64 ''8388608T'' = Inr (- 9223372036854775808) \<and>
   logSizeStringToLogSizeInt64 ''8388608T'' \<noteq> Inr (8388608 * 1024 ^ 4)"
  by (simp add: logSize_eval)

text \<open>
  C3, amended: for a magnitude that \<^verbatim>\<open>Atoi\<close> accepts (an optionally signed decimal number of
  64 bits, which every number in that range written in decimal is) followed by one of K, M, G,
  T, the result is the magnitude times 1024, \<open>1024^2\<close>, \<open>1024^3\<close>, \<open>1024^4\<close> reduced to a signed
  64-bit integer, hence the product itself whenever it fits; a non-numeric magnitude returns
  \<^verbatim>\<open>Atoi\<close>'s error; a string that is empty or ends in any other byte (no suffix at all
  included) returns the unknown-modifier error.
\<close>

theorem logSize_units:
  "((c, m) \<in> set size_units \<and> Atoi s = Inr n \<longrightarrow>
      logSizeStringToLogSizeInt64 (s @ [c]) = Inr (int64 (n * m))) \<and>
   ((c, m) \<in> set size_units \<and> Atoi s = Inr n \<and> - (2 ^ 63) \<le> n * m \<and> n * m < 2 ^ 63 \<longrightarrow>
      logSizeStringToLogSizeInt64 (s @ [c]) = Inr (n * m)) \<and>
   (- (2 ^ 63) \<le> i \<and> i < 2 ^ 63 \<longrightarrow> Atoi (showInt i) = Inr i) \<and>
   ((c, m) \<in> set size_units \<and> non_numeric t \<longrightarrow>
      (\<exists>err. Atoi t = Inl err \<and> logSizeStringToLogSizeInt64 (t @ [c]) = Inl err)) \<and>
   (lss = [] \<or> last lss \<notin> fst ` set size_units \<longrightarrow>
      logSizeStringToLogSizeInt64 lss = Inl UnknownModifier)"
proof (intro conjI impI)
  assume "(c, m) \<in> set size_units \<and> Atoi s = Inr n"
  then have "(c, m) \<in> set size_units" and "Atoi s = Inr n" by simp_all
  then show "logSizeStringToLogSizeInt64 (s @ [c]) = Inr (int64 (n * m))"
    by (simp add: logSize_unit)
next
  assume "(c, m) \<in> set size_units \<and> Atoi s = Inr n \<and> - (2 ^ 63) \<le> n * m \<and> n * m < 2 ^ 63"
  then have "(c, m) \<in> set size_units" and "Atoi s = Inr n" and "int64 (n * m) = n * m"
    by (simp_all add: int64_id)
  then show "logSizeStringToLogSizeInt64 (s @ [c]) = Inr (n * m)"
    by (simp add: logSize_unit)
next
  assume "- (2 ^ 63) \<le> i \<and> i < 2 ^ 63"
  then show "Atoi (showInt i) = Inr i" by (simp add: Atoi_showInt)
next
  assume a: "(c, m) \<in> set size_units \<and> non_numeric t"
  then have "isl (Atoi t)" by (simp add: Atoi_non_numeric)
  then obtain err where "Atoi t = Inl err" by (cases "Atoi t") auto
  moreover from a have "(c, m) \<in> set size_units" by simp
  ultimately show "\<exists>err. Atoi t = Inl err \<and> logSizeStringToLogSizeInt64 (t @ [c]) = Inl err"
    by (simp add: logSize_unit)
next
  assume "lss = [] \<or> last lss \<notin> fst ` set size_units"
  then show "logSizeStringToLogSizeInt64 lss = Inl UnknownModifier"
    by (rule logSize_no_unit)
qed

theorem logSize_units_witness:
  "(CHR ''K'', 1024) \<in> set size_units \<and> Atoi ''10'' = Inr 10 \<and>
   - (2 ^ 63) \<le> (10 :: int) * 1024 \<and> (10 :: int) * 1024 < 2 ^ 63 \<and>
   logSizeStringToLogSizeInt64 ''10K'' = Inr 10240 \<and>
   showInt 10 = ''10'' \<and>
   non_numeric ''abc'' \<and> logSizeStringToLogSizeInt64 ''abcK'' = Inl (AtoiSyntax ''abc'') \<and>
   last ''10X'' \<notin> fst ` set size_units \<and>
   logSizeStringToLogSizeInt64 ''10X'' = Inl UnknownModifier \<and>
   last ''10'' \<notin> fst ` set size_units \<and>
   logSizeStringToLogSizeInt64 ''10'' = Inl UnknownModifier"
proof -
  have u: "(CHR ''K'', 1024) \<in> set size_units" by (simp add: size_units_def)
  have a: "Atoi ''10'' = Inr 10" by (simp add: Atoi_defs)
  have r: "- (2 ^ 63) \<le> (10 :: int) * 1024 \<and> (10 :: int) * 1024 < 2 ^ 63" by simp
  have sh: "showInt 10 = ''10''" by (simp add: showInt_def showNat.simps digit_chars_def)
  have nn: "non_numeric ''abc''"
    by (simp add: non_numeric_def magnitude_digits_def is_digit_def)
  have e: "Atoi ''abc'' = Inl (AtoiSyntax ''abc'')" by (simp add: Atoi_defs)
  have x: "last ''10X'' \<notin> fst ` set size_units" by (simp add: size_units_def)
  have y: "last ''10'' \<notin> fst ` set size_units" by (simp add: size_units_def)
  have t1: "logSizeStringToLogSizeInt64 (''10'' @ [CHR ''K'']) = Inr (10 * 1024)"
    using logSize_units [of "CHR ''K''" 1024 "''10''" 10] u a r by blast
  have t2: "\<exists>err. Atoi ''abc'' = Inl err \<and> logSizeStringToLogSizeInt64 (''abc'' @ [CHR ''K'']) = Inl err"
    using logSize_units [of "CHR ''K''" 1024 _ _ _ "''abc''"] u nn by blast
  have t3: "logSizeStringToLogSizeInt64 ''10X'' = Inl UnknownModifier"
    using logSize_units [of _ _ _ _ _ _ "''10X''"] x by blast
  have t4: "logSizeStringToLogSizeInt64 ''10'' = Inl UnknownModifier"
    using logSize_units [of _ _ _ _ _ _ "''10''"] y by blast
  from t2 e have t2': "logSizeStringToLogSizeInt64 ''abcK'' = Inl (AtoiSyntax ''abc'')" by simp
  from t1 have t1': "logSizeStringToLogSizeInt64 ''10K'' = Inr 10240" by simp
  from u a r sh nn x y t1' t2' t3 t4 show ?thesis by (intro conjI) simp_all
qed

text \<open>The examples of the specification.\<close>

lemma logSize_examples:
  "logSizeStringToLogSizeInt64 ''10K'' = Inr 10240"
  "logSizeStringToLogSizeInt64 ''1M'' = Inr 1048576"
  "logSizeStringToLogSizeInt64 ''2G'' = Inr 2147483648"
  "logSizeStringToLogSizeInt64 ''10X'' = Inl UnknownModifier"
  "logSizeStringToLogSizeInt64 ''abcK'' = Inl (AtoiSyntax ''abc'')"
  "logSizeStringToLogSizeInt64 ''10'' = Inl UnknownModifier"
  "logSizeStringToLogSizeInt64 [] = Inl UnknownModifier"
  by (simp_all add: logSize_eval)

section \<open>Facility filters\<close>

subsection \<open>\<^verbatim>\<open>servicelogger.go\<close>: the filters are never used\<close>

text \<open>
  \<^verbatim>\<open>foundfilter\<close> starts at \<open>-1\<close> and is assigned only under \<^verbatim>\<open>foundfilter > -1\<close>: it stays
  \<open>-1\<close>, and the function returns the minimum level whatever the filters are.
\<close>

lemma getFilteredLogLevel_loop_never_finds:
  "fst (getFilteredLogLevel_loop all facility rest n (- 1, out)) = - 1"
  by (induction rest arbitrary: n out) (simp_all add: Let_def)

lemma getFilteredLogLevel_default: "fst (getFilteredLogLevel slog facility) = MinLoglevel slog"
  by (simp add: getFilteredLogLevel_def Let_def split_def getFilteredLogLevel_loop_never_finds)

text \<open>
  C1 at the example of the specification: both filters match \<open>svc.db.query\<close>, the longer one
  has level ERROR. \<^verbatim>\<open>getFilteredLogLevel\<close> of \<^verbatim>\<open>servicelogger.go\<close> returns the logger's minimum
  level INFO; the one of \<^verbatim>\<open>part_000\<close> returns ERROR.
\<close>

theorem getFilteredLogLevel_ignores_filters:
  "matches (svc_filters ! 0) ''svc.db.query'' \<and> matches (svc_filters ! 1) ''svc.db.query'' \<and>
   fst (getFilteredLogLevel svc_logger ''svc.db.query'') = LL_INFO \<and>
   getFilteredLogLevel_part000 svc_logger ''svc.db.query'' = LL_ERROR"
  by (simp add: getFilteredLogLevel_def getFilteredLogLevel_part000_def svc_logger_def svc_filters_def
      zero_Logger_def matches_def Let_def LL_defs)

subsection \<open>\<^verbatim>\<open>part_000\<close>: the longest matching prefix\<close>

lemma getFilteredLogLevel_loop_part000_best:
  assumes "all = pre @ rest" and "n = int (length pre)"
    and "best_so_far all facility (length pre) found"
  shows "best_so_far all facility (length all)
           (getFilteredLogLevel_loop_part000 all facility rest n found)"
  using assms
proof (induction rest arbitrary: pre n found)
  case Nil
  then show ?case by simp
next
  case (Cons f rest)
  let ?found' = "(if prefix (filter_str f) facility then
          if found > -1 then
            if length (filter_str f) \<ge> length (filter_str (all ! nat found))
            then n
            else found
          else n
        else found)"
  have all: "all = (pre @ [f]) @ rest" using Cons.prems(1) by simp
  have n: "n + 1 = int (length (pre @ [f]))" using Cons.prems(2) by simp
  have f: "all ! length pre = f" using Cons.prems(1) by simp
  have step: "best_so_far all facility (length (pre @ [f])) ?found'"
    using Cons.prems(2,3) f
    by (auto simp: best_so_far_def matches_def less_Suc_eq split: if_splits)
  from Cons.IH [OF all n step] show ?case by simp
qed

lemma getFilteredLogLevel_part000_best:
  "best_so_far (filter_list (filters slog)) facility (length (filter_list (filters slog)))
     (getFilteredLogLevel_loop_part000 (filter_list (filters slog)) facility
        (filter_list (filters slog)) 0 (- 1))"
  using getFilteredLogLevel_loop_part000_best
    [of "filter_list (filters slog)" "[]" "filter_list (filters slog)" 0 facility "- 1"]
  by (simp add: best_so_far_def)

text \<open>
  In \<^verbatim>\<open>part_000\<close> the claim C1 holds: a matching filter whose string is strictly longer than
  that of every other matching filter gives the level, and the minimum level is returned
  when no filter matches.
\<close>

lemma getFilteredLogLevel_part000_longest:
  assumes "i < length (filter_list (filters slog))"
    and "matches (filter_list (filters slog) ! i) facility"
    and "\<forall>j < length (filter_list (filters slog)).
           j \<noteq> i \<and> matches (filter_list (filters slog) ! j) facility \<longrightarrow>
           length (filter_str (filter_list (filters slog) ! j))
             < length (filter_str (filter_list (filters slog) ! i))"
  shows "getFilteredLogLevel_part000 slog facility = level (filter_list (filters slog) ! i)"
proof -
  let ?fs = "filter_list (filters slog)"
  let ?k = "getFilteredLogLevel_loop_part000 ?fs facility ?fs 0 (- 1)"
  have best: "best_so_far ?fs facility (length ?fs) ?k"
    by (rule getFilteredLogLevel_part000_best)
  have ne: "?k \<noteq> - 1"
    using best assms(1,2) by (auto simp: best_so_far_def)
  with best have k: "0 \<le> ?k" "nat ?k < length ?fs" "matches (?fs ! nat ?k) facility"
    and mx: "\<forall>j < length ?fs. matches (?fs ! j) facility \<longrightarrow>
        length (filter_str (?fs ! j)) \<le> length (filter_str (?fs ! nat ?k))"
    by (simp_all add: best_so_far_def)
  have "nat ?k = i"
  proof (rule ccontr)
    assume d: "nat ?k \<noteq> i"
    with assms(3) k have "length (filter_str (?fs ! nat ?k)) < length (filter_str (?fs ! i))"
      by blast
    moreover from mx assms(1,2)
    have "length (filter_str (?fs ! i)) \<le> length (filter_str (?fs ! nat ?k))" by blast
    ultimately show False by simp
  qed
  with k(1) ne show ?thesis
    by (simp add: getFilteredLogLevel_part000_def Let_def)
qed

lemma getFilteredLogLevel_part000_no_match:
  assumes "\<forall>f \<in> set (filter_list (filters slog)). \<not> matches f facility"
  shows "getFilteredLogLevel_part000 slog facility = MinLoglevel slog"
proof -
  let ?fs = "filter_list (filters slog)"
  let ?k = "getFilteredLogLevel_loop_part000 ?fs facility ?fs 0 (- 1)"
  have best: "best_so_far ?fs facility (length ?fs) ?k"
    by (rule getFilteredLogLevel_part000_best)
  have "?k = - 1"
  proof (rule ccontr)
    assume "?k \<noteq> - 1"
    with best have "nat ?k < length ?fs" and "matches (?fs ! nat ?k) facility"
      by (simp_all add: best_so_far_def)
    with assms show False by (metis nth_mem)
  qed
  then show ?thesis by (simp add: getFilteredLogLevel_part000_def Let_def)
qed

section \<open>Construction and the filter file\<close>

text \<open>
  C6: with rotation enabled and a keep count below 2, \<^verbatim>\<open>New\<close> returns the configuration
  error at once: the world is as before, no file was opened (the handle and the writer of
  the returned logger are \<^verbatim>\<open>nil\<close>). And when \<^verbatim>\<open>New\<close> with rotation enabled returns without
  an error, the keep count is at least 2.
\<close>

theorem New_keep_too_low:
  "(rotate_arg \<and> keep_arg < 2 \<longrightarrow>
      (\<exists>l. New prefix_arg filename_arg minloglevel rotate_arg rotatesize_arg keep_arg w
             = Returned (l, Some KeepTooLow) w \<and> filehandle l = None \<and> base l = None)) \<and>
   (rotate_arg \<and>
      New prefix_arg filename_arg minloglevel rotate_arg rotatesize_arg keep_arg w = Returned (l', None) w'
      \<longrightarrow> 2 \<le> keep_arg)"
  by (auto simp: New_def Let_def zero_Logger_def log_Fatal_def split: sum.splits prod.splits if_splits)

theorem New_keep_too_low_witness:
  "(1 :: int) < 2 \<and>
   (\<exists>l. New ''svc'' ''app.log'' LL_INFO True ''10K'' 1 empty_world
          = Returned (l, Some KeepTooLow) empty_world \<and> filehandle l = None \<and> base l = None) \<and>
   (\<exists>l' w'. New ''svc'' ''app.log'' LL_INFO True ''10K'' 3 empty_world = Returned (l', None) w') \<and>
   (2 :: int) \<le> 3"
proof -
  have a: "\<exists>l. New ''svc'' ''app.log'' LL_INFO True ''10K'' 1 empty_world
          = Returned (l, Some KeepTooLow) empty_world \<and> filehandle l = None \<and> base l = None"
    using New_keep_too_low [of True 1 "''svc''" "''app.log''" LL_INFO "''10K''" empty_world]
    by simp
  have b: "\<exists>l' w'. New ''svc'' ''app.log'' LL_INFO True ''10K'' 3 empty_world = Returned (l', None) w'"
    by (simp add: New_def Let_def zero_Logger_def OpenFile_def empty_world_def logSize_examples)
  then obtain l' w' where c: "New ''svc'' ''app.log'' LL_INFO True ''10K'' 3 empty_world = Returned (l', None) w'"
    by blast
  have d: "(2 :: int) \<le> 3"
    using New_keep_too_low [of True 3 "''svc''" "''app.log''" LL_INFO "''10K''" empty_world l' w'] c
    by simp
  from a b d show ?thesis by simp
qed

lemma New_example:
  "New ''svc'' ''app.log'' LL_INFO True ''10K'' 3 empty_world =
     Returned (\<lparr>base = Some 0, prefix_l = ''svc'', MinLoglevel = LL_INFO, filename = ''app.log'',
        rotate_l = True, rotatesize = 10240, keep = 3, filehandle = Some 0, rotation_running = False,
        filters = \<lparr>count = 0, filter_list = []\<rparr>\<rparr>, None)
       (empty_world\<lparr>names := (\<lambda>_. None)(''app.log'' := Some 0),
          inodes := (\<lambda>_. \<lparr>bytes = [], perm = 0\<rparr>)(0 := \<lparr>bytes = [], perm = mode_0640\<rparr>),
          next_inode := 1\<rparr>)"
  by (simp add: New_def Let_def zero_Logger_def OpenFile_def empty_world_def logSize_examples)

lemma foldl_AddFacilityFilter:
  "foldl (\<lambda>s (fname, flevel). AddFacilityFilter s fname (StringToLogLevel flevel)) slog kvs =
   slog\<lparr>filters := \<lparr>count = count (filters slog) + int (length kvs),
     filter_list = filter_list (filters slog)
        @ map (\<lambda>(k, v). \<lparr>filter_str = k, level = StringToLogLevel v\<rparr>) kvs\<rparr>\<rparr>"
proof (induction kvs arbitrary: slog)
  case Nil
  show ?case by simp
next
  case (Cons kv kvs)
  obtain k v where kv: "kv = (k, v)" by (cases kv)
  show ?case
  proof -
    have "foldl (\<lambda>s (fname, flevel). AddFacilityFilter s fname (StringToLogLevel flevel)) slog (kv # kvs)
      = foldl (\<lambda>s (fname, flevel). AddFacilityFilter s fname (StringToLogLevel flevel))
          (AddFacilityFilter slog k (StringToLogLevel v)) kvs"
      by (simp add: kv)
    also have "\<dots> = (AddFacilityFilter slog k (StringToLogLevel v))
        \<lparr>filters := \<lparr>count = count (filters (AddFacilityFilter slog k (StringToLogLevel v))) + int (length kvs),
          filter_list = filter_list (filters (AddFacilityFilter slog k (StringToLogLevel v)))
            @ map (\<lambda>(k, v). \<lparr>filter_str = k, level = StringToLogLevel v\<rparr>) kvs\<rparr>\<rparr>"
      by (rule Cons.IH)
    also have "\<dots> = slog\<lparr>filters := \<lparr>count = count (filters slog) + int (length (kv # kvs)),
        filter_list = filter_list (filters slog)
          @ map (\<lambda>(k, v). \<lparr>filter_str = k, level = StringToLogLevel v\<rparr>) (kv # kvs)\<rparr>\<rparr>"
      by (simp add: AddFacilityFilter_def kv)
    finally show ?thesis .
  qed
qed

text \<open>
  C8: when the file is missing, or when its contents do not decode, \<^verbatim>\<open>LoadFacilityFilters\<close>
  returns the error and the logger, its filters included, is as before; when the contents
  decode, one filter per entry is appended after the filters already there, in the order of
  the entries, with the level that \<^verbatim>\<open>StringToLogLevel\<close> gives, and the count grows by the
  number of entries.
\<close>

theorem LoadFacilityFilters_cumulative:
  "(names w filename_arg = None \<longrightarrow>
      (\<exists>err. LoadFacilityFilters unmarshal slog filename_arg w = (slog, Some err))) \<and>
   (ReadFile filename_arg w = Inr text \<and> unmarshal text = Inl err \<longrightarrow>
      LoadFacilityFilters unmarshal slog filename_arg w = (slog, Some err)) \<and>
   (ReadFile filename_arg w = Inr text \<and> unmarshal text = Inr kvs \<longrightarrow>
      LoadFacilityFilters unmarshal slog filename_arg w =
        (slog\<lparr>filters := \<lparr>count = count (filters slog) + int (length kvs),
            filter_list = filter_list (filters slog)
              @ map (\<lambda>(k, v). \<lparr>filter_str = k, level = StringToLogLevel v\<rparr>) kvs\<rparr>\<rparr>, None))"
  by (simp add: LoadFacilityFilters_def ReadFile_def foldl_AddFacilityFilter)

theorem LoadFacilityFilters_cumulative_witness:
  "names filter_world ''missing.json'' = None \<and>
   (\<exists>err. LoadFacilityFilters example_unmarshal svc_logger ''missing.json'' filter_world
           = (svc_logger, Some err)) \<and>
   ReadFile ''broken.json'' filter_world = Inr ''{'' \<and>
   example_unmarshal ''{'' = Inl (JsonError ''unexpected end of JSON input'') \<and>
   LoadFacilityFilters example_unmarshal svc_logger ''broken.json'' filter_world
     = (svc_logger, Some (JsonError ''unexpected end of JSON input'')) \<and>
   ReadFile ''filters.json'' filter_world = Inr filter_json \<and>
   example_unmarshal filter_json = Inr [(''svc.db'', ''debug'')] \<and>
   LoadFacilityFilters example_unmarshal svc_logger ''filters.json'' filter_world
     = (svc_logger\<lparr>filters := \<lparr>count = 3,
          filter_list = svc_filters @ [\<lparr>filter_str = ''svc.db'', level = LL_DEBUG\<rparr>]\<rparr>\<rparr>, None)"
proof -
  have m: "names filter_world ''missing.json'' = None"
    by (simp add: filter_world_def empty_world_def)
  have rb: "ReadFile ''broken.json'' filter_world = Inr ''{''"
    by (simp add: ReadFile_def filter_world_def empty_world_def)
  have ub: "example_unmarshal ''{'' = Inl (JsonError ''unexpected end of JSON input'')"
    by (simp add: example_unmarshal_def filter_json_def double_quoted_def)
  have rf: "ReadFile ''filters.json'' filter_world = Inr filter_json"
    by (simp add: ReadFile_def filter_world_def empty_world_def)
  have uf: "example_unmarshal filter_json = Inr [(''svc.db'', ''debug'')]"
    by (simp add: example_unmarshal_def)
  have t1: "\<exists>err. LoadFacilityFilters example_unmarshal svc_logger ''missing.json'' filter_world
           = (svc_logger, Some err)"
    using LoadFacilityFilters_cumulative [of filter_world "''missing.json''" example_unmarshal svc_logger] m
    by blast
  have t2: "LoadFacilityFilters example_unmarshal svc_logger ''broken.json'' filter_world
     = (svc_logger, Some (JsonError ''unexpected end of JSON input''))"
    using LoadFacilityFilters_cumulative [of filter_world "''broken.json''" example_unmarshal svc_logger
        "''{''" "JsonError ''unexpected end of JSON input''"] rb ub
    by blast
  have t3: "LoadFacilityFilters example_unmarshal svc_logger ''filters.json'' filter_world
     = (svc_logger\<lparr>filters := \<lparr>count = count (filters svc_logger) + int (length [(''svc.db'', ''debug'')]),
          filter_list = filter_list (filters svc_logger)
            @ map (\<lambda>(k, v). \<lparr>filter_str = k, level = StringToLogLevel v\<rparr>) [(''svc.db'', ''debug'')]\<rparr>\<rparr>, None)"
    using LoadFacilityFilters_cumulative [of filter_world "''filters.json''" example_unmarshal svc_logger
        filter_json _ "[(''svc.db'', ''debug'')]"] rf uf
    by blast
  have t3': "LoadFacilityFilters example_unmarshal svc_logger ''filters.json'' filter_world
     = (svc_logger\<lparr>filters := \<lparr>count = 3,
          filter_list = svc_filters @ [\<lparr>filter_str = ''svc.db'', level = LL_DEBUG\<rparr>]\<rparr>\<rparr>, None)"
    unfolding t3 by (simp add: svc_logger_def StringToLogLevel_simps)
  from m rb ub rf uf t1 t2 t3' show ?thesis by (intro conjI)
qed

section \<open>Rotation\<close>

subsection \<open>Decimal numbers and generation paths\<close>

lemma digits_value_showNat: "digits_value (showNat n) = n"
proof (induction n rule: showNat.induct)
  case (1 n)
  show ?case
  proof (cases "n < 10")
    case True
    then show ?thesis
      by (subst showNat.simps) (simp add: digits_value_def digit_char_props)
  next
    case False
    have md: "n mod 10 < 10" by simp
    from False "1.IH" have ih: "digits_value (showNat (n div 10)) = n div 10" by simp
    have "showNat n = showNat (n div 10) @ [digit_chars ! (n mod 10)]"
      using False by (subst showNat.simps) simp
    then have "digits_value (showNat n) = digits_value (showNat (n div 10)) * 10 + n mod 10"
      by (simp add: digits_value_def digit_char_props [OF md])
    with ih show ?thesis by simp
  qed
qed

lemma showNat_inject: "showNat n = showNat m \<longleftrightarrow> n = m"
  by (metis digits_value_showNat)

lemma showInt_inject: "showInt i = showInt j \<longleftrightarrow> i = j"
proof
  assume eq: "showInt i = showInt j"
  have nd: "\<not> is_digit CHR ''-''" by (simp add: is_digit_def)
  have hdn: "\<And>n. showNat n \<noteq> CHR ''-'' # s" for s
    using hd_showNat_digit nd by (metis list.sel(1))
  show "i = j"
  proof (cases "i < 0")
    case True
    show ?thesis
    proof (cases "j < 0")
      case True
      with \<open>i < 0\<close> eq have "showNat (nat (- i)) = showNat (nat (- j))"
        by (simp add: showInt_def)
      then have "nat (- i) = nat (- j)" by (simp add: showNat_inject)
      with True \<open>i < 0\<close> show ?thesis by simp
    next
      case False
      with \<open>i < 0\<close> eq hdn show ?thesis by (simp add: showInt_def) metis
    qed
  next
    case False
    show ?thesis
    proof (cases "j < 0")
      case True
      with False eq hdn show ?thesis by (simp add: showInt_def)
    next
      case jf: False
      with False eq have "showNat (nat i) = showNat (nat j)"
        by (simp add: showInt_def)
      then have "nat i = nat j" by (simp add: showNat_inject)
      with False jf show ?thesis by simp
    qed
  qed
qed simp

lemma generation_inject [simp]: "generation fname i = generation fname j \<longleftrightarrow> i = j"
  by (simp add: generation_def showInt_inject)

lemma generation_not_live [simp]: "generation fname i \<noteq> fname" "fname \<noteq> generation fname i"
  by (simp_all add: generation_def)

lemma generation_1: "fname @ ''.1'' = generation fname 1"
  by (simp add: generation_def showInt_def showNat.simps digit_chars_def)

subsection \<open>The file operations and the loop\<close>

lemma Stat_simps:
  "names w p = None \<Longrightarrow> Stat p w = Inl (NotExist ''stat'' p)"
  "names w p = Some h \<Longrightarrow> Stat p w = Inr (int (length (bytes (inodes w h))))"
  by (simp_all add: Stat_def)

lemma Rename_ok:
  "names w p = Some h \<Longrightarrow> \<not> refused w ''rename'' p \<Longrightarrow> \<not> refused w ''rename'' q \<Longrightarrow>
   Rename p q w = (None, w\<lparr>names := ((names w)(p := None))(q := Some h)\<rparr>)"
  by (simp add: Rename_def)

lemma logRotate_loop_shift:
  assumes "\<forall>p. \<not> refused w ''rename'' p"
    and "names w (generation fname (int k + 1)) = None"
  shows "\<exists>nm. logRotate_loop fname (int k) w = (None, w\<lparr>names := nm\<rparr>) \<and>
     (\<forall>j. 2 \<le> j \<and> j \<le> int k + 1 \<longrightarrow> nm (generation fname j) = names w (generation fname (j - 1))) \<and>
     nm (generation fname 1) = (if 1 \<le> k then None else names w (generation fname 1)) \<and>
     (\<forall>p. (\<forall>j. 1 \<le> j \<and> j \<le> int k + 1 \<longrightarrow> p \<noteq> generation fname j) \<longrightarrow> nm p = names w p)"
  using assms
proof (induction k arbitrary: w)
  case 0
  have "logRotate_loop fname (int 0) w = (None, w\<lparr>names := names w\<rparr>)"
    by (subst logRotate_loop.simps) simp
  then show ?case by (intro exI [of _ "names w"]) auto
next
  case (Suc k)
  let ?g = "generation fname"
  have pos: "int (Suc k) > 0" by simp
  have dec: "int (Suc k) - 1 = int k" by simp
  show ?case
  proof (cases "names w (?g (int (Suc k)))")
    case None
    then have un: "logRotate_loop fname (int (Suc k)) w = logRotate_loop fname (int k) w"
      using pos by (subst logRotate_loop.simps) (simp add: Stat_simps dec del: of_nat_Suc)
    have pre: "names w (?g (int k + 1)) = None" using None by (simp add: add.commute)
    from Suc.IH [OF Suc.prems(1) pre] obtain nm where
      run: "logRotate_loop fname (int k) w = (None, w\<lparr>names := nm\<rparr>)"
      and sh: "\<forall>j. 2 \<le> j \<and> j \<le> int k + 1 \<longrightarrow> nm (?g j) = names w (?g (j - 1))"
      and g1: "nm (?g 1) = (if 1 \<le> k then None else names w (?g 1))"
      and ot: "\<forall>p. (\<forall>j. 1 \<le> j \<and> j \<le> int k + 1 \<longrightarrow> p \<noteq> ?g j) \<longrightarrow> nm p = names w p"
      by blast
    have top: "nm (?g (int k + 2)) = names w (?g (int k + 2))"
      using ot by simp
    have a: "\<forall>j. 2 \<le> j \<and> j \<le> int (Suc k) + 1 \<longrightarrow> nm (?g j) = names w (?g (j - 1))"
    proof (intro allI impI)
      fix j :: int assume j: "2 \<le> j \<and> j \<le> int (Suc k) + 1"
      show "nm (?g j) = names w (?g (j - 1))"
      proof (cases "j \<le> int k + 1")
        case True
        with j sh show ?thesis by simp
      next
        case False
        with j have je: "j = int k + 2" by simp
        have t2: "names w (?g (int k + 2)) = None" using Suc.prems(2) by (simp add: add.commute)
        have j1: "j - 1 = int k + 1" using je by simp
        show ?thesis unfolding j1 unfolding je using top pre t2 by simp
      qed
    qed
    have b: "nm (?g 1) = (if 1 \<le> Suc k then None else names w (?g 1))"
      using g1 pre by (cases k) simp_all
    have c: "\<forall>p. (\<forall>j. 1 \<le> j \<and> j \<le> int (Suc k) + 1 \<longrightarrow> p \<noteq> ?g j) \<longrightarrow> nm p = names w p"
      using ot by simp
    from un run have "logRotate_loop fname (int (Suc k)) w = (None, w\<lparr>names := nm\<rparr>)" by simp
    with a b c show ?thesis by (intro exI [of _ nm] conjI)
  next
    case (Some h)
    let ?w1 = "w\<lparr>names := ((names w)(?g (int (Suc k)) := None))(?g (int (Suc k) + 1) := Some h)\<rparr>"
    have rn: "Rename (?g (int (Suc k))) (?g (int (Suc k) + 1)) w = (None, ?w1)"
      using Some Suc.prems(1) by (simp add: Rename_ok del: of_nat_Suc)
    have un: "logRotate_loop fname (int (Suc k)) w = logRotate_loop fname (int k) ?w1"
      using Some rn pos
      by (subst logRotate_loop.simps) (simp add: Stat_simps dec del: of_nat_Suc)
    have r1: "\<forall>p. \<not> refused ?w1 ''rename'' p" using Suc.prems(1) by simp
    have pre: "names ?w1 (?g (int k + 1)) = None" by (simp add: add.commute)
    from Suc.IH [OF r1 pre] obtain nm where
      run: "logRotate_loop fname (int k) ?w1 = (None, ?w1\<lparr>names := nm\<rparr>)"
      and sh: "\<forall>j. 2 \<le> j \<and> j \<le> int k + 1 \<longrightarrow> nm (?g j) = names ?w1 (?g (j - 1))"
      and g1: "nm (?g 1) = (if 1 \<le> k then None else names ?w1 (?g 1))"
      and ot: "\<forall>p. (\<forall>j. 1 \<le> j \<and> j \<le> int k + 1 \<longrightarrow> p \<noteq> ?g j) \<longrightarrow> nm p = names ?w1 p"
      by blast
    have run': "logRotate_loop fname (int k) ?w1 = (None, w\<lparr>names := nm\<rparr>)"
      using run by simp
    have top: "nm (?g (int k + 2)) = Some h"
    proof -
      have "nm (?g (int k + 2)) = names ?w1 (?g (int k + 2))" using ot by simp
      then show ?thesis by (simp add: add.commute)
    qed
    have a: "\<forall>j. 2 \<le> j \<and> j \<le> int (Suc k) + 1 \<longrightarrow> nm (?g j) = names w (?g (j - 1))"
    proof (intro allI impI)
      fix j :: int assume j: "2 \<le> j \<and> j \<le> int (Suc k) + 1"
      show "nm (?g j) = names w (?g (j - 1))"
      proof (cases "j \<le> int k + 1")
        case True
        with j sh have "nm (?g j) = names ?w1 (?g (j - 1))" by simp
        also have "\<dots> = names w (?g (j - 1))" using True by simp
        finally show ?thesis .
      next
        case False
        with j have je: "j = int k + 2" by simp
        have t2: "names w (?g (int k + 1)) = Some h" using Some by (simp add: add.commute)
        have j1: "j - 1 = int k + 1" using je by simp
        show ?thesis unfolding j1 unfolding je using top t2 by simp
      qed
    qed
    have b: "nm (?g 1) = (if 1 \<le> Suc k then None else names w (?g 1))"
      using g1 by (cases k) simp_all
    have c: "\<forall>p. (\<forall>j. 1 \<le> j \<and> j \<le> int (Suc k) + 1 \<longrightarrow> p \<noteq> ?g j) \<longrightarrow> nm p = names w p"
    proof (intro allI impI)
      fix p assume p: "\<forall>j. 1 \<le> j \<and> j \<le> int (Suc k) + 1 \<longrightarrow> p \<noteq> ?g j"
      then have "\<forall>j. 1 \<le> j \<and> j \<le> int k + 1 \<longrightarrow> p \<noteq> ?g j" by simp
      with ot have "nm p = names ?w1 p" by blast
      moreover from p have "p \<noteq> ?g (int (Suc k))" "p \<noteq> ?g (int (Suc k) + 1)" by simp_all
      ultimately show "nm p = names w p" by simp
    qed
    from un run' have "logRotate_loop fname (int (Suc k)) w = (None, w\<lparr>names := nm\<rparr>)" by simp
    with a b c show ?thesis by (intro exI [of _ nm] conjI)
  qed
qed

lemma remove_oldest_names:
  assumes "\<not> refused w ''remove'' (generation fname kp)"
  shows "remove_oldest fname kp w = w\<lparr>names := (names w)(generation fname kp := None)\<rparr>"
proof (cases "names w (generation fname kp)")
  case None
  then have "(names w)(generation fname kp := None) = names w" by (simp add: fun_upd_idem)
  with None show ?thesis by (simp add: remove_oldest_def Stat_simps)
next
  case (Some h)
  with assms show ?thesis by (simp add: remove_oldest_def Stat_simps Remove_def)
qed

lemma rotation_steps:
  assumes nr: "\<forall>opn p. \<not> refused w opn p"
    and live: "names w fname = Some h0"
    and kp: "1 \<le> kp"
  shows "\<exists>nm w3 w4.
    logRotate_loop fname (kp - 1) (remove_oldest fname kp w) = (None, w3) \<and>
    Rename fname (fname @ ''.1'') w3 = (None, w4) \<and>
    OpenFile fname mode_0640 w4 =
      (Inr (next_inode w),
       w\<lparr>names := nm,
         inodes := (inodes w)(next_inode w := \<lparr>bytes = [], perm = mode_0640\<rparr>),
         next_inode := next_inode w + 1\<rparr>) \<and>
    nm fname = Some (next_inode w) \<and>
    nm (generation fname 1) = Some h0 \<and>
    (\<forall>j. 2 \<le> j \<and> j \<le> kp \<longrightarrow> nm (generation fname j) = names w (generation fname (j - 1))) \<and>
    (\<forall>p. p \<noteq> fname \<and> (\<forall>j. 1 \<le> j \<and> j \<le> kp \<longrightarrow> p \<noteq> generation fname j) \<longrightarrow> nm p = names w p)"
proof -
  let ?g = "generation fname"
  let ?w2 = "w\<lparr>names := (names w)(?g kp := None)\<rparr>"
  have w2: "remove_oldest fname kp w = ?w2"
    using nr by (simp add: remove_oldest_names)
  define k where "k = nat (kp - 1)"
  have ik: "int k = kp - 1" and ik1: "int k + 1 = kp" using kp by (simp_all add: k_def)
  have r2: "\<forall>p. \<not> refused ?w2 ''rename'' p" using nr by simp
  have pre: "names ?w2 (?g (int k + 1)) = None" by (simp add: ik1)
  from logRotate_loop_shift [OF r2 pre] obtain nm2 where
    run: "logRotate_loop fname (int k) ?w2 = (None, ?w2\<lparr>names := nm2\<rparr>)"
    and sh: "\<forall>j. 2 \<le> j \<and> j \<le> int k + 1 \<longrightarrow> nm2 (?g j) = names ?w2 (?g (j - 1))"
    and g1: "nm2 (?g 1) = (if 1 \<le> k then None else names ?w2 (?g 1))"
    and ot: "\<forall>p. (\<forall>j. 1 \<le> j \<and> j \<le> int k + 1 \<longrightarrow> p \<noteq> ?g j) \<longrightarrow> nm2 p = names ?w2 p"
    by blast
  let ?w3 = "w\<lparr>names := nm2\<rparr>"
  have run3: "logRotate_loop fname (kp - 1) (remove_oldest fname kp w) = (None, ?w3)"
    using run by (simp add: w2 ik)
  have live2: "nm2 fname = Some h0"
  proof -
    have "nm2 fname = names ?w2 fname" using ot by simp
    then show ?thesis using live by simp
  qed
  have g1n: "nm2 (?g 1) = None"
  proof (cases "1 \<le> k")
    case True
    with g1 show ?thesis by simp
  next
    case False
    then have "kp = 1" using ik by simp
    with g1 False show ?thesis by simp
  qed
  let ?nm4 = "(nm2(fname := None))(?g 1 := Some h0)"
  let ?w4 = "w\<lparr>names := ?nm4\<rparr>"
  have rn: "Rename fname (fname @ ''.1'') ?w3 = (None, ?w4)"
    using live2 nr by (simp add: generation_1 Rename_ok)
  let ?h = "next_inode w"
  let ?nm = "?nm4(fname := Some ?h)"
  let ?w5 = "w\<lparr>names := ?nm,
           inodes := (inodes w)(?h := \<lparr>bytes = [], perm = mode_0640\<rparr>),
           next_inode := ?h + 1\<rparr>"
  have op: "OpenFile fname mode_0640 ?w4 = (Inr ?h, ?w5)"
    using nr by (simp add: OpenFile_def Let_def)
  have f1: "?nm fname = Some ?h" by simp
  have f2: "?nm (?g 1) = Some h0" by simp
  have f3: "\<forall>j. 2 \<le> j \<and> j \<le> kp \<longrightarrow> ?nm (?g j) = names w (?g (j - 1))"
  proof (intro allI impI)
    fix j :: int assume j: "2 \<le> j \<and> j \<le> kp"
    then have "?nm (?g j) = nm2 (?g j)" by simp
    also have "\<dots> = names ?w2 (?g (j - 1))" using sh j ik1 by simp
    also have "\<dots> = names w (?g (j - 1))" using j by simp
    finally show "?nm (?g j) = names w (?g (j - 1))" .
  qed
  have f4: "\<forall>p. p \<noteq> fname \<and> (\<forall>j. 1 \<le> j \<and> j \<le> kp \<longrightarrow> p \<noteq> ?g j) \<longrightarrow> ?nm p = names w p"
  proof (intro allI impI)
    fix p assume p: "p \<noteq> fname \<and> (\<forall>j. 1 \<le> j \<and> j \<le> kp \<longrightarrow> p \<noteq> ?g j)"
    then have a: "p \<noteq> ?g 1" and b: "p \<noteq> ?g kp" using kp by auto
    from p a have "?nm p = nm2 p" by simp
    also have "\<dots> = names ?w2 p" using ot p ik1 by simp
    also have "\<dots> = names w p" using b by simp
    finally show "?nm p = names w p" .
  qed
  from run3 rn op f1 f2 f3 f4 show ?thesis
    by (intro exI [of _ ?nm] exI [of _ ?w3] exI [of _ ?w4] conjI)
qed

subsection \<open>A rotation in \<^verbatim>\<open>servicelogger.go\<close>\<close>

text \<open>
  With the flag set or rotation disabled, \<^verbatim>\<open>logRotate\<close> does nothing, and \<^verbatim>\<open>LogTrace\<close>, with two
  units of fuel, writes its line or not and returns: the recursion ends there.
\<close>

lemma logRotate_idle:
  "\<not> rotate_l l \<or> rotation_running l \<Longrightarrow> logRotate (Suc n) l w = Some (Returned (l, None) w)"
  by auto

lemma LogTrace_idle:
  assumes "\<not> rotate_l l \<or> rotation_running l"
  shows "LogTrace (Suc (Suc n)) l function source text w =
     Some (if MinLoglevel l \<le> LL_TRACE
           then base_Println l (format_line ''TRACE   '' function (prefix_l l) source text)
                  (fmt_Print (snd (getFilteredLogLevel l (facility_name l source function))) w) ()
           else Returned () (fmt_Print (snd (getFilteredLogLevel l (facility_name l source function))) w))"
proof -
  obtain lvl out where g: "getFilteredLogLevel l (facility_name l source function) = (lvl, out)"
    by (cases "getFilteredLogLevel l (facility_name l source function)")
  have lvl: "lvl = MinLoglevel l"
    using getFilteredLogLevel_default [of l "facility_name l source function"] g by simp
  have idle: "logRotate (Suc n) l (fmt_Print out w) = Some (Returned (l, None) (fmt_Print out w))"
    using assms by (rule logRotate_idle)
  show ?thesis
    unfolding LogTrace.simps g Let_def prod.case idle
    by (simp add: lvl and_then_def)
qed

lemma LogTrace_idle_effect:
  assumes "\<not> rotate_l l \<or> rotation_running l" and "base l = Some hb"
  shows "\<exists>w'. LogTrace (Suc (Suc n)) l function source text w = Some (Returned () w') \<and>
     same_files w w' \<and>
     (\<forall>h. h \<noteq> hb \<longrightarrow> inodes w' h = inodes w h) \<and>
     perm (inodes w' hb) = perm (inodes w hb) \<and>
     bytes (inodes w' hb) = bytes (inodes w hb) @
       (if MinLoglevel l \<le> LL_TRACE
        then stamp_micro @ format_line ''TRACE   '' function (prefix_l l) source text @ newline
        else [])"
  unfolding LogTrace_idle [OF assms(1)]
  using assms(2)
  by (simp add: base_Println_def log_Println_def append_bytes_def fmt_Print_def same_files_def)

lemma logRotate_rotation:
  assumes rot: "rotate_l l" "\<not> rotation_running l"
    and live: "names w (filename l) = Some h0"
    and big: "rotatesize l \<le> int (length (bytes (inodes w h0)))"
    and kp: "1 \<le> keep l"
    and nr: "\<forall>opn p. \<not> refused w opn p"
    and b: "base l = Some hb"
  shows "\<exists>w'. logRotate (Suc (Suc (Suc n))) l w =
      Some (Returned (l\<lparr>rotation_running := True, filehandle := Some (next_inode w),
                         base := Some (next_inode w)\<rparr>, None) w') \<and>
      rotated (filename l) (keep l) w w' \<and>
      bytes (inodes w' (next_inode w)) =
        (if MinLoglevel l \<le> LL_TRACE
         then stamp_micro @ format_line ''TRACE   '' ''logRotate'' (prefix_l l) ''servicelogger''
                ''Log rotated, reopened logwriter'' @ newline
         else [])"
proof -
  let ?l1 = "l\<lparr>rotation_running := True\<rparr>"
  have g1: "\<not> rotate_l ?l1 \<or> rotation_running ?l1" by simp
  have b1: "base ?l1 = Some hb" using b by simp
  from LogTrace_idle_effect [OF g1 b1, of n "''logRotate''" "''servicelogger''"
      "''Rotating log, closing logwriter''" w]
  obtain w1 where t1: "LogTrace (Suc (Suc n)) ?l1 ''logRotate'' ''servicelogger''
        ''Rotating log, closing logwriter'' w = Some (Returned () w1)"
    and s1: "same_files w w1" by blast
  have nr1: "\<forall>opn p. \<not> refused w1 opn p" using nr s1 by (simp add: same_files_def)
  have live1: "names w1 (filename l) = Some h0" using live s1 by (simp add: same_files_def)
  have ni: "next_inode w1 = next_inode w" using s1 by (simp add: same_files_def)
  from rotation_steps [OF nr1 live1 kp] obtain nm w3 w4 where
    e1: "logRotate_loop (filename l) (keep l - 1) (remove_oldest (filename l) (keep l) w1) = (None, w3)"
    and e2: "Rename (filename l) (filename l @ ''.1'') w3 = (None, w4)"
    and e3: "OpenFile (filename l) mode_0640 w4 =
      (Inr (next_inode w1),
       w1\<lparr>names := nm,
         inodes := (inodes w1)(next_inode w1 := \<lparr>bytes = [], perm = mode_0640\<rparr>),
         next_inode := next_inode w1 + 1\<rparr>)"
    and f1: "nm (filename l) = Some (next_inode w1)"
    and f2: "nm (generation (filename l) 1) = Some h0"
    and f3: "\<forall>j. 2 \<le> j \<and> j \<le> keep l \<longrightarrow>
        nm (generation (filename l) j) = names w1 (generation (filename l) (j - 1))"
    and f4: "\<forall>p. p \<noteq> filename l \<and> (\<forall>j. 1 \<le> j \<and> j \<le> keep l \<longrightarrow> p \<noteq> generation (filename l) j)
        \<longrightarrow> nm p = names w1 p"
    by blast
  let ?h = "next_inode w"
  let ?w5 = "w1\<lparr>names := nm,
         inodes := (inodes w1)(?h := \<lparr>bytes = [], perm = mode_0640\<rparr>),
         next_inode := ?h + 1\<rparr>"
  let ?l2 = "?l1\<lparr>filehandle := Some ?h, base := Some ?h\<rparr>"
  have g2: "\<not> rotate_l ?l2 \<or> rotation_running ?l2" by simp
  have b2: "base ?l2 = Some ?h" by simp
  from LogTrace_idle_effect [OF g2 b2, of n "''logRotate''" "''servicelogger''"
      "''Log rotated, reopened logwriter''" ?w5]
  obtain w6 where t2: "LogTrace (Suc (Suc n)) ?l2 ''logRotate'' ''servicelogger''
        ''Log rotated, reopened logwriter'' ?w5 = Some (Returned () w6)"
    and s6: "same_files ?w5 w6"
    and p6: "perm (inodes w6 ?h) = perm (inodes ?w5 ?h)"
    and y6: "bytes (inodes w6 ?h) = bytes (inodes ?w5 ?h) @
       (if MinLoglevel ?l2 \<le> LL_TRACE
        then stamp_micro @ format_line ''TRACE   '' ''logRotate'' (prefix_l ?l2) ''servicelogger''
               ''Log rotated, reopened logwriter'' @ newline
        else [])"
    by blast
  have st: "Stat (filename l) w = Inr (int (length (bytes (inodes w h0))))"
    using live by (simp add: Stat_simps)
  have fl: "filename ?l1 = filename l" and kl: "keep ?l1 = keep l"
    and rl: "rotatesize ?l1 = rotatesize l" by simp_all
  have run: "logRotate (Suc (Suc (Suc n))) l w = Some (Returned (?l2, None) w6)"
    apply (subst logRotate.simps(2))
    apply (simp only: rot simp_thms if_True Let_def)
    apply (simp only: fl kl rl st sum.case)
    apply (simp only: big if_True t1 and_then_def option.case outcome.case)
    apply (simp only: e1 e2 e3 prod.case option.case sum.case ni)
    apply (subst t2)
    apply (simp only: option.case outcome.case)
    done
  have rt: "rotated (filename l) (keep l) w w6"
    using s6 s1 f1 f2 f3 f4 p6 live ni
    by (simp add: rotated_def same_files_def)
  have by6: "bytes (inodes w6 ?h) =
        (if MinLoglevel l \<le> LL_TRACE
         then stamp_micro @ format_line ''TRACE   '' ''logRotate'' (prefix_l l) ''servicelogger''
                ''Log rotated, reopened logwriter'' @ newline
         else [])"
    using y6 by simp
  from run rt by6 show ?thesis by (intro exI [of _ w6] conjI)
qed

subsection \<open>A rotation in \<^verbatim>\<open>part_000\<close>\<close>

lemma logRotate_part000_idle:
  "\<not> rotate_l l \<or> rotation_running l \<Longrightarrow>
   logRotate_part000 (Suc n) l w = Some (Returned (l, base l, None) w)"
  by auto

lemma LogTrace_part000_idle:
  assumes "\<not> rotate_l l \<or> rotation_running l"
  shows "LogTrace_part000 (Suc (Suc n)) l function source text w =
     Some (if getFilteredLogLevel_part000 l (facility_name l source function) \<le> LL_TRACE
           then base_Println l (format_line ''TRACE   '' function (prefix_l l) source text) w l
           else Returned l w)"
proof -
  have idle: "logRotate_part000 (Suc n) l w = Some (Returned (l, base l, None) w)"
    using assms by (rule logRotate_part000_idle)
  show ?thesis
    unfolding LogTrace_part000.simps idle
    by (simp add: and_then_def)
qed

lemma LogError_part000_idle:
  assumes "\<not> rotate_l l \<or> rotation_running l"
  shows "LogError_part000 (Suc (Suc n)) l function source text w =
     Some (if getFilteredLogLevel_part000 l (facility_name l source function) \<le> LL_ERROR
           then base_Println l (format_line ''ERROR   '' function (prefix_l l) source text) w l
           else Returned l w)"
proof -
  have idle: "logRotate_part000 (Suc n) l w = Some (Returned (l, base l, None) w)"
    using assms by (rule logRotate_part000_idle)
  show ?thesis
    unfolding LogError_part000.simps idle
    by (simp add: and_then_def)
qed

lemma LogTrace_part000_idle_effect:
  assumes "\<not> rotate_l l \<or> rotation_running l" and "base l = Some hb"
  shows "\<exists>w'. LogTrace_part000 (Suc (Suc n)) l function source text w = Some (Returned l w') \<and>
     same_files w w' \<and> stdout w' = stdout w \<and>
     (\<forall>h. h \<noteq> hb \<longrightarrow> inodes w' h = inodes w h) \<and>
     perm (inodes w' hb) = perm (inodes w hb) \<and>
     bytes (inodes w' hb) = bytes (inodes w hb) @
       (if getFilteredLogLevel_part000 l (facility_name l source function) \<le> LL_TRACE
        then stamp_micro @ format_line ''TRACE   '' function (prefix_l l) source text @ newline
        else [])"
  unfolding LogTrace_part000_idle [OF assms(1)]
  using assms(2)
  by (simp add: base_Println_def log_Println_def append_bytes_def same_files_def)

lemma logRotate_part000_rotation:
  assumes rot: "rotate_l l" "\<not> rotation_running l"
    and live: "names w (filename l) = Some h0"
    and big: "rotatesize l \<le> int (length (bytes (inodes w h0)))"
    and kp: "1 \<le> keep l"
    and nr: "\<forall>opn p. \<not> refused w opn p"
    and b: "base l = Some hb"
  shows "\<exists>w'. logRotate_part000 (Suc (Suc (Suc n))) l w =
      Some (Returned (l\<lparr>rotation_running := False, filehandle := Some (next_inode w),
                         base := Some (next_inode w)\<rparr>, Some (next_inode w), None) w') \<and>
      rotated (filename l) (keep l) w w' \<and> stdout w' = stdout w \<and>
      bytes (inodes w' (next_inode w)) =
        (if getFilteredLogLevel_part000 l (facility_name l ''servicelogger'' ''logRotate'') \<le> LL_TRACE
         then stamp_micro @ format_line ''TRACE   '' ''logRotate'' (prefix_l l) ''servicelogger''
                ''Log rotated, reopened logwriter'' @ newline
         else [])"
proof -
  let ?l1 = "l\<lparr>rotation_running := True\<rparr>"
  have g1: "\<not> rotate_l ?l1 \<or> rotation_running ?l1" by simp
  have b1: "base ?l1 = Some hb" using b by simp
  from LogTrace_part000_idle_effect [OF g1 b1, of n "''logRotate''" "''servicelogger''"
      "''Rotating log, closing logwriter''" w]
  obtain w1 where t1: "LogTrace_part000 (Suc (Suc n)) ?l1 ''logRotate'' ''servicelogger''
        ''Rotating log, closing logwriter'' w = Some (Returned ?l1 w1)"
    and s1: "same_files w w1" and o1: "stdout w1 = stdout w" by blast
  have nr1: "\<forall>opn p. \<not> refused w1 opn p" using nr s1 by (simp add: same_files_def)
  have live1: "names w1 (filename l) = Some h0" using live s1 by (simp add: same_files_def)
  have ni: "next_inode w1 = next_inode w" using s1 by (simp add: same_files_def)
  from rotation_steps [OF nr1 live1 kp] obtain nm w3 w4 where
    e1: "logRotate_loop (filename l) (keep l - 1) (remove_oldest (filename l) (keep l) w1) = (None, w3)"
    and e2: "Rename (filename l) (filename l @ ''.1'') w3 = (None, w4)"
    and e3: "OpenFile (filename l) mode_0640 w4 =
      (Inr (next_inode w1),
       w1\<lparr>names := nm,
         inodes := (inodes w1)(next_inode w1 := \<lparr>bytes = [], perm = mode_0640\<rparr>),
         next_inode := next_inode w1 + 1\<rparr>)"
    and f1: "nm (filename l) = Some (next_inode w1)"
    and f2: "nm (generation (filename l) 1) = Some h0"
    and f3: "\<forall>j. 2 \<le> j \<and> j \<le> keep l \<longrightarrow>
        nm (generation (filename l) j) = names w1 (generation (filename l) (j - 1))"
    and f4: "\<forall>p. p \<noteq> filename l \<and> (\<forall>j. 1 \<le> j \<and> j \<le> keep l \<longrightarrow> p \<noteq> generation (filename l) j)
        \<longrightarrow> nm p = names w1 p"
    by blast
  let ?h = "next_inode w"
  let ?w5 = "w1\<lparr>names := nm,
         inodes := (inodes w1)(?h := \<lparr>bytes = [], perm = mode_0640\<rparr>),
         next_inode := ?h + 1\<rparr>"
  let ?l2 = "?l1\<lparr>filehandle := Some ?h, base := Some ?h\<rparr>"
  have g2: "\<not> rotate_l ?l2 \<or> rotation_running ?l2" by simp
  have b2: "base ?l2 = Some ?h" by simp
  from LogTrace_part000_idle_effect [OF g2 b2, of n "''logRotate''" "''servicelogger''"
      "''Log rotated, reopened logwriter''" ?w5]
  obtain w6 where t2: "LogTrace_part000 (Suc (Suc n)) ?l2 ''logRotate'' ''servicelogger''
        ''Log rotated, reopened logwriter'' ?w5 = Some (Returned ?l2 w6)"
    and s6: "same_files ?w5 w6" and o6: "stdout w6 = stdout ?w5"
    and p6: "perm (inodes w6 ?h) = perm (inodes ?w5 ?h)"
    and y6: "bytes (inodes w6 ?h) = bytes (inodes ?w5 ?h) @
       (if getFilteredLogLevel_part000 ?l2 (facility_name ?l2 ''servicelogger'' ''logRotate'') \<le> LL_TRACE
        then stamp_micro @ format_line ''TRACE   '' ''logRotate'' (prefix_l ?l2) ''servicelogger''
               ''Log rotated, reopened logwriter'' @ newline
        else [])"
    by blast
  have st: "Stat (filename l) w = Inr (int (length (bytes (inodes w h0))))"
    using live by (simp add: Stat_simps)
  have fl: "filename ?l1 = filename l" and kl: "keep ?l1 = keep l"
    and rl: "rotatesize ?l1 = rotatesize l" by simp_all
  let ?l4 = "?l2\<lparr>rotation_running := False\<rparr>"
  have run: "logRotate_part000 (Suc (Suc (Suc n))) l w = Some (Returned (?l4, base ?l4, None) w6)"
    apply (subst logRotate_part000.simps(2))
    apply (simp only: rot simp_thms if_True Let_def)
    apply (simp only: fl kl rl st sum.case)
    apply (simp only: big if_True t1 and_then_def option.case outcome.case)
    apply (simp only: fl kl rl e1 e2 e3 prod.case option.case sum.case ni)
    apply (subst t2)
    apply (simp only: option.case outcome.case)
    done
  have run': "logRotate_part000 (Suc (Suc (Suc n))) l w =
      Some (Returned (l\<lparr>rotation_running := False, filehandle := Some ?h, base := Some ?h\<rparr>,
                      Some ?h, None) w6)"
    unfolding run by simp
  have rt: "rotated (filename l) (keep l) w w6"
    using s6 s1 f1 f2 f3 f4 p6 live ni
    by (simp add: rotated_def same_files_def)
  have so: "stdout w6 = stdout w" using o6 o1 by simp
  have gf: "getFilteredLogLevel_part000 ?l2 (facility_name ?l2 ''servicelogger'' ''logRotate'')
      = getFilteredLogLevel_part000 l (facility_name l ''servicelogger'' ''logRotate'')"
    by (simp add: getFilteredLogLevel_part000_def facility_name_def Let_def)
  have by6: "bytes (inodes w6 ?h) =
        (if getFilteredLogLevel_part000 l (facility_name l ''servicelogger'' ''logRotate'') \<le> LL_TRACE
         then stamp_micro @ format_line ''TRACE   '' ''logRotate'' (prefix_l l) ''servicelogger''
                ''Log rotated, reopened logwriter'' @ newline
         else [])"
    using y6 unfolding gf by simp
  from run' rt so by6 show ?thesis by (intro exI [of _ w6] conjI)
qed

subsection \<open>The example of the specification\<close>

lemma app_log_generations:
  "generation ''app.log'' 1 = ''app.log.1''" "generation ''app.log'' 2 = ''app.log.2''"
  "generation ''app.log'' 3 = ''app.log.3''"
  by (simp_all add: generation_def showInt_def showNat.simps digit_chars_def)

lemmas rotate_eval = rot_logger_def rot_world_def rot_world_after_def stale_world_after_def
  Stat_def remove_oldest_def Remove_def Rename_def OpenFile_def logRotate_loop.simps
  app_log_generations and_then_def Let_def getFilteredLogLevel_def getFilteredLogLevel_part000_def
  facility_name_def fmt_Print_def LL_defs trace_gate_output_def fun_upd_def

lemma logRotate_example:
  "logRotate (Suc (Suc (Suc 0))) rot_logger rot_world =
   Some (Returned (rot_logger\<lparr>rotation_running := True, filehandle := Some 4, base := Some 4\<rparr>, None)
     (rot_world_after\<lparr>stdout := trace_gate_output @ trace_gate_output\<rparr>))"
  by (simp add: rotate_eval) (rule ext, simp)

lemma logRotate_part000_example:
  "logRotate_part000 (Suc (Suc (Suc 0))) rot_logger rot_world =
   Some (Returned (rot_logger\<lparr>rotation_running := False, filehandle := Some 4, base := Some 4\<rparr>,
          Some 4, None) rot_world_after)"
  by (simp add: rotate_eval) (rule ext, simp)

text \<open>
  C2 at the example: \<^verbatim>\<open>logRotate\<close> of \<^verbatim>\<open>servicelogger.go\<close> rotates (the old generation 3 is
  removed, generations 2 and 1 and the live file move up, a new live file is opened) and
  returns without an error, with \<^verbatim>\<open>rotation_running\<close> still set in the logger it ran on:
  the \<^verbatim>\<open>return nil\<close> at the end of the rotation branch skips the assignment that clears the
  flag. \<^verbatim>\<open>logRotate\<close> of \<^verbatim>\<open>part_000\<close>, which has no such \<^verbatim>\<open>return\<close>, ends the same rotation with
  the flag cleared.
\<close>

theorem logRotate_flag_stays_set:
  "logRotate 3 rot_logger rot_world =
     Some (Returned (rot_logger\<lparr>rotation_running := True, filehandle := Some 4, base := Some 4\<rparr>, None)
       (rot_world_after\<lparr>stdout := trace_gate_output @ trace_gate_output\<rparr>)) \<and>
   rotation_running (rot_logger\<lparr>rotation_running := True, filehandle := Some 4, base := Some 4\<rparr>) \<and>
   logRotate_part000 3 rot_logger rot_world =
     Some (Returned (rot_logger\<lparr>rotation_running := False, filehandle := Some 4, base := Some 4\<rparr>,
            Some 4, None) rot_world_after)"
  using logRotate_example logRotate_part000_example by (simp add: eval_nat_numeral)

lemma stale_example:
  "logRotate (Suc (Suc (Suc 0))) (rot_logger\<lparr>keep := 2\<rparr>) rot_world =
   Some (Returned (rot_logger\<lparr>keep := 2, rotation_running := True, filehandle := Some 4,
                     base := Some 4\<rparr>, None)
     (stale_world_after\<lparr>stdout := trace_gate_output @ trace_gate_output\<rparr>))"
  by (simp add: rotate_eval) (rule ext, simp)

lemma stale_part000_example:
  "logRotate_part000 (Suc (Suc (Suc 0))) (rot_logger\<lparr>keep := 2\<rparr>) rot_world =
   Some (Returned (rot_logger\<lparr>keep := 2, rotation_running := False, filehandle := Some 4,
                     base := Some 4\<rparr>, Some 4, None) stale_world_after)"
  by (simp add: rotate_eval) (rule ext, simp)

lemma stale_generations: "numbered_generations ''app.log'' stale_world_after = {1, 2, 3}"
proof -
  have g: "\<And>j. names stale_world_after (generation ''app.log'' j) \<noteq> None \<longleftrightarrow> j = 1 \<or> j = 2 \<or> j = 3"
  proof -
    fix j :: int
    have "generation ''app.log'' j = ''app.log.1'' \<longleftrightarrow> j = 1"
      "generation ''app.log'' j = ''app.log.2'' \<longleftrightarrow> j = 2"
      "generation ''app.log'' j = ''app.log.3'' \<longleftrightarrow> j = 3"
      using generation_inject [of "''app.log''" j] by (simp_all only: app_log_generations [symmetric])
    moreover have "generation ''app.log'' j \<noteq> ''app.log''" by (rule generation_not_live)
    ultimately show "names stale_world_after (generation ''app.log'' j) \<noteq> None \<longleftrightarrow> j = 1 \<or> j = 2 \<or> j = 3"
      by (auto simp: stale_world_after_def rot_world_def)
  qed
  show ?thesis unfolding numbered_generations_def g by auto
qed

text \<open>
  C4, as stated: at most \<open>keep\<close> numbered generations exist after any completed rotation. With
  two kept generations and generations 1, 2 and 3 on disk (left by an earlier run that kept
  three), a completed rotation of either version leaves generations 1, 2 and 3: three
  numbered generations, more than \<open>keep\<close>.
\<close>

theorem logRotate_stale_generation_counterexample:
  "logRotate 3 (rot_logger\<lparr>keep := 2\<rparr>) rot_world =
     Some (Returned (rot_logger\<lparr>keep := 2, rotation_running := True, filehandle := Some 4,
                       base := Some 4\<rparr>, None)
       (stale_world_after\<lparr>stdout := trace_gate_output @ trace_gate_output\<rparr>)) \<and>
   logRotate_part000 3 (rot_logger\<lparr>keep := 2\<rparr>) rot_world =
     Some (Returned (rot_logger\<lparr>keep := 2, rotation_running := False, filehandle := Some 4,
                       base := Some 4\<rparr>, Some 4, None) stale_world_after) \<and>
   numbered_generations ''app.log'' stale_world_after = {1, 2, 3} \<and>
   numbered_generations ''app.log'' (stale_world_after\<lparr>stdout := trace_gate_output @ trace_gate_output\<rparr>)
     = {1, 2, 3} \<and>
   \<not> card {1, 2, 3 :: int} \<le> nat (keep (rot_logger\<lparr>keep := 2\<rparr>))"
  using stale_example stale_part000_example stale_generations
  by (simp add: eval_nat_numeral numbered_generations_def)

lemma rotated_generations_bounded:
  assumes r: "rotated fname kp w w'"
    and none: "\<forall>j. kp < j \<longrightarrow> names w (generation fname j) = None"
  shows "numbered_generations fname w' \<subseteq> {1..kp}"
    and "card (numbered_generations fname w') \<le> nat kp"
proof -
  show sub: "numbered_generations fname w' \<subseteq> {1..kp}"
  proof
    fix j assume "j \<in> numbered_generations fname w'"
    then have j1: "1 \<le> j" and ex: "names w' (generation fname j) \<noteq> None"
      by (simp_all add: numbered_generations_def)
    have "j \<le> kp"
    proof (rule ccontr)
      assume "\<not> j \<le> kp"
      then have gt: "kp < j" by simp
      then have "\<forall>i. 1 \<le> i \<and> i \<le> kp \<longrightarrow> generation fname j \<noteq> generation fname i" by simp
      with r have "names w' (generation fname j) = names w (generation fname j)"
        by (simp add: rotated_def)
      with none gt ex show False by simp
    qed
    with j1 show "j \<in> {1..kp}" by simp
  qed
  have "card (numbered_generations fname w') \<le> card {1..kp}"
    using sub by (intro card_mono) simp_all
  then show "card (numbered_generations fname w') \<le> nat kp" by simp
qed

text \<open>
  C4, amended: when rotation fires (rotation enabled, no rotation in progress, the live file
  at or above the threshold), with at least one kept generation, an open writer and no file
  operation refused, \<^verbatim>\<open>logRotate\<close> of either version returns without an error and leaves the
  directory rotated: what generation \<open>keep\<close> was is named no more, generation \<open>j\<close> is what
  generation \<open>j - 1\<close> was for \<open>j\<close> from \<open>keep\<close> down to 2, generation 1 is the file that was
  live, and the live path names a new file with the permission bits \<^verbatim>\<open>0640\<close>, which the logger
  now writes to and which holds nothing but the TRACE line of \<^verbatim>\<open>logRotate\<close> when TRACE passes
  the filter. Every other path is as before, generations numbered above \<open>keep\<close> included:
  when none of those existed before the rotation, at most \<open>keep\<close> numbered generations exist
  after it.
\<close>

theorem logRotate_generations:
  assumes "rotate_l l" and "\<not> rotation_running l"
    and "names w (filename l) = Some h0"
    and "rotatesize l \<le> int (length (bytes (inodes w h0)))"
    and "1 \<le> keep l"
    and "\<forall>opn p. \<not> refused w opn p"
    and "base l = Some hb"
  shows "(\<exists>l' w'. logRotate (Suc (Suc (Suc n))) l w = Some (Returned (l', None) w') \<and>
            filehandle l' = Some (next_inode w) \<and> base l' = Some (next_inode w) \<and>
            rotated (filename l) (keep l) w w' \<and>
            bytes (inodes w' (next_inode w)) =
              (if MinLoglevel l \<le> LL_TRACE
               then stamp_micro @ format_line ''TRACE   '' ''logRotate'' (prefix_l l) ''servicelogger''
                      ''Log rotated, reopened logwriter'' @ newline
               else []) \<and>
            ((\<forall>j. keep l < j \<longrightarrow> names w (generation (filename l) j) = None) \<longrightarrow>
               card (numbered_generations (filename l) w') \<le> nat (keep l))) \<and>
         (\<exists>l' w'. logRotate_part000 (Suc (Suc (Suc n))) l w
                     = Some (Returned (l', Some (next_inode w), None) w') \<and>
            filehandle l' = Some (next_inode w) \<and> base l' = Some (next_inode w) \<and>
            rotated (filename l) (keep l) w w' \<and>
            bytes (inodes w' (next_inode w)) =
              (if getFilteredLogLevel_part000 l (facility_name l ''servicelogger'' ''logRotate'') \<le> LL_TRACE
               then stamp_micro @ format_line ''TRACE   '' ''logRotate'' (prefix_l l) ''servicelogger''
                      ''Log rotated, reopened logwriter'' @ newline
               else []) \<and>
            ((\<forall>j. keep l < j \<longrightarrow> names w (generation (filename l) j) = None) \<longrightarrow>
               card (numbered_generations (filename l) w') \<le> nat (keep l)))"
proof
  from logRotate_rotation [OF assms, of n] obtain w' where
    run: "logRotate (Suc (Suc (Suc n))) l w =
      Some (Returned (l\<lparr>rotation_running := True, filehandle := Some (next_inode w),
                         base := Some (next_inode w)\<rparr>, None) w')"
    and rt: "rotated (filename l) (keep l) w w'"
    and nb: "bytes (inodes w' (next_inode w)) =
        (if MinLoglevel l \<le> LL_TRACE
         then stamp_micro @ format_line ''TRACE   '' ''logRotate'' (prefix_l l) ''servicelogger''
                ''Log rotated, reopened logwriter'' @ newline
         else [])"
    by blast
  have bd: "(\<forall>j. keep l < j \<longrightarrow> names w (generation (filename l) j) = None) \<longrightarrow>
               card (numbered_generations (filename l) w') \<le> nat (keep l)"
    using rotated_generations_bounded(2) [OF rt] by blast
  show "\<exists>l' w'. logRotate (Suc (Suc (Suc n))) l w = Some (Returned (l', None) w') \<and>
            filehandle l' = Some (next_inode w) \<and> base l' = Some (next_inode w) \<and>
            rotated (filename l) (keep l) w w' \<and>
            bytes (inodes w' (next_inode w)) =
              (if MinLoglevel l \<le> LL_TRACE
               then stamp_micro @ format_line ''TRACE   '' ''logRotate'' (prefix_l l) ''servicelogger''
                      ''Log rotated, reopened logwriter'' @ newline
               else []) \<and>
            ((\<forall>j. keep l < j \<longrightarrow> names w (generation (filename l) j) = None) \<longrightarrow>
               card (numbered_generations (filename l) w') \<le> nat (keep l))"
    using run rt nb bd
    by (intro exI [of _ "l\<lparr>rotation_running := True, filehandle := Some (next_inode w),
                         base := Some (next_inode w)\<rparr>"] exI [of _ w']) simp
next
  from logRotate_part000_rotation [OF assms, of n] obtain w' where
    run: "logRotate_part000 (Suc (Suc (Suc n))) l w =
      Some (Returned (l\<lparr>rotation_running := False, filehandle := Some (next_inode w),
                         base := Some (next_inode w)\<rparr>, Some (next_inode w), None) w')"
    and rt: "rotated (filename l) (keep l) w w'"
    and nb: "bytes (inodes w' (next_inode w)) =
        (if getFilteredLogLevel_part000 l (facility_name l ''servicelogger'' ''logRotate'') \<le> LL_TRACE
         then stamp_micro @ format_line ''TRACE   '' ''logRotate'' (prefix_l l) ''servicelogger''
                ''Log rotated, reopened logwriter'' @ newline
         else [])"
    by blast
  have bd: "(\<forall>j. keep l < j \<longrightarrow> names w (generation (filename l) j) = None) \<longrightarrow>
               card (numbered_generations (filename l) w') \<le> nat (keep l)"
    using rotated_generations_bounded(2) [OF rt] by blast
  show "\<exists>l' w'. logRotate_part000 (Suc (Suc (Suc n))) l w
                     = Some (Returned (l', Some (next_inode w), None) w') \<and>
            filehandle l' = Some (next_inode w) \<and> base l' = Some (next_inode w) \<and>
            rotated (filename l) (keep l) w w' \<and>
            bytes (inodes w' (next_inode w)) =
              (if getFilteredLogLevel_part000 l (facility_name l ''servicelogger'' ''logRotate'') \<le> LL_TRACE
               then stamp_micro @ format_line ''TRACE   '' ''logRotate'' (prefix_l l) ''servicelogger''
                      ''Log rotated, reopened logwriter'' @ newline
               else []) \<and>
            ((\<forall>j. keep l < j \<longrightarrow> names w (generation (filename l) j) = None) \<longrightarrow>
               card (numbered_generations (filename l) w') \<le> nat (keep l))"
    using run rt nb bd
    by (intro exI [of _ "l\<lparr>rotation_running := False, filehandle := Some (next_inode w),
                         base := Some (next_inode w)\<rparr>"] exI [of _ w']) simp
qed

lemma rot_world_generations:
  "names rot_world (generation ''app.log'' j) \<noteq> None \<longleftrightarrow> j = 1 \<or> j = 2 \<or> j = 3"
proof -
  have "generation ''app.log'' j = ''app.log.1'' \<longleftrightarrow> j = 1"
    "generation ''app.log'' j = ''app.log.2'' \<longleftrightarrow> j = 2"
    "generation ''app.log'' j = ''app.log.3'' \<longleftrightarrow> j = 3"
    using generation_inject [of "''app.log''" j] by (simp_all only: app_log_generations [symmetric])
  moreover have "generation ''app.log'' j \<noteq> ''app.log''" by (rule generation_not_live)
  ultimately show ?thesis by (auto simp: rot_world_def)
qed

theorem logRotate_generations_witness:
  "rotate_l rot_logger \<and> \<not> rotation_running rot_logger \<and>
   names rot_world (filename rot_logger) = Some 0 \<and>
   rotatesize rot_logger \<le> int (length (bytes (inodes rot_world 0))) \<and>
   1 \<le> keep rot_logger \<and> base rot_logger = Some 0 \<and>
   (\<exists>l' w'. logRotate 3 rot_logger rot_world = Some (Returned (l', None) w') \<and>
      base l' = Some 4 \<and> rotated ''app.log'' 3 rot_world w' \<and>
      card (numbered_generations ''app.log'' w') \<le> 3) \<and>
   (\<exists>l' w'. logRotate_part000 3 rot_logger rot_world = Some (Returned (l', Some 4, None) w') \<and>
      base l' = Some 4 \<and> rotated ''app.log'' 3 rot_world w' \<and>
      card (numbered_generations ''app.log'' w') \<le> 3)"
proof -
  have a: "rotate_l rot_logger" "\<not> rotation_running rot_logger"
    "names rot_world (filename rot_logger) = Some 0"
    "rotatesize rot_logger \<le> int (length (bytes (inodes rot_world 0)))"
    "1 \<le> keep rot_logger"
    "\<forall>opn p. \<not> refused rot_world opn p"
    "base rot_logger = Some 0"
    by (simp_all add: rot_logger_def rot_world_def)
  have none: "\<forall>j. keep rot_logger < j \<longrightarrow> names rot_world (generation (filename rot_logger) j) = None"
  proof (intro allI impI)
    fix j :: int assume "keep rot_logger < j"
    then have "\<not> (j = 1 \<or> j = 2 \<or> j = 3)" by (simp add: rot_logger_def)
    with rot_world_generations [of j]
    have "\<not> names rot_world (generation ''app.log'' j) \<noteq> None" by blast
    then show "names rot_world (generation (filename rot_logger) j) = None"
      by (simp add: rot_logger_def)
  qed
  have f: "filename rot_logger = ''app.log''" "keep rot_logger = 3" "next_inode rot_world = 4"
    by (simp_all add: rot_logger_def rot_world_def)
  have three: "Suc (Suc (Suc 0)) = 3" by simp
  note inst = logRotate_generations [OF a, of 0, unfolded f three]
  from inst obtain l1 w1 where
    r1: "logRotate 3 rot_logger rot_world = Some (Returned (l1, None) w1)"
    and b1: "base l1 = Some 4" and t1: "rotated ''app.log'' 3 rot_world w1"
    and c1: "(\<forall>j. 3 < j \<longrightarrow> names rot_world (generation ''app.log'' j) = None) \<longrightarrow>
               card (numbered_generations ''app.log'' w1) \<le> nat 3"
    by blast
  from inst obtain l2 w2 where
    r2: "logRotate_part000 3 rot_logger rot_world = Some (Returned (l2, Some 4, None) w2)"
    and b2: "base l2 = Some 4" and t2: "rotated ''app.log'' 3 rot_world w2"
    and c2: "(\<forall>j. 3 < j \<longrightarrow> names rot_world (generation ''app.log'' j) = None) \<longrightarrow>
               card (numbered_generations ''app.log'' w2) \<le> nat 3"
    by blast
  from none have n3: "\<forall>j. 3 < j \<longrightarrow> names rot_world (generation ''app.log'' j) = None"
    unfolding f .
  from c1 n3 have d1: "card (numbered_generations ''app.log'' w1) \<le> 3" by simp
  from c2 n3 have d2: "card (numbered_generations ''app.log'' w2) \<le> 3" by simp
  have "(\<exists>l' w'. logRotate 3 rot_logger rot_world = Some (Returned (l', None) w') \<and>
      base l' = Some 4 \<and> rotated ''app.log'' 3 rot_world w' \<and>
      card (numbered_generations ''app.log'' w') \<le> 3) \<and>
   (\<exists>l' w'. logRotate_part000 3 rot_logger rot_world = Some (Returned (l', Some 4, None) w') \<and>
      base l' = Some 4 \<and> rotated ''app.log'' 3 rot_world w' \<and>
      card (numbered_generations ''app.log'' w') \<le> 3)"
    using r1 b1 t1 d1 r2 b2 t2 d2 by blast
  with a show ?thesis by simp
qed

section \<open>The logging calls return\<close>

subsection \<open>File operations and the refusals\<close>

lemma and_then_simps [simp]:
  "and_then None f = None"
  "and_then (Some (Returned a w)) f = f a w"
  "and_then (Some (Exited c w)) f = Some (Exited c w)"
  "and_then (Some (Panicked w)) f = Some (Panicked w)"
  by (simp_all add: and_then_def)

lemma refused_Remove [simp]: "refused (snd (Remove p w)) = refused w"
  by (simp add: Remove_def split: option.split)

lemma refused_remove_oldest [simp]: "refused (remove_oldest fname k w) = refused w"
  by (simp add: remove_oldest_def split: sum.split)

lemma refused_Rename [simp]: "refused (snd (Rename p q w)) = refused w"
  by (simp add: Rename_def split: option.split)

lemma refused_OpenFile [simp]: "refused (snd (OpenFile p m w)) = refused w"
  by (simp add: OpenFile_def Let_def split: option.split)

lemma refused_logRotate_loop [simp]: "refused (snd (logRotate_loop fname i w)) = refused w"
proof (induction fname i w rule: logRotate_loop.induct)
  case (1 fname i w)
  show ?case
  proof (cases "i > 0")
    case False
    then show ?thesis by (subst logRotate_loop.simps) simp
  next
    case True
    show ?thesis
    proof (cases "Stat (generation fname i) w")
      case (Inl e)
      with True "1.IH"(1) show ?thesis by (subst logRotate_loop.simps) simp
    next
      case (Inr sz)
      obtain eo w1 where rn: "Rename (generation fname i) (generation fname (i + 1)) w = (eo, w1)"
        by (cases "Rename (generation fname i) (generation fname (i + 1)) w")
      have r1: "refused w1 = refused w"
        using refused_Rename [of "generation fname i" "generation fname (i + 1)" w] rn by simp
      show ?thesis
      proof (cases eo)
        case None
        with True Inr rn "1.IH"(2) r1 show ?thesis by (subst logRotate_loop.simps) simp
      next
        case (Some e)
        with True Inr rn r1 show ?thesis by (subst logRotate_loop.simps) simp
      qed
    qed
  qed
qed

lemma OpenFile_not_refused:
  assumes "\<not> refused w ''open'' p"
  shows "\<exists>h w'. OpenFile p m w = (Inr h, w') \<and> refused w' = refused w \<and> names w' p = Some h"
  using assms by (cases "names w p") (simp_all add: OpenFile_def Let_def)

subsection \<open>\<^verbatim>\<open>logRotate\<close> and the logging calls of \<^verbatim>\<open>servicelogger.go\<close>\<close>

lemma logRotate_returns:
  assumes b: "base l = Some hb" and op: "\<not> refused w ''open'' (filename l)"
  shows "\<exists>l' e w'. logRotate (Suc (Suc (Suc n))) l w = Some (Returned (l', e) w') \<and>
     (\<exists>h. base l' = Some h) \<and> prefix_l l' = prefix_l l \<and> refused w' = refused w \<and>
     (base l' = base l \<or> names w' (filename l) = base l')"
proof (cases "rotate_l l \<and> \<not> rotation_running l")
  case False
  then show ?thesis using b by auto
next
  case True
  let ?l1 = "l\<lparr>rotation_running := True\<rparr>"
  show ?thesis
  proof (cases "Stat (filename l) w")
    case (Inl e)
    with True b show ?thesis by (simp del: LogTrace.simps)
  next
    case (Inr fsize)
    show ?thesis
    proof (cases "rotatesize l \<le> fsize")
      case False
      with True Inr b show ?thesis by (simp del: LogTrace.simps)
    next
      case big: True
      have g1: "\<not> rotate_l ?l1 \<or> rotation_running ?l1" by simp
      have b1: "base ?l1 = Some hb" using b by simp
      from LogTrace_idle_effect [OF g1 b1, of n "''logRotate''" "''servicelogger''"
          "''Rotating log, closing logwriter''" w]
      obtain w1 where t1: "LogTrace (Suc (Suc n)) ?l1 ''logRotate'' ''servicelogger''
            ''Rotating log, closing logwriter'' w = Some (Returned () w1)"
        and s1: "same_files w w1" by blast
      have r1: "refused w1 = refused w" using s1 by (simp add: same_files_def)
      obtain eo w3 where lp: "logRotate_loop (filename l) (keep l - 1)
          (remove_oldest (filename l) (keep l) w1) = (eo, w3)"
        by (cases "logRotate_loop (filename l) (keep l - 1) (remove_oldest (filename l) (keep l) w1)")
      have r3: "refused w3 = refused w"
        using refused_logRotate_loop [of "filename l" "keep l - 1"
            "remove_oldest (filename l) (keep l) w1"] lp r1 by simp
      have fl: "filename ?l1 = filename l" "keep ?l1 = keep l" "rotatesize ?l1 = rotatesize l"
        by simp_all
      have unf: "logRotate (Suc (Suc (Suc n))) l w =
          (case (eo, w3) of
             (Some err, w3) \<Rightarrow> Some (Returned (?l1, Some err) w3)
           | (None, w3) \<Rightarrow>
               (case Rename (filename ?l1) (filename ?l1 @ ''.1'') w3 of
                  (Some err, w4) \<Rightarrow> Some (Returned (?l1, Some err) w4)
                | (None, w4) \<Rightarrow>
                    (case OpenFile (filename ?l1) mode_0640 w4 of
                       (Inl err, w5) \<Rightarrow>
                         Some (log_Fatal (''FATAL: Unable to open log file '' @ filename ?l1
                                 @ '': '' @ errorString err) w5)
                     | (Inr h, w5) \<Rightarrow>
                         let l2 = ?l1\<lparr>filehandle := Some h, base := Some h\<rparr> in
                         and_then
                           (LogTrace (Suc (Suc n)) l2 ''logRotate'' ''servicelogger''
                              ''Log rotated, reopened logwriter'' w5)
                           (\<lambda>_ w6. Some (Returned (l2, None) w6)))))"
        apply (subst logRotate.simps(2))
        apply (simp only: True simp_thms if_True)
        apply (subst Let_def)
        apply (simp only: fl(1,3) Inr sum.case big if_True t1 and_then_simps)
        apply (simp only: fl(1,2) lp)
        done
      show ?thesis
      proof (cases eo)
        case (Some err)
        with unf b r3 show ?thesis by simp
      next
        case None
        obtain eo2 w4 where rn: "Rename (filename l) (filename l @ ''.1'') w3 = (eo2, w4)"
          by (cases "Rename (filename l) (filename l @ ''.1'') w3")
        have r4: "refused w4 = refused w"
          using refused_Rename [of "filename l" "filename l @ ''.1''" w3] rn r3 by simp
        show ?thesis
        proof (cases eo2)
          case (Some err)
          with unf None rn b r4 show ?thesis by (simp add: fl)
        next
          case n2: None
          from op r4 have "\<not> refused w4 ''open'' (filename l)" by simp
          from OpenFile_not_refused [OF this, of mode_0640]
          obtain h w5 where o5: "OpenFile (filename l) mode_0640 w4 = (Inr h, w5)"
            and r5: "refused w5 = refused w4" and n5: "names w5 (filename l) = Some h" by blast
          let ?l2 = "?l1\<lparr>filehandle := Some h, base := Some h\<rparr>"
          have g2: "\<not> rotate_l ?l2 \<or> rotation_running ?l2" by simp
          have b2: "base ?l2 = Some h" by simp
          from LogTrace_idle_effect [OF g2 b2, of n "''logRotate''" "''servicelogger''"
              "''Log rotated, reopened logwriter''" w5]
          obtain w6 where t2: "LogTrace (Suc (Suc n)) ?l2 ''logRotate'' ''servicelogger''
                ''Log rotated, reopened logwriter'' w5 = Some (Returned () w6)"
            and s6: "same_files w5 w6" by blast
          have r6: "refused w6 = refused w" using s6 r5 r4 by (simp add: same_files_def)
          have n6: "names w6 (filename l) = Some h" using s6 n5 by (simp add: same_files_def)
          have "logRotate (Suc (Suc (Suc n))) l w = Some (Returned (?l2, None) w6)"
            unfolding unf
            by (simp only: None n2 fl rn o5 t2 option.case prod.case sum.case and_then_simps Let_def)
          with r6 n6 show ?thesis by simp
        qed
      qed
    qed
  qed
qed

lemma refused_fmt_Print [simp]: "refused (fmt_Print s w) = refused w"
  by (simp add: fmt_Print_def)

lemma refused_log_Println [simp]: "refused (log_Println h s w) = refused w"
  by (simp add: log_Println_def append_bytes_def)

lemma getFilteredLogLevel_eq:
  "getFilteredLogLevel l fac = (MinLoglevel l, snd (getFilteredLogLevel l fac))"
  using getFilteredLogLevel_default [of l fac] by (cases "getFilteredLogLevel l fac") simp

lemma LogTrace_returns:
  assumes b: "base l = Some hb" and op: "\<not> refused w ''open'' (filename l)"
  shows "\<exists>w'. LogTrace (Suc (Suc (Suc (Suc n)))) l function source text w = Some (Returned () w') \<and>
     refused w' = refused w"
proof -
  let ?out = "snd (getFilteredLogLevel l (facility_name l source function))"
  have g: "getFilteredLogLevel l (facility_name l source function) = (MinLoglevel l, ?out)"
    by (rule getFilteredLogLevel_eq)
  have op0: "\<not> refused (fmt_Print ?out w) ''open'' (filename l)" using op by simp
  from logRotate_returns [OF b op0, of n] obtain l' e w1 h where
    run: "logRotate (Suc (Suc (Suc n))) l (fmt_Print ?out w) = Some (Returned (l', e) w1)"
    and b': "base l' = Some h" and r1: "refused w1 = refused w" by auto
  show ?thesis
    apply (subst LogTrace.simps)
    apply (subst g)
    apply (simp only: Let_def prod.case run and_then_simps)
    apply (simp add: base_Println_def b' r1)
    done
qed

lemma LogInfo_returns:
  assumes b: "base l = Some hb" and op: "\<not> refused w ''open'' (filename l)"
  shows "\<exists>w'. LogInfo (Suc (Suc (Suc n))) l function source text w = Some (Returned () w') \<and>
     refused w' = refused w"
proof -
  let ?out = "snd (getFilteredLogLevel l (facility_name l source function))"
  have g: "getFilteredLogLevel l (facility_name l source function) = (MinLoglevel l, ?out)"
    by (rule getFilteredLogLevel_eq)
  have op0: "\<not> refused (fmt_Print ?out w) ''open'' (filename l)" using op by simp
  from logRotate_returns [OF b op0, of n] obtain l' e w1 h where
    run: "logRotate (Suc (Suc (Suc n))) l (fmt_Print ?out w) = Some (Returned (l', e) w1)"
    and b': "base l' = Some h" and r1: "refused w1 = refused w" by auto
  show ?thesis
    unfolding LogInfo_def
    apply (subst g)
    apply (simp only: Let_def prod.case run and_then_simps)
    apply (simp add: base_Println_def b' r1)
    done
qed

lemma LogFatal_exits:
  assumes b: "base l = Some hb" and op: "\<not> refused w ''open'' (filename l)"
    and gate: "MinLoglevel l \<le> LL_FATAL"
  shows "\<exists>h w1. LogFatal (Suc (Suc (Suc n))) l function source text exitcode w =
     Some (Exited exitcode
       (fmt_Println (format_line ''FATAL: '' function (prefix_l l) source text)
          (log_Println h (format_line ''FATAL   '' function (prefix_l l) source text) w1))) \<and>
     (h = hb \<or> names w1 (filename l) = Some h)"
proof -
  let ?out = "snd (getFilteredLogLevel l (facility_name l source function))"
  have g: "getFilteredLogLevel l (facility_name l source function) = (MinLoglevel l, ?out)"
    by (rule getFilteredLogLevel_eq)
  have op0: "\<not> refused (fmt_Print ?out w) ''open'' (filename l)" using op by simp
  from logRotate_returns [OF b op0, of n] obtain l' e w1 h where
    run: "logRotate (Suc (Suc (Suc n))) l (fmt_Print ?out w) = Some (Returned (l', e) w1)"
    and b': "base l' = Some h" and p': "prefix_l l' = prefix_l l"
    and nm: "base l' = base l \<or> names w1 (filename l) = base l'" by auto
  have "LogFatal (Suc (Suc (Suc n))) l function source text exitcode w =
     Some (Exited exitcode
       (fmt_Println (format_line ''FATAL: '' function (prefix_l l) source text)
          (log_Println h (format_line ''FATAL   '' function (prefix_l l) source text) w1)))"
    unfolding LogFatal_def
    apply (subst g)
    apply (simp only: Let_def prod.case run and_then_simps gate if_True)
    apply (simp add: b' p')
    done
  moreover have "h = hb \<or> names w1 (filename l) = Some h" using nm b b' by auto
  ultimately show ?thesis by blast
qed

lemma LogFatal_suppressed:
  assumes "LL_FATAL < MinLoglevel l"
  shows "LogFatal n l function source text exitcode w =
     Some (Returned () (fmt_Print (snd (getFilteredLogLevel l (facility_name l source function))) w))"
  unfolding LogFatal_def
  apply (subst getFilteredLogLevel_eq)
  using assms apply (simp add: Let_def)
  done

subsection \<open>\<^verbatim>\<open>logRotate\<close> and the logging calls of \<^verbatim>\<open>part_000\<close>\<close>

lemma same_config_refl [simp]: "same_config l l"
  by (simp add: same_config_def)

lemma getFilteredLogLevel_part000_cong:
  "same_config l l' \<Longrightarrow> getFilteredLogLevel_part000 l' fac = getFilteredLogLevel_part000 l fac"
  by (simp add: same_config_def getFilteredLogLevel_part000_def Let_def)

lemma facility_name_cong: "same_config l l' \<Longrightarrow> facility_name l' s f = facility_name l s f"
  by (simp add: same_config_def facility_name_def)

lemma logRotate_part000_returns:
  assumes b: "base l = Some hb" and op: "\<not> refused w ''open'' (filename l)"
  shows "\<exists>l' e w'. logRotate_part000 (Suc (Suc (Suc n))) l w = Some (Returned (l', base l', e) w') \<and>
     (\<exists>h. base l' = Some h) \<and> same_config l l' \<and> refused w' = refused w \<and>
     (e \<noteq> None \<longrightarrow> rotation_running l') \<and>
     (base l' = base l \<or> names w' (filename l) = base l')"
proof (cases "rotate_l l \<and> \<not> rotation_running l")
  case False
  then show ?thesis using b by auto
next
  case True
  let ?l1 = "l\<lparr>rotation_running := True\<rparr>"
  have c1: "same_config l ?l1" by (simp add: same_config_def)
  show ?thesis
  proof (cases "Stat (filename l) w")
    case (Inl e)
    with True b c1 show ?thesis by (simp del: LogTrace_part000.simps LogError_part000.simps)
  next
    case (Inr fsize)
    show ?thesis
    proof (cases "rotatesize l \<le> fsize")
      case False
      with True Inr b show ?thesis
        by (simp add: same_config_def del: LogTrace_part000.simps LogError_part000.simps)
    next
      case big: True
      have g1: "\<not> rotate_l ?l1 \<or> rotation_running ?l1" by simp
      have b1: "base ?l1 = Some hb" using b by simp
      from LogTrace_part000_idle_effect [OF g1 b1, of n "''logRotate''" "''servicelogger''"
          "''Rotating log, closing logwriter''" w]
      obtain w1 where t1: "LogTrace_part000 (Suc (Suc n)) ?l1 ''logRotate'' ''servicelogger''
            ''Rotating log, closing logwriter'' w = Some (Returned ?l1 w1)"
        and s1: "same_files w w1" by blast
      have r1: "refused w1 = refused w" using s1 by (simp add: same_files_def)
      obtain eo w3 where lp: "logRotate_loop (filename l) (keep l - 1)
          (remove_oldest (filename l) (keep l) w1) = (eo, w3)"
        by (cases "logRotate_loop (filename l) (keep l - 1) (remove_oldest (filename l) (keep l) w1)")
      have r3: "refused w3 = refused w"
        using refused_logRotate_loop [of "filename l" "keep l - 1"
            "remove_oldest (filename l) (keep l) w1"] lp r1 by simp
      have fl: "filename ?l1 = filename l" "keep ?l1 = keep l" "rotatesize ?l1 = rotatesize l"
        by simp_all
      have unf: "logRotate_part000 (Suc (Suc (Suc n))) l w =
          (case (eo, w3) of
             (Some err, w3) \<Rightarrow> Some (Returned (?l1, base ?l1, Some err) w3)
           | (None, w3) \<Rightarrow>
               (case Rename (filename ?l1) (filename ?l1 @ ''.1'') w3 of
                  (Some err, w4) \<Rightarrow> Some (Returned (?l1, base ?l1, Some err) w4)
                | (None, w4) \<Rightarrow>
                    (case OpenFile (filename ?l1) mode_0640 w4 of
                       (Inl err, w5) \<Rightarrow>
                         Some (log_Fatal (''FATAL: Unable to open log file '' @ filename ?l1
                                 @ '': '' @ errorString err) w5)
                     | (Inr h, w5) \<Rightarrow>
                         and_then
                           (LogTrace_part000 (Suc (Suc n)) (?l1\<lparr>filehandle := Some h, base := Some h\<rparr>)
                              ''logRotate'' ''servicelogger''
                              ''Log rotated, reopened logwriter'' w5)
                           (\<lambda>l3 w6.
                              let l4 = l3\<lparr>rotation_running := False\<rparr>
                              in Some (Returned (l4, base l4, None) w6)))))"
        apply (subst logRotate_part000.simps(2))
        apply (simp only: True simp_thms if_True)
        apply (subst Let_def)
        apply (simp only: fl(1,3) Inr sum.case big if_True t1 and_then_simps)
        apply (simp only: fl(1,2) lp)
        done
      show ?thesis
      proof (cases eo)
        case (Some err)
        with unf b r3 c1 show ?thesis by simp
      next
        case None
        obtain eo2 w4 where rn: "Rename (filename l) (filename l @ ''.1'') w3 = (eo2, w4)"
          by (cases "Rename (filename l) (filename l @ ''.1'') w3")
        have r4: "refused w4 = refused w"
          using refused_Rename [of "filename l" "filename l @ ''.1''" w3] rn r3 by simp
        show ?thesis
        proof (cases eo2)
          case (Some err)
          with unf None rn b r4 c1 show ?thesis by (simp add: fl)
        next
          case n2: None
          from op r4 have "\<not> refused w4 ''open'' (filename l)" by simp
          from OpenFile_not_refused [OF this, of mode_0640]
          obtain h w5 where o5: "OpenFile (filename l) mode_0640 w4 = (Inr h, w5)"
            and r5: "refused w5 = refused w4" and n5: "names w5 (filename l) = Some h" by blast
          let ?l2 = "?l1\<lparr>filehandle := Some h, base := Some h\<rparr>"
          have g2: "\<not> rotate_l ?l2 \<or> rotation_running ?l2" by simp
          have b2: "base ?l2 = Some h" by simp
          from LogTrace_part000_idle_effect [OF g2 b2, of n "''logRotate''" "''servicelogger''"
              "''Log rotated, reopened logwriter''" w5]
          obtain w6 where t2: "LogTrace_part000 (Suc (Suc n)) ?l2 ''logRotate'' ''servicelogger''
                ''Log rotated, reopened logwriter'' w5 = Some (Returned ?l2 w6)"
            and s6: "same_files w5 w6" by blast
          have r6: "refused w6 = refused w" using s6 r5 r4 by (simp add: same_files_def)
          have n6: "names w6 (filename l) = Some h" using s6 n5 by (simp add: same_files_def)
          let ?l4 = "?l2\<lparr>rotation_running := False\<rparr>"
          have "logRotate_part000 (Suc (Suc (Suc n))) l w = Some (Returned (?l4, base ?l4, None) w6)"
            unfolding unf
            by (simp only: None n2 fl rn o5 t2 option.case prod.case sum.case and_then_simps Let_def)
          moreover have "same_config l ?l4" by (simp add: same_config_def)
          moreover have "base ?l4 = Some h" by simp
          ultimately show ?thesis using r6 n6 by simp
        qed
      qed
    qed
  qed
qed

lemma rotate_report_part000:
  assumes b: "base l = Some hb" and op: "\<not> refused w ''open'' (filename l)"
  shows "\<exists>l1 w2.
     and_then (logRotate_part000 (Suc (Suc (Suc n))) l w)
       (\<lambda>(l1, newbase, err) w1.
          and_then
            (case err of
               None \<Rightarrow> Some (Returned l1 w1)
             | Some e \<Rightarrow>
                 LogError_part000 (Suc (Suc (Suc n))) l1 caller ''servicelogger''
                   (''Log rotation error: '' @ errorString e) w1)
            (F newbase))
     = F (base l1) l1 w2 \<and>
     (\<exists>h. base l1 = Some h) \<and> same_config l l1 \<and> refused w2 = refused w \<and>
     (base l1 = base l \<or> names w2 (filename l) = base l1)"
proof -
  from logRotate_part000_returns [OF b op, of n] obtain l' e w' h where
    run: "logRotate_part000 (Suc (Suc (Suc n))) l w = Some (Returned (l', base l', e) w')"
    and b': "base l' = Some h" and c': "same_config l l'" and r': "refused w' = refused w"
    and fl: "e \<noteq> None \<longrightarrow> rotation_running l'"
    and nm: "base l' = base l \<or> names w' (filename l) = base l'" by blast
  show ?thesis
  proof (cases e)
    case None
    have "and_then (logRotate_part000 (Suc (Suc (Suc n))) l w)
       (\<lambda>(l1, newbase, err) w1.
          and_then
            (case err of
               None \<Rightarrow> Some (Returned l1 w1)
             | Some e \<Rightarrow>
                 LogError_part000 (Suc (Suc (Suc n))) l1 caller ''servicelogger''
                   (''Log rotation error: '' @ errorString e) w1)
            (F newbase)) = F (base l') l' w'"
      by (simp only: run None and_then_simps prod.case option.case)
    with b' c' r' nm show ?thesis by blast
  next
    case (Some err)
    with fl have g: "\<not> rotate_l l' \<or> rotation_running l'" by simp
    let ?line = "format_line ''ERROR   '' caller (prefix_l l') ''servicelogger''
        (''Log rotation error: '' @ errorString err)"
    let ?w2 = "if getFilteredLogLevel_part000 l' (facility_name l' ''servicelogger'' caller) \<le> LL_ERROR
               then log_Println h ?line w' else w'"
    have le: "LogError_part000 (Suc (Suc (Suc n))) l' caller ''servicelogger''
        (''Log rotation error: '' @ errorString err) w' = Some (Returned l' ?w2)"
      unfolding LogError_part000_idle [OF g] by (simp add: base_Println_def b')
    have "and_then (logRotate_part000 (Suc (Suc (Suc n))) l w)
       (\<lambda>(l1, newbase, err) w1.
          and_then
            (case err of
               None \<Rightarrow> Some (Returned l1 w1)
             | Some e \<Rightarrow>
                 LogError_part000 (Suc (Suc (Suc n))) l1 caller ''servicelogger''
                   (''Log rotation error: '' @ errorString e) w1)
            (F newbase)) = F (base l') l' ?w2"
      by (simp only: run Some and_then_simps prod.case option.case le)
    moreover have "refused ?w2 = refused w" using r' by simp
    moreover have "base l' = base l \<or> names ?w2 (filename l) = base l'"
      using nm by (simp add: log_Println_def append_bytes_def)
    ultimately show ?thesis using b' c' by blast
  qed
qed

lemma LogInfo_part000_returns:
  assumes b: "base l = Some hb" and op: "\<not> refused w ''open'' (filename l)"
  shows "\<exists>l' w'. LogInfo_part000 (Suc (Suc (Suc n))) l function source text w = Some (Returned l' w') \<and>
     (\<exists>h. base l' = Some h) \<and> same_config l l' \<and> refused w' = refused w"
proof (cases "getFilteredLogLevel_part000 l (facility_name l source function) \<le> LL_INFO")
  case False
  then show ?thesis using b by (simp add: LogInfo_part000_def)
next
  case True
  have unf: "LogInfo_part000 (Suc (Suc (Suc n))) l function source text w =
     and_then (logRotate_part000 (Suc (Suc (Suc n))) l w)
       (\<lambda>(l1, newbase, err) w1.
          and_then
            (case err of
               None \<Rightarrow> Some (Returned l1 w1)
             | Some e \<Rightarrow>
                 LogError_part000 (Suc (Suc (Suc n))) l1 ''LogInfo'' ''servicelogger''
                   (''Log rotation error: '' @ errorString e) w1)
            (\<lambda>l2 w2. let l3 = l2\<lparr>base := newbase\<rparr>
               in Some (base_Println l3 (format_line ''INFO    '' function (prefix_l l3) source text) w2 l3)))"
    by (simp only: LogInfo_part000_def True if_True)
  note rr = rotate_report_part000 [OF b op, of n "''LogInfo''"
      "\<lambda>newbase l2 w2. let l3 = l2\<lparr>base := newbase\<rparr>
         in Some (base_Println l3 (format_line ''INFO    '' function (prefix_l l3) source text) w2 l3)",
      folded unf]
  from rr obtain l1 w2 h where
    eq: "LogInfo_part000 (Suc (Suc (Suc n))) l function source text w =
       (let l3 = l1\<lparr>base := base l1\<rparr>
         in Some (base_Println l3 (format_line ''INFO    '' function (prefix_l l3) source text) w2 l3))"
    and b1: "base l1 = Some h" and c1: "same_config l l1" and r2: "refused w2 = refused w"
    by blast
  have "LogInfo_part000 (Suc (Suc (Suc n))) l function source text w =
      Some (Returned l1 (log_Println h (format_line ''INFO    '' function (prefix_l l1) source text) w2))"
    unfolding eq by (simp add: Let_def base_Println_def b1)
  with b1 c1 r2 show ?thesis by auto
qed

lemma LogTrace_part000_returns:
  assumes b: "base l = Some hb" and op: "\<not> refused w ''open'' (filename l)"
  shows "\<exists>l' w'. LogTrace_part000 (Suc (Suc (Suc (Suc n)))) l function source text w = Some (Returned l' w') \<and>
     (\<exists>h. base l' = Some h) \<and> same_config l l' \<and> refused w' = refused w"
proof (cases "getFilteredLogLevel_part000 l (facility_name l source function) \<le> LL_TRACE")
  case False
  then show ?thesis using b by (simp del: logRotate_part000.simps LogError_part000.simps)
next
  case True
  have unf: "LogTrace_part000 (Suc (Suc (Suc (Suc n)))) l function source text w =
     and_then (logRotate_part000 (Suc (Suc (Suc n))) l w)
       (\<lambda>(l1, newbase, err) w1.
          and_then
            (case err of
               None \<Rightarrow> Some (Returned l1 w1)
             | Some e \<Rightarrow>
                 LogError_part000 (Suc (Suc (Suc n))) l1 ''LogTrace'' ''servicelogger''
                   (''Log rotation error: '' @ errorString e) w1)
            (\<lambda>l2 w2. let l3 = l2\<lparr>base := newbase\<rparr>
               in Some (base_Println l3 (format_line ''TRACE   '' function (prefix_l l3) source text) w2 l3)))"
    by (simp only: LogTrace_part000.simps True if_True)
  note rr = rotate_report_part000 [OF b op, of n "''LogTrace''"
      "\<lambda>newbase l2 w2. let l3 = l2\<lparr>base := newbase\<rparr>
         in Some (base_Println l3 (format_line ''TRACE   '' function (prefix_l l3) source text) w2 l3)",
      folded unf]
  from rr obtain l1 w2 h where
    eq: "LogTrace_part000 (Suc (Suc (Suc (Suc n)))) l function source text w =
       (let l3 = l1\<lparr>base := base l1\<rparr>
         in Some (base_Println l3 (format_line ''TRACE   '' function (prefix_l l3) source text) w2 l3))"
    and b1: "base l1 = Some h" and c1: "same_config l l1" and r2: "refused w2 = refused w"
    by blast
  have "LogTrace_part000 (Suc (Suc (Suc (Suc n)))) l function source text w =
      Some (Returned l1 (log_Println h (format_line ''TRACE   '' function (prefix_l l1) source text) w2))"
    unfolding eq by (simp add: Let_def base_Println_def b1)
  with b1 c1 r2 show ?thesis by auto
qed

subsection \<open>\<^verbatim>\<open>LogFatal\<close>\<close>

lemma LogFatal_part000_exits:
  assumes b: "base l = Some hb" and op: "\<not> refused w ''open'' (filename l)"
    and gate: "getFilteredLogLevel_part000 l (facility_name l source function) \<le> LL_FATAL"
  shows "\<exists>h w1. LogFatal_part000 (Suc (Suc (Suc n))) l function source text exitcode w =
     Some (Exited exitcode
       (fmt_Println (format_line ''FATAL: '' function (prefix_l l) source text)
          (log_Println h (format_line ''FATAL   '' function (prefix_l l) source text) w1))) \<and>
     (h = hb \<or> names w1 (filename l) = Some h)"
proof -
  have unf: "LogFatal_part000 (Suc (Suc (Suc n))) l function source text exitcode w =
     and_then (logRotate_part000 (Suc (Suc (Suc n))) l w)
       (\<lambda>(l1, newbase, err) w1.
          and_then
            (case err of
               None \<Rightarrow> Some (Returned l1 w1)
             | Some e \<Rightarrow>
                 LogError_part000 (Suc (Suc (Suc n))) l1 ''LogFatal'' ''servicelogger''
                   (''Log rotation error: '' @ errorString e) w1)
            (\<lambda>l2 w2.
               let l3 = l2\<lparr>base := newbase\<rparr>
               in case base l3 of
                    None \<Rightarrow> Some (Panicked w2)
                  | Some h \<Rightarrow>
                      Some (Exited exitcode
                        (fmt_Println (format_line ''FATAL: '' function (prefix_l l3) source text)
                           (log_Println h (format_line ''FATAL   '' function (prefix_l l3) source text) w2)))))"
    by (simp only: LogFatal_part000_def gate if_True)
  note rr = rotate_report_part000 [OF b op, of n "''LogFatal''"
      "\<lambda>newbase l2 w2.
               let l3 = l2\<lparr>base := newbase\<rparr>
               in case base l3 of
                    None \<Rightarrow> Some (Panicked w2)
                  | Some h \<Rightarrow>
                      Some (Exited exitcode
                        (fmt_Println (format_line ''FATAL: '' function (prefix_l l3) source text)
                           (log_Println h (format_line ''FATAL   '' function (prefix_l l3) source text) w2)))"]
  from rr obtain l1 w2 h where
    eq: "LogFatal_part000 (Suc (Suc (Suc n))) l function source text exitcode w =
       (let l3 = l1\<lparr>base := base l1\<rparr>
               in case base l3 of
                    None \<Rightarrow> Some (Panicked w2)
                  | Some h \<Rightarrow>
                      Some (Exited exitcode
                        (fmt_Println (format_line ''FATAL: '' function (prefix_l l3) source text)
                           (log_Println h (format_line ''FATAL   '' function (prefix_l l3) source text) w2))))"
    and b1: "base l1 = Some h" and c1: "same_config l l1"
    and nm: "base l1 = base l \<or> names w2 (filename l) = base l1"
    unfolding unf by blast
  have p1: "prefix_l l1 = prefix_l l" using c1 by (simp add: same_config_def)
  have "LogFatal_part000 (Suc (Suc (Suc n))) l function source text exitcode w =
     Some (Exited exitcode
       (fmt_Println (format_line ''FATAL: '' function (prefix_l l) source text)
          (log_Println h (format_line ''FATAL   '' function (prefix_l l) source text) w2)))"
    unfolding eq by (simp add: Let_def b1 p1)
  moreover have "h = hb \<or> names w2 (filename l) = Some h" using nm b b1 by auto
  ultimately show ?thesis by blast
qed

lemma LogFatal_part000_suppressed:
  assumes "LL_FATAL < getFilteredLogLevel_part000 l (facility_name l source function)"
  shows "LogFatal_part000 n l function source text exitcode w = Some (Returned l w)"
  using assms by (simp add: LogFatal_part000_def)

lemma getFilteredLogLevel_part000_range:
  "getFilteredLogLevel_part000 l fac = MinLoglevel l \<or>
   getFilteredLogLevel_part000 l fac \<in> level ` set (filter_list (filters l))"
proof -
  let ?fs = "filter_list (filters l)"
  let ?k = "getFilteredLogLevel_loop_part000 ?fs fac ?fs 0 (- 1)"
  have best: "best_so_far ?fs fac (length ?fs) ?k"
    by (rule getFilteredLogLevel_part000_best)
  show ?thesis
  proof (cases "?k = - 1")
    case True
    then show ?thesis by (simp add: getFilteredLogLevel_part000_def Let_def)
  next
    case False
    with best have k: "0 \<le> ?k" "nat ?k < length ?fs" by (simp_all add: best_so_far_def)
    then have "getFilteredLogLevel_part000 l fac = level (?fs ! nat ?k)"
      using False by (simp add: getFilteredLogLevel_part000_def Let_def)
    with k(2) show ?thesis by (metis image_eqI nth_mem)
  qed
qed

lemma declared_levels_le_FATAL: "lvl \<in> set declared_levels \<Longrightarrow> lvl \<le> LL_FATAL"
  by (auto simp: declared_levels_def LL_defs)

lemma getFilteredLogLevel_part000_declared:
  assumes "MinLoglevel l \<in> set declared_levels"
    and "\<forall>f \<in> set (filter_list (filters l)). level f \<in> set declared_levels"
  shows "getFilteredLogLevel_part000 l fac \<le> LL_FATAL"
  using getFilteredLogLevel_part000_range [of l fac] assms declared_levels_le_FATAL by auto


lemma rot_logger_7_gate:
  "LL_FATAL < MinLoglevel (rot_logger\<lparr>MinLoglevel := 7\<rparr>)"
  "LL_FATAL < getFilteredLogLevel_part000 (rot_logger\<lparr>MinLoglevel := 7\<rparr>)
     (facility_name (rot_logger\<lparr>MinLoglevel := 7\<rparr>) ''app'' ''main'')"
  by (simp_all add: rot_logger_def LL_defs getFilteredLogLevel_part000_def)

text \<open>
  C5, as stated: every \<^verbatim>\<open>LogFatal\<close> call writes the FATAL line, echoes it and terminates the
  process, the threshold being always at most FATAL. \<^verbatim>\<open>LogLevel\<close> is an \<^verbatim>\<open>int\<close>: with the minimum
  level 7 and no filter, \<^verbatim>\<open>LogFatal\<close> of either version returns to its caller, with nothing
  written to the log and no exit (\<^verbatim>\<open>servicelogger.go\<close> prints only the lines of
  \<^verbatim>\<open>getFilteredLogLevel\<close> on standard output).
\<close>

theorem LogFatal_above_FATAL_counterexample:
  "LogFatal 3 (rot_logger\<lparr>MinLoglevel := 7\<rparr>) ''main'' ''app'' ''boom'' 2 rot_world =
     Some (Returned ()
       (fmt_Print (snd (getFilteredLogLevel (rot_logger\<lparr>MinLoglevel := 7\<rparr>)
          (facility_name (rot_logger\<lparr>MinLoglevel := 7\<rparr>) ''app'' ''main''))) rot_world)) \<and>
   LogFatal_part000 3 (rot_logger\<lparr>MinLoglevel := 7\<rparr>) ''main'' ''app'' ''boom'' 2 rot_world =
     Some (Returned (rot_logger\<lparr>MinLoglevel := 7\<rparr>) rot_world)"
  using LogFatal_suppressed [OF rot_logger_7_gate(1), of 3 "''main''" "''app''" "''boom''" 2 rot_world]
    LogFatal_part000_suppressed [OF rot_logger_7_gate(2), of 3 "''boom''" 2 rot_world]
  by (intro conjI)


text \<open>
  C5, amended: on a logger with an open writer whose log file can be reopened, \<^verbatim>\<open>LogFatal\<close>
  writes the FATAL line to the log, echoes it with the \<^verbatim>\<open>FATAL:\<close> label to standard output and
  exits with the supplied code whenever the effective threshold is at most FATAL:
  \<^verbatim>\<open>MinLoglevel\<close> in \<^verbatim>\<open>servicelogger.go\<close>, the level of the best matching filter or
  \<^verbatim>\<open>MinLoglevel\<close> in \<^verbatim>\<open>part_000\<close>. The line goes to the writer the logger had or, after a rotation,
  to the file the log path now names. The threshold is at most FATAL when the minimum level
  and every filter level are among the six declared levels. With a threshold above FATAL the
  call returns: nothing is written to the log and the process goes on.
\<close>

theorem LogFatal_terminates:
  assumes "base l = Some hb" and "\<not> refused w ''open'' (filename l)"
  shows "(MinLoglevel l \<le> LL_FATAL \<longrightarrow>
           (\<exists>h w1. LogFatal (Suc (Suc (Suc n))) l function source text exitcode w =
              Some (Exited exitcode
                (fmt_Println (format_line ''FATAL: '' function (prefix_l l) source text)
                   (log_Println h (format_line ''FATAL   '' function (prefix_l l) source text) w1))) \<and>
              (h = hb \<or> names w1 (filename l) = Some h))) \<and>
         (getFilteredLogLevel_part000 l (facility_name l source function) \<le> LL_FATAL \<longrightarrow>
           (\<exists>h w1. LogFatal_part000 (Suc (Suc (Suc n))) l function source text exitcode w =
              Some (Exited exitcode
                (fmt_Println (format_line ''FATAL: '' function (prefix_l l) source text)
                   (log_Println h (format_line ''FATAL   '' function (prefix_l l) source text) w1))) \<and>
              (h = hb \<or> names w1 (filename l) = Some h))) \<and>
         (MinLoglevel l \<in> set declared_levels \<and>
          (\<forall>f \<in> set (filter_list (filters l)). level f \<in> set declared_levels) \<longrightarrow>
            MinLoglevel l \<le> LL_FATAL \<and>
            fst (getFilteredLogLevel l (facility_name l source function)) \<le> LL_FATAL \<and>
            getFilteredLogLevel_part000 l (facility_name l source function) \<le> LL_FATAL) \<and>
         (LL_FATAL < MinLoglevel l \<longrightarrow>
            LogFatal (Suc (Suc (Suc n))) l function source text exitcode w =
              Some (Returned ()
                (fmt_Print (snd (getFilteredLogLevel l (facility_name l source function))) w))) \<and>
         (LL_FATAL < getFilteredLogLevel_part000 l (facility_name l source function) \<longrightarrow>
            LogFatal_part000 (Suc (Suc (Suc n))) l function source text exitcode w = Some (Returned l w))"
  using LogFatal_exits [OF assms] LogFatal_part000_exits [OF assms]
    getFilteredLogLevel_part000_declared [of l] declared_levels_le_FATAL [of "MinLoglevel l"]
    getFilteredLogLevel_default [of l] LogFatal_suppressed [of l] LogFatal_part000_suppressed [of l]
  by (intro conjI impI) simp_all

theorem LogFatal_terminates_witness:
  "base rot_logger = Some 0 \<and> \<not> refused rot_world ''open'' (filename rot_logger) \<and>
   MinLoglevel rot_logger \<le> LL_FATAL \<and>
   getFilteredLogLevel_part000 rot_logger (facility_name rot_logger ''app'' ''main'') \<le> LL_FATAL \<and>
   MinLoglevel rot_logger \<in> set declared_levels \<and>
   (\<exists>h w1. LogFatal 3 rot_logger ''main'' ''app'' ''boom'' 2 rot_world =
      Some (Exited 2
        (fmt_Println (format_line ''FATAL: '' ''main'' ''svc'' ''app'' ''boom'')
           (log_Println h (format_line ''FATAL   '' ''main'' ''svc'' ''app'' ''boom'') w1)))) \<and>
   (\<exists>h w1. LogFatal_part000 3 rot_logger ''main'' ''app'' ''boom'' 2 rot_world =
      Some (Exited 2
        (fmt_Println (format_line ''FATAL: '' ''main'' ''svc'' ''app'' ''boom'')
           (log_Println h (format_line ''FATAL   '' ''main'' ''svc'' ''app'' ''boom'') w1)))) \<and>
   LL_FATAL < MinLoglevel (rot_logger\<lparr>MinLoglevel := 7\<rparr>) \<and>
   LogFatal_part000 3 (rot_logger\<lparr>MinLoglevel := 7\<rparr>) ''main'' ''app'' ''boom'' 2 rot_world =
     Some (Returned (rot_logger\<lparr>MinLoglevel := 7\<rparr>) rot_world)"
proof -
  have three: "Suc (Suc (Suc 0)) = 3" by simp
  have b: "base rot_logger = Some 0" by (simp add: rot_logger_def)
  have op: "\<not> refused rot_world ''open'' (filename rot_logger)" by (simp add: rot_world_def)
  have g1: "MinLoglevel rot_logger \<le> LL_FATAL" by (simp add: rot_logger_def LL_defs)
  have g2: "getFilteredLogLevel_part000 rot_logger (facility_name rot_logger ''app'' ''main'') \<le> LL_FATAL"
    by (simp add: rot_logger_def LL_defs getFilteredLogLevel_part000_def)
  have d: "MinLoglevel rot_logger \<in> set declared_levels"
    by (simp add: rot_logger_def declared_levels_def)
  have p: "prefix_l rot_logger = ''svc''" by (simp add: rot_logger_def)
  note inst = LogFatal_terminates [OF b op, of 0 "''main''" "''app''" "''boom''" 2, unfolded three p]
  from inst g1 have a1: "\<exists>h w1. LogFatal 3 rot_logger ''main'' ''app'' ''boom'' 2 rot_world =
      Some (Exited 2
        (fmt_Println (format_line ''FATAL: '' ''main'' ''svc'' ''app'' ''boom'')
           (log_Println h (format_line ''FATAL   '' ''main'' ''svc'' ''app'' ''boom'') w1)))"
    by blast
  from inst g2 have a2: "\<exists>h w1. LogFatal_part000 3 rot_logger ''main'' ''app'' ''boom'' 2 rot_world =
      Some (Exited 2
        (fmt_Println (format_line ''FATAL: '' ''main'' ''svc'' ''app'' ''boom'')
           (log_Println h (format_line ''FATAL   '' ''main'' ''svc'' ''app'' ''boom'') w1)))"
    by blast
  have b7: "base (rot_logger\<lparr>MinLoglevel := 7\<rparr>) = Some 0" by (simp add: rot_logger_def)
  have op7: "\<not> refused rot_world ''open'' (filename (rot_logger\<lparr>MinLoglevel := 7\<rparr>))"
    by (simp add: rot_world_def)
  note inst7 = LogFatal_terminates [OF b7 op7, of 0 "''main''" "''app''" "''boom''" 2, unfolded three]
  from inst7 rot_logger_7_gate(2)
  have a3: "LogFatal_part000 3 (rot_logger\<lparr>MinLoglevel := 7\<rparr>) ''main'' ''app'' ''boom'' 2 rot_world =
     Some (Returned (rot_logger\<lparr>MinLoglevel := 7\<rparr>) rot_world)"
    by blast
  from b op g1 g2 d a1 a2 rot_logger_7_gate(1) a3 show ?thesis by (intro conjI)
qed

section \<open>\<^verbatim>\<open>ApplyNewSettings\<close>\<close>

lemma never_returns_false_and_then:
  "(\<And>a w. never_returns_false (f a w)) \<Longrightarrow> never_returns_false (and_then m f)"
proof -
  assume a: "\<And>a w. never_returns_false (f a w)"
  show ?thesis
  proof (cases m)
    case None
    then show ?thesis by (simp add: never_returns_false_def)
  next
    case (Some r)
    then show ?thesis using a by (cases r) (simp_all add: never_returns_false_def)
  qed
qed

lemma never_returns_false_True [simp]: "never_returns_false (Some (Returned (s, True) w))"
  by (simp add: never_returns_false_def)

lemma ApplyNewSettings_same:
  assumes "logSizeStringToLogSizeInt64 newRotSize = Inr (rotatesize slog)"
  shows "ApplyNewSettings n slog (filename slog) (MinLoglevel slog) (rotate_l slog) newRotSize (keep slog) w
           = Some (Returned (slog, False) w)"
    and "ApplyNewSettings_part000 n slog (filename slog) (MinLoglevel slog) (rotate_l slog) newRotSize
           (keep slog) w = Some (Returned (slog, False) w)"
  using assms by (simp_all add: ApplyNewSettings_def ApplyNewSettings_part000_def)

lemma ApplyNewSettings_never_false:
  assumes sz: "logSizeStringToLogSizeInt64 newRotSize = Inr nrs"
    and d: "newFile \<noteq> filename slog \<or> newLevel \<noteq> MinLoglevel slog \<or> newRotation \<noteq> rotate_l slog
             \<or> nrs \<noteq> rotatesize slog \<or> newKeep \<noteq> keep slog"
  shows "never_returns_false (ApplyNewSettings n slog newFile newLevel newRotation newRotSize newKeep w)"
    and "never_returns_false
           (ApplyNewSettings_part000 n slog newFile newLevel newRotation newRotSize newKeep w)"
proof -
  show "never_returns_false (ApplyNewSettings n slog newFile newLevel newRotation newRotSize newKeep w)"
    unfolding ApplyNewSettings_def
    apply (simp only: sz sum.case and_then_simps d if_True)
    apply (intro never_returns_false_and_then never_returns_false_True)
    done
  show "never_returns_false
           (ApplyNewSettings_part000 n slog newFile newLevel newRotation newRotSize newKeep w)"
    unfolding ApplyNewSettings_part000_def
    apply (simp only: sz sum.case and_then_simps prod.case d if_True)
    apply (intro never_returns_false_and_then never_returns_false_True)
    done
qed

lemma settings_step:
  assumes b: "base s = Some hb" and op: "\<not> refused w ''open'' (filename s)"
    and idg: "\<not> c \<Longrightarrow> g s = s"
  shows "\<exists>w'. (if c then
               and_then (LogTrace (Suc (Suc (Suc (Suc n)))) s fn source msg w)
                 (\<lambda>_ w6. Some (Returned (g s) w6))
             else Some (Returned s w)) = Some (Returned (g s) w') \<and>
           refused w' = refused w"
proof (cases c)
  case True
  from LogTrace_returns [OF b op, of n fn source msg] obtain w' where
    "LogTrace (Suc (Suc (Suc (Suc n)))) s fn source msg w = Some (Returned () w')"
    and "refused w' = refused w" by blast
  with True show ?thesis by (simp only: if_True and_then_simps) blast
next
  case False
  with idg show ?thesis by simp
qed

lemma settings_file_step:
  assumes b: "base s = Some hb" and op: "\<not> refused w ''open'' (filename s)"
    and opn: "\<not> refused w ''open'' newFile"
  shows "\<exists>s1 w5 h.
      (if newFile \<noteq> filename s then
         and_then (LogTrace (Suc (Suc (Suc (Suc n)))) s fn source msg w)
           (\<lambda>_ w3.
              case OpenFile newFile mode_0640 w3 of
                (Inl err, w4) \<Rightarrow>
                  Some (log_Fatal (''FATAL: Unable to open log file: '' @ errorString err) w4)
              | (Inr h, w4) \<Rightarrow>
                  Some (Returned (s\<lparr>filename := newFile, filehandle := Some h, base := Some h\<rparr>) w4))
       else Some (Returned s w)) = Some (Returned s1 w5) \<and>
      refused w5 = refused w \<and> base s1 = Some h \<and> filename s1 = newFile \<and>
      prefix_l s1 = prefix_l s \<and> MinLoglevel s1 = MinLoglevel s \<and> rotate_l s1 = rotate_l s \<and>
      rotatesize s1 = rotatesize s \<and> keep s1 = keep s \<and> filters s1 = filters s"
proof (cases "newFile \<noteq> filename s")
  case False
  then show ?thesis using b by simp
next
  case True
  from LogTrace_returns [OF b op, of n fn source msg] obtain w3 where
    t: "LogTrace (Suc (Suc (Suc (Suc n)))) s fn source msg w = Some (Returned () w3)"
    and r3: "refused w3 = refused w" by blast
  from opn r3 have "\<not> refused w3 ''open'' newFile" by simp
  from OpenFile_not_refused [OF this, of mode_0640] obtain h w4 where
    o: "OpenFile newFile mode_0640 w3 = (Inr h, w4)" and r4: "refused w4 = refused w3" by blast
  show ?thesis
    apply (simp only: True if_True t and_then_simps o prod.case sum.case)
    apply (simp add: r4 r3)
    done
qed

lemma ApplyNewSettings_applies:
  assumes sz: "logSizeStringToLogSizeInt64 newRotSize = Inr nrs"
    and d: "newFile \<noteq> filename slog \<or> newLevel \<noteq> MinLoglevel slog \<or> newRotation \<noteq> rotate_l slog
             \<or> nrs \<noteq> rotatesize slog \<or> newKeep \<noteq> keep slog"
    and b: "base slog = Some hb"
    and op: "\<not> refused w ''open'' (filename slog)"
    and opn: "\<not> refused w ''open'' newFile"
  shows "\<exists>l' w'.
      ApplyNewSettings (Suc (Suc (Suc (Suc n)))) slog newFile newLevel newRotation newRotSize newKeep w
        = Some (Returned (l', True) w') \<and>
      filename l' = newFile \<and> MinLoglevel l' = newLevel \<and> rotate_l l' = newRotation \<and>
      rotatesize l' = nrs \<and> keep l' = newKeep \<and> prefix_l l' = prefix_l slog \<and>
      filters l' = filters slog"
proof -
  from LogInfo_returns [OF b op, of "Suc n" "''ApplyNewSettings''" "''servicelogger''"
      "''Logging configuration has changed, applying new configuration''"]
  obtain w2 where
    i: "LogInfo (Suc (Suc (Suc (Suc n)))) slog ''ApplyNewSettings'' ''servicelogger''
          ''Logging configuration has changed, applying new configuration'' w = Some (Returned () w2)"
    and r2: "refused w2 = refused w" by blast
  have op2: "\<not> refused w2 ''open'' (filename slog)" and opn2: "\<not> refused w2 ''open'' newFile"
    using op opn r2 by simp_all
  from settings_file_step [OF b op2 opn2, of n "''ApplyNewSettings''" "''servicelogger''"
      "''Filename has changed. Closing '' @ filename slog @ '' and continuing logging in '' @ newFile"]
  obtain s1 w5 h1 where
    st1: "(if newFile \<noteq> filename slog then
         and_then (LogTrace (Suc (Suc (Suc (Suc n)))) slog ''ApplyNewSettings'' ''servicelogger''
                     (''Filename has changed. Closing '' @ filename slog
                        @ '' and continuing logging in '' @ newFile) w2)
           (\<lambda>_ w3.
              case OpenFile newFile mode_0640 w3 of
                (Inl err, w4) \<Rightarrow>
                  Some (log_Fatal (''FATAL: Unable to open log file: '' @ errorString err) w4)
              | (Inr h, w4) \<Rightarrow>
                  Some (Returned (slog\<lparr>filename := newFile, filehandle := Some h, base := Some h\<rparr>) w4))
       else Some (Returned slog w2)) = Some (Returned s1 w5)"
    and r5: "refused w5 = refused w2" and b1: "base s1 = Some h1"
    and f1: "filename s1 = newFile" "prefix_l s1 = prefix_l slog" "MinLoglevel s1 = MinLoglevel slog"
      "rotate_l s1 = rotate_l slog" "rotatesize s1 = rotatesize slog" "keep s1 = keep slog"
    and fl1: "filters s1 = filters slog"
    by blast
  let ?N = "Suc (Suc (Suc (Suc n)))"
  let ?s2 = "s1\<lparr>MinLoglevel := newLevel\<rparr>"
  let ?s3 = "?s2\<lparr>rotate_l := newRotation\<rparr>"
  let ?s4 = "?s3\<lparr>rotatesize := nrs\<rparr>"
  let ?s5 = "?s4\<lparr>keep := newKeep\<rparr>"
  have op5: "\<not> refused w5 ''open'' (filename s1)" using opn2 r5 f1 by simp
  have id2: "\<not> newLevel \<noteq> MinLoglevel s1 \<Longrightarrow> ?s2 = s1" by simp
  from settings_step [where s = s1 and w = w5 and c = "newLevel \<noteq> MinLoglevel s1"
      and g = "\<lambda>s. s\<lparr>MinLoglevel := newLevel\<rparr>" and n = n and fn = "''ApplyNewSettings''"
      and source = "''servicelogger''"
      and msg = "''Log level has changed: '' @ LogLevelToString (MinLoglevel s1)
                   @ '' --> '' @ LogLevelToString newLevel", OF b1 op5 id2]
  obtain w7 where
    st2: "(if newLevel \<noteq> MinLoglevel s1 then
             and_then
               (LogTrace ?N s1 ''ApplyNewSettings'' ''servicelogger''
                  (''Log level has changed: '' @ LogLevelToString (MinLoglevel s1)
                     @ '' --> '' @ LogLevelToString newLevel) w5)
               (\<lambda>_ w6. Some (Returned ?s2 w6))
           else Some (Returned s1 w5)) = Some (Returned ?s2 w7)"
    and r7: "refused w7 = refused w5" by blast
  have b2: "base ?s2 = Some h1" using b1 by simp
  have op7: "\<not> refused w7 ''open'' (filename ?s2)" using op5 r7 by simp
  have id3: "\<not> newRotation \<noteq> rotate_l ?s2 \<Longrightarrow> ?s3 = ?s2" by simp
  from settings_step [where s = ?s2 and w = w7 and c = "newRotation \<noteq> rotate_l ?s2"
      and g = "\<lambda>s. s\<lparr>rotate_l := newRotation\<rparr>" and n = n and fn = "''ApplyNewSettings''"
      and source = "''servicelogger''"
      and msg = "if newRotation then ''Log rotation has been enabled''
                 else ''Log rotation has been disabled''", OF b2 op7 id3]
  obtain w9 where
    st3: "(if newRotation \<noteq> rotate_l ?s2 then
             and_then
               (LogTrace ?N ?s2 ''ApplyNewSettings'' ''servicelogger''
                  (if newRotation then ''Log rotation has been enabled''
                   else ''Log rotation has been disabled'') w7)
               (\<lambda>_ w8. Some (Returned ?s3 w8))
           else Some (Returned ?s2 w7)) = Some (Returned ?s3 w9)"
    and r9: "refused w9 = refused w7" by blast
  have b3: "base ?s3 = Some h1" using b1 by simp
  have op9: "\<not> refused w9 ''open'' (filename ?s3)" using op7 r9 by simp
  have id4: "\<not> nrs \<noteq> rotatesize ?s3 \<Longrightarrow> ?s4 = ?s3" by simp
  from settings_step [where s = ?s3 and w = w9 and c = "nrs \<noteq> rotatesize ?s3"
      and g = "\<lambda>s. s\<lparr>rotatesize := nrs\<rparr>" and n = n and fn = "''ApplyNewSettings''"
      and source = "''servicelogger''"
      and msg = "''Log size limit has changed: '' @ showInt (rotatesize ?s3)
                   @ '' bytes --> '' @ showInt nrs @ '' bytes''", OF b3 op9 id4]
  obtain w11 where
    st4: "(if nrs \<noteq> rotatesize ?s3 then
             and_then
               (LogTrace ?N ?s3 ''ApplyNewSettings'' ''servicelogger''
                  (''Log size limit has changed: '' @ showInt (rotatesize ?s3)
                     @ '' bytes --> '' @ showInt nrs @ '' bytes'') w9)
               (\<lambda>_ w10. Some (Returned ?s4 w10))
           else Some (Returned ?s3 w9)) = Some (Returned ?s4 w11)"
    and r11: "refused w11 = refused w9" by blast
  have b4: "base ?s4 = Some h1" using b1 by simp
  have op11: "\<not> refused w11 ''open'' (filename ?s4)" using op9 r11 by simp
  have id5: "\<not> newKeep \<noteq> keep ?s4 \<Longrightarrow> ?s5 = ?s4" by simp
  from settings_step [where s = ?s4 and w = w11 and c = "newKeep \<noteq> keep ?s4"
      and g = "\<lambda>s. s\<lparr>keep := newKeep\<rparr>" and n = n and fn = "''ApplyNewSettings''"
      and source = "''servicelogger''"
      and msg = "''Number of log files to keep has changed: '' @ showInt (keep ?s4)
                   @ '' --> '' @ showInt newKeep", OF b4 op11 id5]
  obtain w13 where
    st5: "(if newKeep \<noteq> keep ?s4 then
             and_then
               (LogTrace ?N ?s4 ''ApplyNewSettings'' ''servicelogger''
                  (''Number of log files to keep has changed: '' @ showInt (keep ?s4)
                     @ '' --> '' @ showInt newKeep) w11)
               (\<lambda>_ w12. Some (Returned ?s5 w12))
           else Some (Returned ?s4 w11)) = Some (Returned ?s5 w13)"
    and r13: "refused w13 = refused w11" by blast
  have run: "ApplyNewSettings ?N slog newFile newLevel newRotation newRotSize newKeep w
      = Some (Returned (?s5, True) w13)"
    unfolding ApplyNewSettings_def
    apply (simp only: sz sum.case and_then_simps d if_True i)
    apply (simp only: st1 and_then_simps)
    apply (simp only: st2 and_then_simps)
    apply (simp only: st3 and_then_simps)
    apply (simp only: st4 and_then_simps)
    apply (simp only: st5 and_then_simps)
    done
  show ?thesis
    apply (rule exI [of _ ?s5])
    apply (rule exI [of _ w13])
    apply (simp only: run)
    apply (simp add: f1 fl1)
    done
qed

lemma settings_step_part000:
  assumes b: "base s = Some hb" and op: "\<not> refused w ''open'' (filename s)"
    and idg: "\<not> c \<Longrightarrow> g s = s"
    and gb: "\<And>sb. base (g sb) = base sb"
    and gc: "\<And>sb. same_config s sb \<Longrightarrow> same_config (g s) (g sb)"
  shows "\<exists>s' w' h.
           (if c then
              and_then (LogTrace_part000 (Suc (Suc (Suc (Suc n)))) s fn source msg w)
                (\<lambda>sb w6. Some (Returned (g sb) w6))
            else Some (Returned s w)) = Some (Returned s' w') \<and>
           refused w' = refused w \<and> base s' = Some h \<and> same_config (g s) s'"
proof (cases c)
  case True
  from LogTrace_part000_returns [OF b op, of n fn source msg] obtain sb w' h where
    "LogTrace_part000 (Suc (Suc (Suc (Suc n)))) s fn source msg w = Some (Returned sb w')"
    and "refused w' = refused w" and "base sb = Some h" and "same_config s sb" by blast
  with True gb [of sb] gc [of sb] show ?thesis by (simp only: if_True and_then_simps) auto
next
  case False
  with idg b show ?thesis by simp
qed

lemma settings_file_step_part000:
  assumes b: "base s = Some hb" and op: "\<not> refused w ''open'' (filename s)"
    and opn: "\<not> refused w ''open'' newFile"
  shows "\<exists>s1 w5 h.
      (if newFile \<noteq> filename s then
         and_then (LogTrace_part000 (Suc (Suc (Suc (Suc n)))) s fn source msg w)
           (\<lambda>sb w3.
              case OpenFile newFile mode_0640 w3 of
                (Inl err, w4) \<Rightarrow>
                  Some (log_Fatal (''FATAL: Unable to open log file: '' @ errorString err) w4)
              | (Inr h, w4) \<Rightarrow>
                  Some (Returned (sb\<lparr>filename := newFile, filehandle := Some h, base := Some h\<rparr>) w4))
       else Some (Returned s w)) = Some (Returned s1 w5) \<and>
      refused w5 = refused w \<and> base s1 = Some h \<and> same_config (s\<lparr>filename := newFile\<rparr>) s1"
proof (cases "newFile \<noteq> filename s")
  case False
  then show ?thesis using b by (simp add: same_config_def)
next
  case True
  from LogTrace_part000_returns [OF b op, of n fn source msg] obtain sb w3 where
    t: "LogTrace_part000 (Suc (Suc (Suc (Suc n)))) s fn source msg w = Some (Returned sb w3)"
    and r3: "refused w3 = refused w" and c: "same_config s sb" by blast
  from opn r3 have "\<not> refused w3 ''open'' newFile" by simp
  from OpenFile_not_refused [OF this, of mode_0640] obtain h w4 where
    o: "OpenFile newFile mode_0640 w3 = (Inr h, w4)" and r4: "refused w4 = refused w3" by blast
  show ?thesis
    apply (simp only: True if_True t and_then_simps o prod.case sum.case)
    using c apply (simp add: r4 r3 same_config_def)
    done
qed

lemma ApplyNewSettings_part000_applies:
  assumes sz: "logSizeStringToLogSizeInt64 newRotSize = Inr nrs"
    and d: "newFile \<noteq> filename slog \<or> newLevel \<noteq> MinLoglevel slog \<or> newRotation \<noteq> rotate_l slog
             \<or> nrs \<noteq> rotatesize slog \<or> newKeep \<noteq> keep slog"
    and b: "base slog = Some hb"
    and op: "\<not> refused w ''open'' (filename slog)"
    and opn: "\<not> refused w ''open'' newFile"
  shows "\<exists>l' w'.
      ApplyNewSettings_part000 (Suc (Suc (Suc (Suc n)))) slog newFile newLevel newRotation newRotSize
        newKeep w = Some (Returned (l', True) w') \<and>
      filename l' = newFile \<and> MinLoglevel l' = newLevel \<and> rotate_l l' = newRotation \<and>
      rotatesize l' = nrs \<and> keep l' = newKeep \<and> prefix_l l' = prefix_l slog \<and>
      filters l' = filters slog"
proof -
  let ?N = "Suc (Suc (Suc (Suc n)))"
  from LogInfo_part000_returns [OF b op, of "Suc n" "''ApplyNewSettings''" "''servicelogger''"
      "''Logging configuration has changed, applying new configuration''"]
  obtain sa w2 ha where
    i: "LogInfo_part000 ?N slog ''ApplyNewSettings'' ''servicelogger''
          ''Logging configuration has changed, applying new configuration'' w = Some (Returned sa w2)"
    and r2: "refused w2 = refused w" and ba: "base sa = Some ha" and ca: "same_config slog sa"
    by blast
  have fa: "filename sa = filename slog" using ca by (simp add: same_config_def)
  have op2: "\<not> refused w2 ''open'' (filename sa)" and opn2: "\<not> refused w2 ''open'' newFile"
    using op opn r2 fa by simp_all
  from settings_file_step_part000 [OF ba op2 opn2, of n "''ApplyNewSettings''" "''servicelogger''"
      "''Filename has changed. Closing '' @ filename sa @ '' and continuing logging in '' @ newFile"]
  obtain s1 w5 h1 where
    st1: "(if newFile \<noteq> filename sa then
         and_then (LogTrace_part000 ?N sa ''ApplyNewSettings'' ''servicelogger''
                     (''Filename has changed. Closing '' @ filename sa
                        @ '' and continuing logging in '' @ newFile) w2)
           (\<lambda>sb w3.
              case OpenFile newFile mode_0640 w3 of
                (Inl err, w4) \<Rightarrow>
                  Some (log_Fatal (''FATAL: Unable to open log file: '' @ errorString err) w4)
              | (Inr h, w4) \<Rightarrow>
                  Some (Returned (sb\<lparr>filename := newFile, filehandle := Some h, base := Some h\<rparr>) w4))
       else Some (Returned sa w2)) = Some (Returned s1 w5)"
    and r5: "refused w5 = refused w2" and b1: "base s1 = Some h1"
    and c1: "same_config (sa\<lparr>filename := newFile\<rparr>) s1"
    by blast
  have f1: "filename s1 = newFile" using c1 by (simp add: same_config_def)
  have op5: "\<not> refused w5 ''open'' (filename s1)" using opn2 r5 f1 by simp
  have id2: "\<not> newLevel \<noteq> MinLoglevel s1 \<Longrightarrow> s1\<lparr>MinLoglevel := newLevel\<rparr> = s1" by simp
  from settings_step_part000 [where s = s1 and w = w5 and c = "newLevel \<noteq> MinLoglevel s1"
      and g = "\<lambda>s. s\<lparr>MinLoglevel := newLevel\<rparr>" and n = n and fn = "''ApplyNewSettings''"
      and source = "''servicelogger''"
      and msg = "''Log level has changed: '' @ LogLevelToString (MinLoglevel s1)
                   @ '' --> '' @ LogLevelToString newLevel", OF b1 op5 id2]
  obtain s2 w7 h2 where
    st2: "(if newLevel \<noteq> MinLoglevel s1 then
             and_then
               (LogTrace_part000 ?N s1 ''ApplyNewSettings'' ''servicelogger''
                  (''Log level has changed: '' @ LogLevelToString (MinLoglevel s1)
                     @ '' --> '' @ LogLevelToString newLevel) w5)
               (\<lambda>sb w6. Some (Returned (sb\<lparr>MinLoglevel := newLevel\<rparr>) w6))
           else Some (Returned s1 w5)) = Some (Returned s2 w7)"
    and r7: "refused w7 = refused w5" and b2: "base s2 = Some h2"
    and c2: "same_config (s1\<lparr>MinLoglevel := newLevel\<rparr>) s2"
    by (auto simp: same_config_def)
  have f2: "filename s2 = newFile" using c2 f1 by (simp add: same_config_def)
  have op7: "\<not> refused w7 ''open'' (filename s2)" using opn2 r5 r7 f2 by simp
  have id3: "\<not> newRotation \<noteq> rotate_l s2 \<Longrightarrow> s2\<lparr>rotate_l := newRotation\<rparr> = s2" by simp
  from settings_step_part000 [where s = s2 and w = w7 and c = "newRotation \<noteq> rotate_l s2"
      and g = "\<lambda>s. s\<lparr>rotate_l := newRotation\<rparr>" and n = n and fn = "''ApplyNewSettings''"
      and source = "''servicelogger''"
      and msg = "if newRotation then ''Log rotation has been enabled''
                 else ''Log rotation has been disabled''", OF b2 op7 id3]
  obtain s3 w9 h3 where
    st3: "(if newRotation \<noteq> rotate_l s2 then
             and_then
               (LogTrace_part000 ?N s2 ''ApplyNewSettings'' ''servicelogger''
                  (if newRotation then ''Log rotation has been enabled''
                   else ''Log rotation has been disabled'') w7)
               (\<lambda>sb w8. Some (Returned (sb\<lparr>rotate_l := newRotation\<rparr>) w8))
           else Some (Returned s2 w7)) = Some (Returned s3 w9)"
    and r9: "refused w9 = refused w7" and b3: "base s3 = Some h3"
    and c3: "same_config (s2\<lparr>rotate_l := newRotation\<rparr>) s3"
    by (auto simp: same_config_def)
  have f3: "filename s3 = newFile" using c3 f2 by (simp add: same_config_def)
  have op9: "\<not> refused w9 ''open'' (filename s3)" using opn2 r5 r7 r9 f3 by simp
  have id4: "\<not> nrs \<noteq> rotatesize s3 \<Longrightarrow> s3\<lparr>rotatesize := nrs\<rparr> = s3" by simp
  from settings_step_part000 [where s = s3 and w = w9 and c = "nrs \<noteq> rotatesize s3"
      and g = "\<lambda>s. s\<lparr>rotatesize := nrs\<rparr>" and n = n and fn = "''ApplyNewSettings''"
      and source = "''servicelogger''"
      and msg = "''Log size limit has changed: '' @ showInt (rotatesize s3)
                   @ '' bytes --> '' @ showInt nrs @ '' bytes''", OF b3 op9 id4]
  obtain s4 w11 h4 where
    st4: "(if nrs \<noteq> rotatesize s3 then
             and_then
               (LogTrace_part000 ?N s3 ''ApplyNewSettings'' ''servicelogger''
                  (''Log size limit has changed: '' @ showInt (rotatesize s3)
                     @ '' bytes --> '' @ showInt nrs @ '' bytes'') w9)
               (\<lambda>sb w10. Some (Returned (sb\<lparr>rotatesize := nrs\<rparr>) w10))
           else Some (Returned s3 w9)) = Some (Returned s4 w11)"
    and r11: "refused w11 = refused w9" and b4: "base s4 = Some h4"
    and c4: "same_config (s3\<lparr>rotatesize := nrs\<rparr>) s4"
    by (auto simp: same_config_def)
  have f4: "filename s4 = newFile" using c4 f3 by (simp add: same_config_def)
  have op11: "\<not> refused w11 ''open'' (filename s4)" using opn2 r5 r7 r9 r11 f4 by simp
  have id5: "\<not> newKeep \<noteq> keep s4 \<Longrightarrow> s4\<lparr>keep := newKeep\<rparr> = s4" by simp
  from settings_step_part000 [where s = s4 and w = w11 and c = "newKeep \<noteq> keep s4"
      and g = "\<lambda>s. s\<lparr>keep := newKeep\<rparr>" and n = n and fn = "''ApplyNewSettings''"
      and source = "''servicelogger''"
      and msg = "''Number of log files to keep has changed: '' @ showInt (keep s4)
                   @ '' --> '' @ showInt newKeep", OF b4 op11 id5]
  obtain s5 w13 h5 where
    st5: "(if newKeep \<noteq> keep s4 then
             and_then
               (LogTrace_part000 ?N s4 ''ApplyNewSettings'' ''servicelogger''
                  (''Number of log files to keep has changed: '' @ showInt (keep s4)
                     @ '' --> '' @ showInt newKeep) w11)
               (\<lambda>sb w12. Some (Returned (sb\<lparr>keep := newKeep\<rparr>) w12))
           else Some (Returned s4 w11)) = Some (Returned s5 w13)"
    and r13: "refused w13 = refused w11" and b5: "base s5 = Some h5"
    and c5: "same_config (s4\<lparr>keep := newKeep\<rparr>) s5"
    by (auto simp: same_config_def)
  have run: "ApplyNewSettings_part000 ?N slog newFile newLevel newRotation newRotSize newKeep w
      = Some (Returned (s5, True) w13)"
    unfolding ApplyNewSettings_part000_def
    apply (simp only: sz sum.case and_then_simps prod.case d if_True i)
    apply (simp only: st1 and_then_simps)
    apply (simp only: st2 and_then_simps)
    apply (simp only: st3 and_then_simps)
    apply (simp only: st4 and_then_simps)
    apply (simp only: st5 and_then_simps)
    done
  show ?thesis
    apply (rule exI [of _ s5])
    apply (rule exI [of _ w13])
    apply (simp only: run)
    using ca c1 c2 c3 c4 c5 apply (simp add: same_config_def)
    done
qed

lemma never_returns_false_neq:
  "never_returns_false r \<Longrightarrow> r \<noteq> Some (Returned (l, False) w)"
  by (auto simp: never_returns_false_def)

text \<open>When the new log file cannot be opened, the process ends with status 1.\<close>

lemma OpenFile_refused:
  "refused w ''open'' p \<Longrightarrow> OpenFile p m w = (Inl (Refused ''open'' p), w)"
  by (simp add: OpenFile_def)

lemma ApplyNewSettings_open_refused:
  assumes sz: "logSizeStringToLogSizeInt64 newRotSize = Inr nrs"
    and nf: "newFile \<noteq> filename slog"
    and b: "base slog = Some hb"
    and op: "\<not> refused w ''open'' (filename slog)"
    and rf: "refused w ''open'' newFile"
  shows "\<exists>w'. ApplyNewSettings (Suc (Suc (Suc (Suc n)))) slog newFile newLevel newRotation newRotSize
                 newKeep w = Some (Exited 1 w')"
    and "\<exists>w'. ApplyNewSettings_part000 (Suc (Suc (Suc (Suc n)))) slog newFile newLevel newRotation
                 newRotSize newKeep w = Some (Exited 1 w')"
proof -
  let ?N = "Suc (Suc (Suc (Suc n)))"
  from nf have d: "newFile \<noteq> filename slog \<or> newLevel \<noteq> MinLoglevel slog \<or> newRotation \<noteq> rotate_l slog
             \<or> nrs \<noteq> rotatesize slog \<or> newKeep \<noteq> keep slog" by simp
  show "\<exists>w'. ApplyNewSettings ?N slog newFile newLevel newRotation newRotSize newKeep w
          = Some (Exited 1 w')"
  proof -
    from LogInfo_returns [OF b op, of "Suc n" "''ApplyNewSettings''" "''servicelogger''"
        "''Logging configuration has changed, applying new configuration''"]
    obtain w2 where
      i: "LogInfo ?N slog ''ApplyNewSettings'' ''servicelogger''
            ''Logging configuration has changed, applying new configuration'' w = Some (Returned () w2)"
      and r2: "refused w2 = refused w" by blast
    have op2: "\<not> refused w2 ''open'' (filename slog)" using op r2 by simp
    from LogTrace_returns [OF b op2, of n "''ApplyNewSettings''" "''servicelogger''"
        "''Filename has changed. Closing '' @ filename slog @ '' and continuing logging in '' @ newFile"]
    obtain w3 where
      t: "LogTrace ?N slog ''ApplyNewSettings'' ''servicelogger''
            (''Filename has changed. Closing '' @ filename slog
               @ '' and continuing logging in '' @ newFile) w2 = Some (Returned () w3)"
      and r3: "refused w3 = refused w2" by blast
    have "refused w3 ''open'' newFile" using rf r2 r3 by simp
    note o = OpenFile_refused [OF this, of mode_0640]
    show ?thesis
      unfolding ApplyNewSettings_def
      apply (simp only: sz sum.case and_then_simps d if_True i)
      apply (simp only: nf not_False_eq_True if_True t and_then_simps o prod.case sum.case)
      apply (simp only: log_Fatal_def and_then_simps)
      apply (rule exI)
      apply (rule refl)
      done
  qed
  show "\<exists>w'. ApplyNewSettings_part000 ?N slog newFile newLevel newRotation newRotSize newKeep w
          = Some (Exited 1 w')"
  proof -
    from LogInfo_part000_returns [OF b op, of "Suc n" "''ApplyNewSettings''" "''servicelogger''"
        "''Logging configuration has changed, applying new configuration''"]
    obtain sa w2 ha where
      i: "LogInfo_part000 ?N slog ''ApplyNewSettings'' ''servicelogger''
            ''Logging configuration has changed, applying new configuration'' w = Some (Returned sa w2)"
      and r2: "refused w2 = refused w" and ba: "base sa = Some ha" and ca: "same_config slog sa"
      by blast
    have fa: "filename sa = filename slog" using ca by (simp add: same_config_def)
    have nfa: "newFile \<noteq> filename sa" using nf fa by simp
    have op2: "\<not> refused w2 ''open'' (filename sa)" using op r2 fa by simp
    from LogTrace_part000_returns [OF ba op2, of n "''ApplyNewSettings''" "''servicelogger''"
        "''Filename has changed. Closing '' @ filename sa @ '' and continuing logging in '' @ newFile"]
    obtain sb w3 where
      t: "LogTrace_part000 ?N sa ''ApplyNewSettings'' ''servicelogger''
            (''Filename has changed. Closing '' @ filename sa
               @ '' and continuing logging in '' @ newFile) w2 = Some (Returned sb w3)"
      and r3: "refused w3 = refused w2" by blast
    have "refused w3 ''open'' newFile" using rf r2 r3 by simp
    note o = OpenFile_refused [OF this, of mode_0640]
    show ?thesis
      unfolding ApplyNewSettings_part000_def
      apply (simp only: sz sum.case and_then_simps prod.case d if_True i)
      apply (simp only: nfa not_False_eq_True if_True t and_then_simps o prod.case sum.case)
      apply (simp only: log_Fatal_def and_then_simps)
      apply (rule exI)
      apply (rule refl)
      done
  qed
qed

text \<open>
  C7, as stated: \<^verbatim>\<open>ApplyNewSettings\<close> returns \<^verbatim>\<open>true\<close> whenever at least one field differs. On a
  logger that does not rotate, with only the file path changed and the new path refused on
  opening, \<^verbatim>\<open>ApplyNewSettings\<close> of either version logs the change and then ends the process
  with status 1 (\<^verbatim>\<open>log.Fatal("FATAL: Unable to open log file: " + err.Error())\<close>): it returns
  nothing.
\<close>

theorem ApplyNewSettings_open_refused_counterexample:
  "(\<exists>w'. ApplyNewSettings 4 (rot_logger\<lparr>rotate_l := False, rotatesize := 10240\<rparr>)
            ''new.log'' LL_INFO False ''10K'' 3
            (rot_world\<lparr>refused := (\<lambda>opn path. opn = ''open'' \<and> path = ''new.log'')\<rparr>)
          = Some (Exited 1 w')) \<and>
   (\<exists>w'. ApplyNewSettings_part000 4 (rot_logger\<lparr>rotate_l := False, rotatesize := 10240\<rparr>)
            ''new.log'' LL_INFO False ''10K'' 3
            (rot_world\<lparr>refused := (\<lambda>opn path. opn = ''open'' \<and> path = ''new.log'')\<rparr>)
          = Some (Exited 1 w'))"
proof -
  let ?l = "rot_logger\<lparr>rotate_l := False, rotatesize := 10240\<rparr>"
  let ?w = "rot_world\<lparr>refused := (\<lambda>opn path. opn = ''open'' \<and> path = ''new.log'')\<rparr>"
  have four: "Suc (Suc (Suc (Suc 0))) = 4" by simp
  have sz: "logSizeStringToLogSizeInt64 ''10K'' = Inr 10240" by (simp add: logSize_eval)
  have nf: "''new.log'' \<noteq> filename ?l" by (simp add: rot_logger_def)
  have b: "base ?l = Some 0" by (simp add: rot_logger_def)
  have op: "\<not> refused ?w ''open'' (filename ?l)" by (simp add: rot_logger_def)
  have rf: "refused ?w ''open'' ''new.log''" by simp
  note a = ApplyNewSettings_open_refused [OF sz nf b op rf, of 0 LL_INFO False 3, unfolded four]
  from a(1) a(2) show ?thesis by (intro conjI)
qed

text \<open>
  C7, amended: when the size string parses, \<^verbatim>\<open>ApplyNewSettings\<close> of either version, called with
  the file path, minimum level, rotation flag, parsed size and keep count the logger has,
  returns \<^verbatim>\<open>false\<close> with the logger and the world as they were: no field changes, nothing is
  written to the log or printed. When at least one of the five differs, it never returns
  \<^verbatim>\<open>false\<close>; and on a logger with an open writer, when neither the current log file nor the
  new one is refused on opening, it returns \<^verbatim>\<open>true\<close> with the five fields set to the new
  values.
\<close>

theorem ApplyNewSettings_reports_change:
  assumes sz: "logSizeStringToLogSizeInt64 newRotSize = Inr nrs"
  shows
    "(newFile = filename slog \<and> newLevel = MinLoglevel slog \<and> newRotation = rotate_l slog \<and>
      nrs = rotatesize slog \<and> newKeep = keep slog \<longrightarrow>
        ApplyNewSettings n slog newFile newLevel newRotation newRotSize newKeep w
          = Some (Returned (slog, False) w) \<and>
        ApplyNewSettings_part000 n slog newFile newLevel newRotation newRotSize newKeep w
          = Some (Returned (slog, False) w)) \<and>
     (newFile \<noteq> filename slog \<or> newLevel \<noteq> MinLoglevel slog \<or> newRotation \<noteq> rotate_l slog \<or>
      nrs \<noteq> rotatesize slog \<or> newKeep \<noteq> keep slog \<longrightarrow>
        (\<forall>l' w'. ApplyNewSettings n slog newFile newLevel newRotation newRotSize newKeep w
                   \<noteq> Some (Returned (l', False) w')) \<and>
        (\<forall>l' w'. ApplyNewSettings_part000 n slog newFile newLevel newRotation newRotSize newKeep w
                   \<noteq> Some (Returned (l', False) w')) \<and>
        (base slog = Some hb \<and> \<not> refused w ''open'' (filename slog) \<and>
         \<not> refused w ''open'' newFile \<longrightarrow>
           (\<exists>l' w'. ApplyNewSettings (Suc (Suc (Suc (Suc n)))) slog newFile newLevel newRotation
                        newRotSize newKeep w = Some (Returned (l', True) w') \<and>
                     filename l' = newFile \<and> MinLoglevel l' = newLevel \<and>
                     rotate_l l' = newRotation \<and> rotatesize l' = nrs \<and> keep l' = newKeep) \<and>
           (\<exists>l' w'. ApplyNewSettings_part000 (Suc (Suc (Suc (Suc n)))) slog newFile newLevel
                        newRotation newRotSize newKeep w = Some (Returned (l', True) w') \<and>
                     filename l' = newFile \<and> MinLoglevel l' = newLevel \<and>
                     rotate_l l' = newRotation \<and> rotatesize l' = nrs \<and> keep l' = newKeep)))"
proof (intro conjI impI allI)
  assume same: "newFile = filename slog \<and> newLevel = MinLoglevel slog \<and> newRotation = rotate_l slog \<and>
      nrs = rotatesize slog \<and> newKeep = keep slog"
  with sz have sz': "logSizeStringToLogSizeInt64 newRotSize = Inr (rotatesize slog)" by simp
  from ApplyNewSettings_same(1) [OF sz', of n w] same
  show "ApplyNewSettings n slog newFile newLevel newRotation newRotSize newKeep w
          = Some (Returned (slog, False) w)" by simp
  from ApplyNewSettings_same(2) [OF sz', of n w] same
  show "ApplyNewSettings_part000 n slog newFile newLevel newRotation newRotSize newKeep w
          = Some (Returned (slog, False) w)" by simp
next
  fix l' w'
  assume d: "newFile \<noteq> filename slog \<or> newLevel \<noteq> MinLoglevel slog \<or> newRotation \<noteq> rotate_l slog \<or>
      nrs \<noteq> rotatesize slog \<or> newKeep \<noteq> keep slog"
  from ApplyNewSettings_never_false(1) [OF sz d]
  show "ApplyNewSettings n slog newFile newLevel newRotation newRotSize newKeep w
          \<noteq> Some (Returned (l', False) w')" by (rule never_returns_false_neq)
next
  fix l' w'
  assume d: "newFile \<noteq> filename slog \<or> newLevel \<noteq> MinLoglevel slog \<or> newRotation \<noteq> rotate_l slog \<or>
      nrs \<noteq> rotatesize slog \<or> newKeep \<noteq> keep slog"
  from ApplyNewSettings_never_false(2) [OF sz d]
  show "ApplyNewSettings_part000 n slog newFile newLevel newRotation newRotSize newKeep w
          \<noteq> Some (Returned (l', False) w')" by (rule never_returns_false_neq)
next
  assume d: "newFile \<noteq> filename slog \<or> newLevel \<noteq> MinLoglevel slog \<or> newRotation \<noteq> rotate_l slog \<or>
      nrs \<noteq> rotatesize slog \<or> newKeep \<noteq> keep slog"
    and e: "base slog = Some hb \<and> \<not> refused w ''open'' (filename slog) \<and>
         \<not> refused w ''open'' newFile"
  from e have b: "base slog = Some hb" and op: "\<not> refused w ''open'' (filename slog)"
    and opn: "\<not> refused w ''open'' newFile" by simp_all
  from ApplyNewSettings_applies [OF sz d b op opn, of n]
  show "\<exists>l' w'. ApplyNewSettings (Suc (Suc (Suc (Suc n)))) slog newFile newLevel newRotation
                        newRotSize newKeep w = Some (Returned (l', True) w') \<and>
                     filename l' = newFile \<and> MinLoglevel l' = newLevel \<and>
                     rotate_l l' = newRotation \<and> rotatesize l' = nrs \<and> keep l' = newKeep"
    by blast
  from ApplyNewSettings_part000_applies [OF sz d b op opn, of n]
  show "\<exists>l' w'. ApplyNewSettings_part000 (Suc (Suc (Suc (Suc n)))) slog newFile newLevel
                        newRotation newRotSize newKeep w = Some (Returned (l', True) w') \<and>
                     filename l' = newFile \<and> MinLoglevel l' = newLevel \<and>
                     rotate_l l' = newRotation \<and> rotatesize l' = nrs \<and> keep l' = newKeep"
    by blast
qed

theorem ApplyNewSettings_reports_change_witness:
  "logSizeStringToLogSizeInt64 ''10K'' = Inr 10240 \<and>
   ApplyNewSettings 4 (rot_logger\<lparr>rotatesize := 10240\<rparr>) ''app.log'' LL_INFO True ''10K'' 3 rot_world
     = Some (Returned (rot_logger\<lparr>rotatesize := 10240\<rparr>, False) rot_world) \<and>
   ApplyNewSettings_part000 4 (rot_logger\<lparr>rotatesize := 10240\<rparr>) ''app.log'' LL_INFO True ''10K'' 3
     rot_world = Some (Returned (rot_logger\<lparr>rotatesize := 10240\<rparr>, False) rot_world) \<and>
   10240 \<noteq> rotatesize rot_logger \<and> base rot_logger = Some 0 \<and>
   \<not> refused rot_world ''open'' (filename rot_logger) \<and> \<not> refused rot_world ''open'' ''new.log'' \<and>
   (\<exists>l' w'. ApplyNewSettings 4 rot_logger ''new.log'' LL_DEBUG False ''10K'' 5 rot_world
               = Some (Returned (l', True) w') \<and>
             filename l' = ''new.log'' \<and> MinLoglevel l' = LL_DEBUG \<and> rotate_l l' = False \<and>
             rotatesize l' = 10240 \<and> keep l' = 5) \<and>
   (\<exists>l' w'. ApplyNewSettings_part000 4 rot_logger ''new.log'' LL_DEBUG False ''10K'' 5 rot_world
               = Some (Returned (l', True) w') \<and>
             filename l' = ''new.log'' \<and> MinLoglevel l' = LL_DEBUG \<and> rotate_l l' = False \<and>
             rotatesize l' = 10240 \<and> keep l' = 5) \<and>
   (\<forall>l' w'. ApplyNewSettings 4 rot_logger ''new.log'' LL_DEBUG False ''10K'' 5 rot_world
               \<noteq> Some (Returned (l', False) w'))"
proof -
  have four: "Suc (Suc (Suc (Suc 0))) = 4" by simp
  have sz: "logSizeStringToLogSizeInt64 ''10K'' = Inr 10240" by (simp add: logSize_eval)
  have same: "''app.log'' = filename (rot_logger\<lparr>rotatesize := 10240\<rparr>) \<and>
      LL_INFO = MinLoglevel (rot_logger\<lparr>rotatesize := 10240\<rparr>) \<and>
      True = rotate_l (rot_logger\<lparr>rotatesize := 10240\<rparr>) \<and>
      10240 = rotatesize (rot_logger\<lparr>rotatesize := 10240\<rparr>) \<and>
      3 = keep (rot_logger\<lparr>rotatesize := 10240\<rparr>)"
    by (simp add: rot_logger_def)
  note inst1 = ApplyNewSettings_reports_change [OF sz,
      where slog = "rot_logger\<lparr>rotatesize := 10240\<rparr>" and newFile = "''app.log''"
        and newLevel = LL_INFO and newRotation = True and newKeep = 3 and n = 4 and w = rot_world]
  from inst1 same have a1:
    "ApplyNewSettings 4 (rot_logger\<lparr>rotatesize := 10240\<rparr>) ''app.log'' LL_INFO True ''10K'' 3 rot_world
       = Some (Returned (rot_logger\<lparr>rotatesize := 10240\<rparr>, False) rot_world)"
    and a2: "ApplyNewSettings_part000 4 (rot_logger\<lparr>rotatesize := 10240\<rparr>) ''app.log'' LL_INFO True
       ''10K'' 3 rot_world = Some (Returned (rot_logger\<lparr>rotatesize := 10240\<rparr>, False) rot_world)"
    by blast+
  have d: "10240 \<noteq> rotatesize rot_logger" by (simp add: rot_logger_def)
  have b: "base rot_logger = Some 0" by (simp add: rot_logger_def)
  have op: "\<not> refused rot_world ''open'' (filename rot_logger)" by (simp add: rot_world_def)
  have opn: "\<not> refused rot_world ''open'' ''new.log''" by (simp add: rot_world_def)
  note inst2 = ApplyNewSettings_reports_change [OF sz,
      where slog = rot_logger and newFile = "''new.log''" and newLevel = LL_DEBUG
        and newRotation = False and newKeep = 5 and n = 0 and w = rot_world and hb = 0,
      unfolded four]
  from inst2 d b op opn have a3:
    "\<exists>l' w'. ApplyNewSettings 4 rot_logger ''new.log'' LL_DEBUG False ''10K'' 5 rot_world
               = Some (Returned (l', True) w') \<and>
             filename l' = ''new.log'' \<and> MinLoglevel l' = LL_DEBUG \<and> rotate_l l' = False \<and>
             rotatesize l' = 10240 \<and> keep l' = 5"
    and a4: "\<exists>l' w'. ApplyNewSettings_part000 4 rot_logger ''new.log'' LL_DEBUG False ''10K'' 5 rot_world
               = Some (Returned (l', True) w') \<and>
             filename l' = ''new.log'' \<and> MinLoglevel l' = LL_DEBUG \<and> rotate_l l' = False \<and>
             rotatesize l' = 10240 \<and> keep l' = 5"
    by blast+
  note inst3 = ApplyNewSettings_reports_change [OF sz,
      where slog = rot_logger and newFile = "''new.log''" and newLevel = LL_DEBUG
        and newRotation = False and newKeep = 5 and n = 4 and w = rot_world]
  from inst3 d have a5: "\<forall>l' w'. ApplyNewSettings 4 rot_logger ''new.log'' LL_DEBUG False ''10K'' 5 rot_world
               \<noteq> Some (Returned (l', False) w')"
    by blast
  from sz a1 a2 d b op opn a3 a4 a5 show ?thesis by (intro conjI)
qed

end
